theory Spec2Isabelle
  imports Complex_Main "HOL-Library.Word"
begin

unbundle bit_operations_syntax

chapter \<open>The crosspost gateway: validation, dispatch, envelope, scheduler\<close>

text \<open>
  A shallow embedding of the gateway's core: \<^verbatim>\<open>platform-capabilities.ts\<close>,
  \<^verbatim>\<open>preflight-service.ts\<close>, \<^verbatim>\<open>crosspost-service.ts\<close>, \<^verbatim>\<open>security/crypto.ts\<close>,
  \<^verbatim>\<open>store/job-store.ts\<close> and \<^verbatim>\<open>scheduler-service.ts\<close>.

  Conventions. A function that can throw returns \<open>thrown + 'a\<close> (\<open>Inl\<close> is the thrown
  value). Module state (the Mastodon limits cache, the job store, the media folders on
  disk) is passed in and returned. What the code obtains from outside the repository
  (HTTP responses, the clock, the publishing clients, the primitives of \<^verbatim>\<open>node:crypto\<close>,
  \<^verbatim>\<open>Buffer\<close> and \<^verbatim>\<open>JSON\<close>) is a parameter. Field names are the source's; a field shared by
  two interfaces is written qualified (\<open>StoredJob.status\<close>), and \<^verbatim>\<open>id\<close>, \<^verbatim>\<open>text\<close>, \<^verbatim>\<open>identifier\<close> and the
  \<^verbatim>\<open>x\<close> of \<^verbatim>\<open>Targets\<close> carry a suffix because the plain names are taken.
\<close>

section \<open>JavaScript strings\<close>

text \<open>
  A JavaScript string is a sequence of UTF-16 code units. Segment texts are modelled as
  such, because their length is what validation measures. Identifiers, MIME types, URLs
  and messages are modelled as \<^typ>\<open>string\<close>.
\<close>

type_synonym utf16 = "16 word list"

definition isHighSurrogate :: "16 word \<Rightarrow> bool" where
  "isHighSurrogate u = (0xD800 \<le> unat u \<and> unat u \<le> 0xDBFF)"

definition isLowSurrogate :: "16 word \<Rightarrow> bool" where
  "isLowSurrogate u = (0xDC00 \<le> unat u \<and> unat u \<le> 0xDFFF)"

text \<open>
  The string iterator behind \<^verbatim>\<open>[...text]\<close>: a high surrogate directly followed by a low
  surrogate is one code point, every other code unit (a lone surrogate too) is one code
  point of its own.
\<close>

fun codePoints :: "utf16 \<Rightarrow> nat list" where
  "codePoints [] = []"
| "codePoints [u] = [unat u]"
| "codePoints (u # v # rest) =
     (if isHighSurrogate u \<and> isLowSurrogate v
      then (0x10000 + (unat u - 0xD800) * 0x400 + (unat v - 0xDC00)) # codePoints rest
      else unat u # codePoints (v # rest))"

definition countCodePoints :: "utf16 \<Rightarrow> nat" where
  "countCodePoints t = length (codePoints t)"

text \<open>The UTF-16 encoding of Unicode scalar values, to state what is counted.\<close>

definition isScalarValue :: "nat \<Rightarrow> bool" where
  "isScalarValue cp = (cp < 0x110000 \<and> \<not> (0xD800 \<le> cp \<and> cp \<le> 0xDFFF))"

definition utf16Encode :: "nat \<Rightarrow> utf16" where
  "utf16Encode cp =
     (if cp < 0x10000 then [of_nat cp]
      else [of_nat (0xD800 + (cp - 0x10000) div 0x400),
            of_nat (0xDC00 + (cp - 0x10000) mod 0x400)])"

definition toUtf16 :: "nat list \<Rightarrow> utf16" where
  "toUtf16 cps = concat (map utf16Encode cps)"

text \<open>The number of bytes of the UTF-8 encoding of a scalar value.\<close>

definition utf8Length :: "nat \<Rightarrow> nat" where
  "utf8Length cp = (if cp < 0x80 then 1 else if cp < 0x800 then 2 else if cp < 0x10000 then 3 else 4)"

text \<open>
  \<^verbatim>\<open>String.prototype.trim\<close> strips the WhiteSpace and LineTerminator code points of
  ECMAScript from both ends; all of them are single code units.
\<close>

definition isWhiteSpace :: "16 word \<Rightarrow> bool" where
  "isWhiteSpace u =
     (unat u \<in> {0x9, 0xA, 0xB, 0xC, 0xD, 0x20, 0xA0, 0x1680, 0x2028, 0x2029, 0x202F,
                0x205F, 0x3000, 0xFEFF}
      \<or> (0x2000 \<le> unat u \<and> unat u \<le> 0x200A))"

definition trim :: "utf16 \<Rightarrow> utf16" where
  "trim s = rev (dropWhile isWhiteSpace (rev (dropWhile isWhiteSpace s)))"

text \<open>Decimal rendering of a number inside a template literal.\<close>

fun decimal :: "nat \<Rightarrow> string" where
  "decimal n =
     (if n < 10 then [''0123456789'' ! n]
      else decimal (n div 10) @ [''0123456789'' ! (n mod 10)])"

declare decimal.simps [simp del]

text \<open>
  \<^verbatim>\<open>toLowerCase\<close> on the letters A to Z. (Of the other code points only U+0130 has an
  ASCII letter in its lower-case form, followed by a combining dot; it cannot complete
  one of the prefixes compared below.)
\<close>

definition toLowerChar :: "char \<Rightarrow> char" where
  "toLowerChar c =
     (let n = (of_char c :: nat) in if 65 \<le> n \<and> n \<le> 90 then char_of (n + 32) else c)"

definition toLowerCase :: "string \<Rightarrow> string" where
  "toLowerCase s = map toLowerChar s"

definition startsWith :: "string \<Rightarrow> string \<Rightarrow> bool" where
  "startsWith s p = (take (length p) s = p)"

section \<open>Problems and thrown values (problem.ts)\<close>

record ProblemDetails =
  type :: string
  title :: string
  status :: nat
  detail :: "string option"

text \<open>
  What a \<^verbatim>\<open>catch\<close> can receive: an \<^verbatim>\<open>HttpProblem\<close>, another \<^verbatim>\<open>Error\<close> with its message,
  or a value that is not an \<^verbatim>\<open>Error\<close> (with its \<^verbatim>\<open>String(...)\<close> rendering).
\<close>

datatype thrown =
    HttpProblem ProblemDetails
  | Error string
  | NonError string

text \<open>\<^verbatim>\<open>super(details.detail ?? details.title)\<close>\<close>

definition problemMessage :: "ProblemDetails \<Rightarrow> string" where
  "problemMessage d = (case detail d of Some m \<Rightarrow> m | None \<Rightarrow> title d)"

text \<open>\<^verbatim>\<open>error instanceof Error\<close> with \<^verbatim>\<open>error.message\<close>\<close>

fun errorMessage :: "thrown \<Rightarrow> string option" where
  "errorMessage (HttpProblem d) = Some (problemMessage d)"
| "errorMessage (Error m) = Some m"
| "errorMessage (NonError s) = None"

text \<open>\<^verbatim>\<open>error instanceof Error ? error.message : String(error)\<close>\<close>

fun messageOrString :: "thrown \<Rightarrow> string" where
  "messageOrString (HttpProblem d) = problemMessage d"
| "messageOrString (Error m) = m"
| "messageOrString (NonError s) = s"

definition andThen :: "('e + unit) \<Rightarrow> ('e + 'a) \<Rightarrow> 'e + 'a" where
  "andThen r k = (case r of Inl e \<Rightarrow> Inl e | Inr u \<Rightarrow> k)"

section \<open>The data model (types.ts)\<close>

type_synonym bytes = "8 word list"

record XTarget =
  authToken :: string
  client :: "string option"

record BlueskyTarget =
  identifier' :: string
  pdsUrl :: string
  appPassword :: string

record MastodonTarget =
  instanceUrl :: string
  accessToken :: string
  visibility :: "string option"

record Targets =
  x_target :: "XTarget option"
  bluesky :: "BlueskyTarget option"
  mastodon :: "MastodonTarget option"

record IncomingMedia =
  buffer :: bytes
  fileName :: string
  mimeType :: string
  altText :: "string option"

record PostSegment =
  text' :: utf16
  media :: "IncomingMedia list"

record PublishRequest =
  targets :: Targets
  segments :: "PostSegment list"
  clientRequestId :: "string option"

datatype PlatformName = PlatformX | PlatformBluesky | PlatformMastodon

record TargetDeliverySuccess =
  platform :: PlatformName
  id' :: string
  url :: "string option"
  raw :: "string option"

datatype TargetDelivery =
    DeliverySuccess TargetDeliverySuccess
  | DeliveryFailure PlatformName string

fun ok :: "TargetDelivery \<Rightarrow> bool" where
  "ok (DeliverySuccess s) = True"
| "ok (DeliveryFailure p e) = False"

datatype Overall = OverallSuccess | OverallPartial

record CrosspostDispatchResult =
  overall :: Overall
  postedAt :: string
  clientRequestId :: "string option"
  deliveries :: "PlatformName \<rightharpoonup> TargetDelivery"

datatype JobStatus = Scheduled | Running | Succeeded | Partial | Failed | Cancelled

section \<open>JSON values and the Mastodon limits (platform-capabilities.ts)\<close>

text \<open>
  A parsed JSON document. \<^verbatim>\<open>JSON.parse\<close> yields finite numbers or, on overflow, an
  infinity; a finite double is a real number and \<^verbatim>\<open>Math.floor\<close> is exact on it.
\<close>

datatype js_number = Finite real | Infinite

datatype json =
    JNull
  | JBool bool
  | JNumber js_number
  | JString string
  | JArray "json list"
  | JObject "(string \<times> json) list"

text \<open>Property access on a value that is not null; \<open>None\<close> is \<^verbatim>\<open>undefined\<close>.\<close>

fun getProp :: "json \<Rightarrow> string \<Rightarrow> json option" where
  "getProp (JObject kvs) k = map_of kvs k"
| "getProp v k = None"

text \<open>Optional chaining \<^verbatim>\<open>v?.k\<close> on a value that may be \<^verbatim>\<open>undefined\<close> or \<^verbatim>\<open>null\<close>.\<close>

fun optChain :: "json option \<Rightarrow> string \<Rightarrow> json option" where
  "optChain None k = None"
| "optChain (Some JNull) k = None"
| "optChain (Some v) k = getProp v k"

fun truthy :: "json option \<Rightarrow> bool" where
  "truthy None = False"
| "truthy (Some JNull) = False"
| "truthy (Some (JBool b)) = b"
| "truthy (Some (JNumber (Finite r))) = (r \<noteq> 0)"
| "truthy (Some (JNumber Infinite)) = True"
| "truthy (Some (JString s)) = (s \<noteq> [])"
| "truthy (Some (JArray vs)) = True"
| "truthy (Some (JObject kvs)) = True"

record MastodonInstanceLimits =
  instanceUrl :: string
  maxCharacters :: int
  maxMediaAttachments :: int
  charactersReservedPerUrl :: int
  supportedMimeTypes :: "json list"
  imageSizeLimit :: int
  videoSizeLimit :: int
  fetchedAt :: string

record CacheEntry =
  expiresAt :: nat
  data :: MastodonInstanceLimits

type_synonym limitsCache = "string \<rightharpoonup> CacheEntry"

definition MASTODON_CACHE_TTL_MS :: nat where
  "MASTODON_CACHE_TTL_MS = 5 * 60 * 1000"

definition X_MAX_CHARACTERS :: nat where
  "X_MAX_CHARACTERS = 280"

definition BLUESKY_MAX_CHARACTERS :: nat where
  "BLUESKY_MAX_CHARACTERS = 300"

text \<open>\<^verbatim>\<open>instanceUrl.replace(/\/$/, "")\<close>: one trailing slash is removed.\<close>

definition normalizeMastodonInstanceUrl :: "string \<Rightarrow> string" where
  "normalizeMastodonInstanceUrl u = (if u \<noteq> [] \<and> last u = CHR ''/'' then butlast u else u)"

definition toInteger :: "json option \<Rightarrow> int \<Rightarrow> int" where
  "toInteger v fallback = (case v of Some (JNumber (Finite r)) \<Rightarrow> \<lfloor>r\<rfloor> | _ \<Rightarrow> fallback)"

text \<open>
  The outcome of \<^verbatim>\<open>fetch\<close>: it rejects, or resolves to a response with a status code
  and a body that \<^verbatim>\<open>response.json()\<close> parses or fails to parse.
\<close>

datatype fetch_outcome =
    Rejected thrown
  | Resolved nat "thrown + json"

text \<open>The outside world as one operation observes it.\<close>

record world =
  fetch :: "string \<Rightarrow> (string \<times> string) list \<Rightarrow> fetch_outcome"
  dateNow :: nat
  isoNow :: string

definition readLimits :: "string \<Rightarrow> string \<Rightarrow> json \<Rightarrow> thrown + MastodonInstanceLimits" where
  "readLimits normalized stamp payload =
     (if payload = JNull
      then Inl (Error (''Cannot read properties of null (reading '' @ [CHR 0x27]
             @ ''configuration'' @ [CHR 0x27] @ '')''))
      else
        let configuration = getProp payload ''configuration'';
            statusConfig = optChain configuration ''statuses'';
            mediaConfig = optChain configuration ''mediaAttachments''
        in if \<not> truthy statusConfig
           then Inl (HttpProblem \<lparr>
                  type = ''https://api.crosspost.local/problems/mastodon-instance-invalid'',
                  title = ''Mastodon instance configuration missing'',
                  status = 502,
                  detail = Some (''Could not read posting limits from '' @ normalized)\<rparr>)
           else Inr \<lparr>
                  MastodonInstanceLimits.instanceUrl = normalized,
                  maxCharacters = toInteger (optChain statusConfig ''maxCharacters'') 500,
                  maxMediaAttachments = toInteger (optChain statusConfig ''maxMediaAttachments'') 4,
                  charactersReservedPerUrl =
                    toInteger (optChain statusConfig ''charactersReservedPerUrl'') 23,
                  supportedMimeTypes =
                    (case optChain mediaConfig ''supportedMimeTypes'' of
                       Some (JArray vs) \<Rightarrow> vs | _ \<Rightarrow> []),
                  imageSizeLimit = toInteger (optChain mediaConfig ''imageSizeLimit'') 0,
                  videoSizeLimit = toInteger (optChain mediaConfig ''videoSizeLimit'') 0,
                  fetchedAt = stamp\<rparr>)"

definition requestHeaders :: "string option \<Rightarrow> (string \<times> string) list" where
  "requestHeaders token =
     (case token of
        None \<Rightarrow> [(''accept'', ''application/json'')]
      | Some t \<Rightarrow>
          if t = [] then [(''accept'', ''application/json'')]
          else [(''accept'', ''application/json''), (''authorization'', ''Bearer '' @ t)])"

definition fetchMastodonInstanceLimits ::
  "world \<Rightarrow> limitsCache \<Rightarrow> string \<Rightarrow> string option
     \<Rightarrow> (thrown + MastodonInstanceLimits) \<times> limitsCache" where
  "fetchMastodonInstanceLimits w cache u token =
     (let normalized = normalizeMastodonInstanceUrl u;
          now = dateNow w;
          hit = (case cache normalized of
                   None \<Rightarrow> None
                 | Some e \<Rightarrow> if expiresAt e > now then Some (data e) else None)
      in case hit of
           Some limits \<Rightarrow> (Inr limits, cache)
         | None \<Rightarrow>
            (case fetch w (normalized @ ''/api/v2/instance'') (requestHeaders token) of
               Rejected e \<Rightarrow>
                 (Inl (HttpProblem \<lparr>
                    type = ''https://api.crosspost.local/problems/mastodon-instance-unreachable'',
                    title = ''Mastodon instance unavailable'',
                    status = 502,
                    detail = Some (case errorMessage e of
                                     Some m \<Rightarrow> m
                                   | None \<Rightarrow> ''Could not reach Mastodon instance at '' @ normalized)\<rparr>),
                  cache)
             | Resolved code body \<Rightarrow>
                 if \<not> (200 \<le> code \<and> code \<le> 299)
                 then (Inl (HttpProblem \<lparr>
                         type = ''https://api.crosspost.local/problems/mastodon-instance-error'',
                         title = ''Mastodon instance error'',
                         status = 502,
                         detail = Some (''Instance '' @ normalized @ '' returned HTTP '' @ decimal code)\<rparr>),
                       cache)
                 else (case body of
                         Inl e \<Rightarrow> (Inl e, cache)
                       | Inr payload \<Rightarrow>
                          (case readLimits normalized (isoNow w) payload of
                             Inl e \<Rightarrow> (Inl e, cache)
                           | Inr limits \<Rightarrow>
                               (Inr limits,
                                cache(normalized \<mapsto>
                                  \<lparr>expiresAt = now + MASTODON_CACHE_TTL_MS, data = limits\<rparr>))))))"

datatype MediaType = Image | Video | Other

definition classifyMediaType :: "string \<Rightarrow> MediaType" where
  "classifyMediaType m =
     (let normalized = toLowerCase m
      in if startsWith normalized ''image/'' then Image
         else if startsWith normalized ''video/'' then Video
         else Other)"

section \<open>Preflight validation (preflight-service.ts)\<close>

text \<open>
  Each \<^verbatim>\<open>for (const [index, segment] of segments.entries())\<close> loop is a recursion over
  the segments that carries the index; a \<^verbatim>\<open>throw\<close> ends it with \<open>Inl\<close>.
\<close>

fun assertEachNonEmpty :: "nat \<Rightarrow> PostSegment list \<Rightarrow> thrown + unit" where
  "assertEachNonEmpty index [] = Inr ()"
| "assertEachNonEmpty index (segment # rest) =
     (if length (trim (text' segment)) = 0
      then Inl (HttpProblem \<lparr>
             type = ''https://api.crosspost.local/problems/validation-error'',
             title = ''Validation failed'',
             status = 400,
             detail = Some (''Thread segment '' @ decimal (index + 1) @ '' text must not be empty'')\<rparr>)
      else assertEachNonEmpty (index + 1) rest)"

definition assertNonEmptySegments :: "PostSegment list \<Rightarrow> thrown + unit" where
  "assertNonEmptySegments segs =
     (if length segs = 0
      then Inl (HttpProblem \<lparr>
             type = ''https://api.crosspost.local/problems/validation-error'',
             title = ''Validation failed'',
             status = 400,
             detail = Some ''At least one thread segment is required''\<rparr>)
      else assertEachNonEmpty 0 segs)"

definition blueskyMediaInvalid :: "string \<Rightarrow> thrown" where
  "blueskyMediaInvalid d = HttpProblem \<lparr>
     type = ''https://api.crosspost.local/problems/bluesky-media-invalid'',
     title = ''Invalid Bluesky media'',
     status = 400,
     detail = Some d\<rparr>"

text \<open>The body of the loop of \<^verbatim>\<open>validateBlueskyMedia\<close>.\<close>

definition checkBlueskySegment :: "nat \<Rightarrow> PostSegment \<Rightarrow> thrown + unit" where
  "checkBlueskySegment index segment =
     (let imageMedia = filter (\<lambda>item. classifyMediaType (mimeType item) = Image) (media segment);
          videoMedia = filter (\<lambda>item. classifyMediaType (mimeType item) = Video) (media segment);
          unsupportedMedia = filter (\<lambda>item. classifyMediaType (mimeType item) = Other) (media segment)
      in if length unsupportedMedia > 0
         then Inl (blueskyMediaInvalid
                (''Thread segment '' @ decimal (index + 1)
                 @ '' has unsupported media MIME type(s) for Bluesky''))
         else if length imageMedia > 0 \<and> length videoMedia > 0
         then Inl (blueskyMediaInvalid
                ''Bluesky supports either 1 video or 1-4 images per post segment, not mixed media'')
         else if length imageMedia > 4
         then Inl (blueskyMediaInvalid
                (''Thread segment '' @ decimal (index + 1) @ '' has '' @ decimal (length imageMedia)
                 @ '' images. Bluesky allows up to 4.''))
         else if length videoMedia > 1
         then Inl (blueskyMediaInvalid
                (''Thread segment '' @ decimal (index + 1) @ '' has '' @ decimal (length videoMedia)
                 @ '' videos. Bluesky allows only 1.''))
         else if length videoMedia = 1
         then (let videoMimeType =
                     (case videoMedia of [] \<Rightarrow> [] | v # vs \<Rightarrow> toLowerCase (mimeType v))
               in if videoMimeType \<noteq> ''video/mp4''
                  then Inl (blueskyMediaInvalid
                         ''Bluesky video upload requires video/mp4 for reliable publishing in this gateway'')
                  else Inr ())
         else Inr ())"

fun validateBlueskyMediaFrom :: "nat \<Rightarrow> PostSegment list \<Rightarrow> thrown + unit" where
  "validateBlueskyMediaFrom index [] = Inr ()"
| "validateBlueskyMediaFrom index (segment # rest) =
     andThen (checkBlueskySegment index segment) (validateBlueskyMediaFrom (index + 1) rest)"

definition validateBlueskyMedia :: "PostSegment list \<Rightarrow> thrown + unit" where
  "validateBlueskyMedia segs = validateBlueskyMediaFrom 0 segs"

text \<open>The three length loops of \<^verbatim>\<open>PreflightService.validate\<close>.\<close>

fun checkXLength :: "nat \<Rightarrow> PostSegment list \<Rightarrow> thrown + unit" where
  "checkXLength index [] = Inr ()"
| "checkXLength index (segment # rest) =
     (let len = countCodePoints (text' segment)
      in if len > X_MAX_CHARACTERS
         then Inl (HttpProblem \<lparr>
                type = ''https://api.crosspost.local/problems/x-length-exceeded'',
                title = ''X character limit exceeded'',
                status = 400,
                detail = Some (''Thread segment '' @ decimal (index + 1) @ '' has '' @ decimal len
                  @ '' characters. This gateway enforces 280 for non-premium X users.'')\<rparr>)
         else checkXLength (index + 1) rest)"

fun checkBlueskyLength :: "nat \<Rightarrow> PostSegment list \<Rightarrow> thrown + unit" where
  "checkBlueskyLength index [] = Inr ()"
| "checkBlueskyLength index (segment # rest) =
     (let len = countCodePoints (text' segment)
      in if len > BLUESKY_MAX_CHARACTERS
         then Inl (HttpProblem \<lparr>
                type = ''https://api.crosspost.local/problems/bluesky-length-exceeded'',
                title = ''Bluesky character limit exceeded'',
                status = 400,
                detail = Some (''Thread segment '' @ decimal (index + 1) @ '' has '' @ decimal len
                  @ '' characters. Bluesky allows up to 300.'')\<rparr>)
         else checkBlueskyLength (index + 1) rest)"

text \<open>
  The limits of an instance inside a template literal. (All digits are written, as a
  template literal does for magnitudes below \<^verbatim>\<open>1e21\<close>; from there on it uses the exponent
  form.)
\<close>

definition decimalInt :: "int \<Rightarrow> string" where
  "decimalInt i = (if i < 0 then CHR ''-'' # decimal (nat (- i)) else decimal (nat i))"

fun checkMastodon :: "MastodonInstanceLimits \<Rightarrow> nat \<Rightarrow> PostSegment list \<Rightarrow> thrown + unit" where
  "checkMastodon lims index [] = Inr ()"
| "checkMastodon lims index (segment # rest) =
     (let len = countCodePoints (text' segment)
      in if int len > maxCharacters lims
         then Inl (HttpProblem \<lparr>
                type = ''https://api.crosspost.local/problems/mastodon-length-exceeded'',
                title = ''Mastodon character limit exceeded'',
                status = 400,
                detail = Some (''Thread segment '' @ decimal (index + 1) @ '' has '' @ decimal len
                  @ '' characters. Instance '' @ MastodonInstanceLimits.instanceUrl lims
                  @ '' currently allows '' @ decimalInt (maxCharacters lims) @ ''.'')\<rparr>)
         else if int (length (media segment)) > maxMediaAttachments lims
         then Inl (HttpProblem \<lparr>
                type = ''https://api.crosspost.local/problems/mastodon-media-exceeded'',
                title = ''Mastodon media limit exceeded'',
                status = 400,
                detail = Some (''Thread segment '' @ decimal (index + 1) @ '' has ''
                  @ decimal (length (media segment)) @ '' media files. Instance ''
                  @ MastodonInstanceLimits.instanceUrl lims
                  @ '' currently allows '' @ decimalInt (maxMediaAttachments lims) @ ''.'')\<rparr>)
         else checkMastodon lims (index + 1) rest)"

text \<open>
  The checks of \<^verbatim>\<open>validate\<close> that need no lookup, in the order of the source: the
  structural check, then X, then Bluesky (lengths, then media).
\<close>

definition validateLocal :: "PublishRequest \<Rightarrow> thrown + unit" where
  "validateLocal publishRequest =
     andThen (assertNonEmptySegments (segments publishRequest))
    (andThen (if x_target (targets publishRequest) \<noteq> None
              then checkXLength 0 (segments publishRequest) else Inr ())
             (if bluesky (targets publishRequest) \<noteq> None
              then andThen (checkBlueskyLength 0 (segments publishRequest))
                           (validateBlueskyMedia (segments publishRequest))
              else Inr ()))"

definition validate ::
  "world \<Rightarrow> limitsCache \<Rightarrow> PublishRequest \<Rightarrow> (thrown + unit) \<times> limitsCache" where
  "validate w cache publishRequest =
     (case validateLocal publishRequest of
        Inl e \<Rightarrow> (Inl e, cache)
      | Inr u \<Rightarrow>
         (case mastodon (targets publishRequest) of
            None \<Rightarrow> (Inr (), cache)
          | Some m \<Rightarrow>
             (case fetchMastodonInstanceLimits w cache
                     (MastodonTarget.instanceUrl m) (Some (accessToken m)) of
                (Inl e, cache') \<Rightarrow> (Inl e, cache')
              | (Inr lims, cache') \<Rightarrow>
                  (checkMastodon lims 0 (segments publishRequest), cache'))))"

section \<open>Dispatch (crosspost-service.ts)\<close>

text \<open>
  The three publishing clients are outside the core: each is a function of the
  credentials and the segments that returns a \<^verbatim>\<open>TargetDeliverySuccess\<close> or throws.
\<close>

record publishers =
  publishToX :: "XTarget \<Rightarrow> PostSegment list \<Rightarrow> thrown + TargetDeliverySuccess"
  publishToBluesky :: "BlueskyTarget \<Rightarrow> PostSegment list \<Rightarrow> thrown + TargetDeliverySuccess"
  publishToMastodon :: "MastodonTarget \<Rightarrow> PostSegment list \<Rightarrow> thrown + TargetDeliverySuccess"

definition extractErrorMessage :: "thrown \<Rightarrow> string" where
  "extractErrorMessage error =
     (case errorMessage error of
        Some m \<Rightarrow> if m \<noteq> [] then m else ''Unknown publishing error''
      | None \<Rightarrow> ''Unknown publishing error'')"

text \<open>
  \<^verbatim>\<open>runTarget\<close> awaits one operation and writes its own key of \<^verbatim>\<open>deliveries\<close>; the
  operation has type \<^verbatim>\<open>() => Promise<TargetDelivery>\<close>.
\<close>

definition runTarget ::
  "PlatformName \<Rightarrow> (PlatformName \<rightharpoonup> TargetDelivery) \<Rightarrow> (thrown + TargetDelivery)
     \<Rightarrow> (PlatformName \<rightharpoonup> TargetDelivery)" where
  "runTarget p ds operation =
     (case operation of
        Inr delivery \<Rightarrow> ds(p \<mapsto> delivery)
      | Inl error \<Rightarrow> ds(p \<mapsto> DeliveryFailure p (extractErrorMessage error)))"

text \<open>
  One task per requested target, in the order in which \<^verbatim>\<open>dispatch\<close> pushes them. A task
  is the platform it writes and the outcome of its publisher call.
\<close>

definition tasks ::
  "publishers \<Rightarrow> PublishRequest \<Rightarrow> (PlatformName \<times> (thrown + TargetDelivery)) list" where
  "tasks pubs publishRequest =
     (case x_target (targets publishRequest) of
        None \<Rightarrow> []
      | Some t \<Rightarrow> [(PlatformX,
          map_sum (\<lambda>e. e) DeliverySuccess (publishToX pubs t (segments publishRequest)))])
     @ (case bluesky (targets publishRequest) of
        None \<Rightarrow> []
      | Some t \<Rightarrow> [(PlatformBluesky,
          map_sum (\<lambda>e. e) DeliverySuccess (publishToBluesky pubs t (segments publishRequest)))])
     @ (case mastodon (targets publishRequest) of
        None \<Rightarrow> []
      | Some t \<Rightarrow> [(PlatformMastodon,
          map_sum (\<lambda>e. e) DeliverySuccess (publishToMastodon pubs t (segments publishRequest)))])"

text \<open>
  \<^verbatim>\<open>await Promise.all(tasks)\<close>: every task runs to its end, in some order of completion;
  \<open>runAll\<close> completes them in the order of the list it is given.
\<close>

fun runAll ::
  "(PlatformName \<times> (thrown + TargetDelivery)) list \<Rightarrow> (PlatformName \<rightharpoonup> TargetDelivery)
     \<Rightarrow> (PlatformName \<rightharpoonup> TargetDelivery)" where
  "runAll [] ds = ds"
| "runAll ((p, operation) # rest) ds = runAll rest (runTarget p ds operation)"

text \<open>
  \<^verbatim>\<open>Object.values(deliveries)\<close>; only the number of values and of successful values is
  used, so the order of the keys does not matter.
\<close>

definition objectValues :: "(PlatformName \<rightharpoonup> TargetDelivery) \<Rightarrow> TargetDelivery list" where
  "objectValues ds = List.map_filter ds [PlatformX, PlatformBluesky, PlatformMastodon]"

definition aggregate ::
  "string \<Rightarrow> string option \<Rightarrow> (PlatformName \<rightharpoonup> TargetDelivery)
     \<Rightarrow> thrown + CrosspostDispatchResult" where
  "aggregate stamp requestId ds =
     (let targetResults = objectValues ds;
          successCount = length (filter ok targetResults);
          failureCount = length targetResults - successCount
      in if length targetResults = 0 \<or> successCount = 0
         then Inl (HttpProblem \<lparr>
                type = ''https://api.crosspost.local/problems/delivery-failed'',
                title = ''Delivery failed'',
                status = 502,
                detail = Some
                  ''None of the target platforms accepted the post. Check per-platform error details.''\<rparr>)
         else Inr \<lparr>
                overall = (if failureCount = 0 then OverallSuccess else OverallPartial),
                postedAt = stamp,
                clientRequestId = requestId,
                deliveries = ds\<rparr>)"

definition dispatch ::
  "world \<Rightarrow> publishers \<Rightarrow> limitsCache \<Rightarrow> PublishRequest
     \<Rightarrow> (thrown + CrosspostDispatchResult) \<times> limitsCache" where
  "dispatch w pubs cache publishRequest =
     (case validate w cache publishRequest of
        (Inl e, cache') \<Rightarrow> (Inl e, cache')
      | (Inr u, cache') \<Rightarrow>
          (aggregate (isoNow w) (PublishRequest.clientRequestId publishRequest)
             (runAll (tasks pubs publishRequest) Map.empty),
           cache'))"

section \<open>The envelope (security/crypto.ts)\<close>

subsection \<open>\<^verbatim>\<open>Buffer\<close>: base64url\<close>

text \<open>
  \<^verbatim>\<open>buf.toString("base64url")\<close>: the URL-safe alphabet of RFC 4648, three bytes to four
  characters, no padding.
\<close>

definition b64char :: "nat \<Rightarrow> char" where
  "b64char k =
     (if k < 26 then char_of (65 + k)
      else if k < 52 then char_of (71 + k)
      else if k < 62 then char_of (k - 4)
      else if k = 62 then CHR ''-'' else CHR ''_'')"

fun toBase64url :: "bytes \<Rightarrow> string" where
  "toBase64url [] = []"
| "toBase64url [a] = [b64char (unat a div 4), b64char (unat a mod 4 * 16)]"
| "toBase64url [a, b] =
     [b64char (unat a div 4), b64char (unat a mod 4 * 16 + unat b div 16),
      b64char (unat b mod 16 * 4)]"
| "toBase64url (a # b # c # rest) =
     [b64char (unat a div 4), b64char (unat a mod 4 * 16 + unat b div 16),
      b64char (unat b mod 16 * 4 + unat c div 64), b64char (unat c mod 64)]
     @ toBase64url rest"

text \<open>
  \<^verbatim>\<open>Buffer.from(s, "base64url")\<close> is lenient: it accepts the characters of both base64
  alphabets, skips every other character, stops at a \<^verbatim>\<open>=\<close>, and drops the bits of the
  last characters that do not fill a byte. It never throws.
\<close>

definition unbase64 :: "char \<Rightarrow> nat option" where
  "unbase64 c =
     (let n = (of_char c :: nat)
      in if 65 \<le> n \<and> n \<le> 90 then Some (n - 65)
         else if 97 \<le> n \<and> n \<le> 122 then Some (n - 71)
         else if 48 \<le> n \<and> n \<le> 57 then Some (n + 4)
         else if c = CHR ''-'' \<or> c = CHR ''+'' then Some 62
         else if c = CHR ''_'' \<or> c = CHR ''/'' then Some 63
         else None)"

definition sextets :: "string \<Rightarrow> nat list" where
  "sextets s = List.map_filter unbase64 (takeWhile (\<lambda>c. c \<noteq> CHR ''='') s)"

fun fromSextets :: "nat list \<Rightarrow> bytes" where
  "fromSextets (p # q # r # s # rest) =
     [of_nat (p * 4 + q div 16), of_nat (q mod 16 * 16 + r div 4), of_nat (r mod 4 * 64 + s)]
     @ fromSextets rest"
| "fromSextets [p, q, r] = [of_nat (p * 4 + q div 16), of_nat (q mod 16 * 16 + r div 4)]"
| "fromSextets [p, q] = [of_nat (p * 4 + q div 16)]"
| "fromSextets ps = []"

definition fromBase64url :: "string \<Rightarrow> bytes" where
  "fromBase64url s = fromSextets (sextets s)"

subsection \<open>\<^verbatim>\<open>join\<close> and \<^verbatim>\<open>split\<close>\<close>

fun join :: "string \<Rightarrow> string list \<Rightarrow> string" where
  "join sep [] = []"
| "join sep [p] = p"
| "join sep (p # q # ps) = p @ sep @ join sep (q # ps)"

text \<open>\<^verbatim>\<open>s.split(".")\<close> for a one-character separator: always at least one piece.\<close>

fun split :: "char \<Rightarrow> string \<Rightarrow> string list" where
  "split c [] = [[]]"
| "split c (d # ds) =
     (if d = c then [] # split c ds
      else (case split c ds of [] \<Rightarrow> [[d]] | p # ps \<Rightarrow> (d # p) # ps))"

subsection \<open>The primitives of \<^verbatim>\<open>node:crypto\<close> and \<^verbatim>\<open>JSON\<close>\<close>

text \<open>
  They are parameters. \<open>cipherInit\<close> is what \<^verbatim>\<open>createCipheriv\<close> and
  \<^verbatim>\<open>createDecipheriv\<close> throw for a key and a nonce, if anything. \<open>gcmEncrypt key iv
  plain\<close> is the ciphertext and the tag. \<open>gcmDecrypt key iv tag cipher\<close> is the plain
  text, or what \<^verbatim>\<open>setAuthTag\<close> or \<^verbatim>\<open>final\<close> throws. \<open>jsonStringify\<close> is
  \<^verbatim>\<open>Buffer.from(JSON.stringify(value), "utf8")\<close> and \<open>jsonParse\<close> is
  \<^verbatim>\<open>JSON.parse(buf.toString("utf8"))\<close>, each with what it throws.
\<close>

record 'v node_lib =
  cipherInit :: "bytes \<Rightarrow> bytes \<Rightarrow> thrown option"
  gcmEncrypt :: "bytes \<Rightarrow> bytes \<Rightarrow> bytes \<Rightarrow> bytes \<times> bytes"
  gcmDecrypt :: "bytes \<Rightarrow> bytes \<Rightarrow> bytes \<Rightarrow> bytes \<Rightarrow> thrown + bytes"
  jsonStringify :: "'v \<Rightarrow> thrown + bytes"
  jsonParse :: "bytes \<Rightarrow> thrown + 'v"

definition ENCRYPTION_VERSION :: string where
  "ENCRYPTION_VERSION = ''v1''"

text \<open>\<open>iv\<close> is the result of \<^verbatim>\<open>randomBytes(12)\<close>.\<close>

definition encryptJson :: "'v node_lib \<Rightarrow> bytes \<Rightarrow> 'v \<Rightarrow> bytes \<Rightarrow> thrown + string" where
  "encryptJson lib iv v key =
     (case cipherInit lib key iv of
        Some e \<Rightarrow> Inl e
      | None \<Rightarrow>
         (case jsonStringify lib v of
            Inl e \<Rightarrow> Inl e
          | Inr plainText \<Rightarrow>
             (let (encrypted, authTag) = gcmEncrypt lib key iv plainText
              in Inr (join ''.'' [ENCRYPTION_VERSION, toBase64url iv, toBase64url authTag,
                                  toBase64url encrypted]))))"

text \<open>
  The destructuring \<^verbatim>\<open>[version, ivRaw, authTagRaw, encryptedRaw] = value.split(".")\<close>
  takes the first four pieces; a missing piece is \<^verbatim>\<open>undefined\<close>, which fails the same
  test as the empty string.
\<close>

definition decryptJson :: "'v node_lib \<Rightarrow> string \<Rightarrow> bytes \<Rightarrow> thrown + 'v" where
  "decryptJson lib token key =
     (case split CHR ''.'' token of
        version # ivRaw # authTagRaw # encryptedRaw # ignored \<Rightarrow>
          if version \<noteq> ENCRYPTION_VERSION \<or> ivRaw = [] \<or> authTagRaw = [] \<or> encryptedRaw = []
          then Inl (Error ''Unsupported encrypted payload format'')
          else
            (let iv = fromBase64url ivRaw;
                 authTag = fromBase64url authTagRaw;
                 encrypted = fromBase64url encryptedRaw
             in case cipherInit lib key iv of
                  Some e \<Rightarrow> Inl e
                | None \<Rightarrow>
                   (case gcmDecrypt lib key iv authTag encrypted of
                      Inl e \<Rightarrow> Inl e
                    | Inr plainText \<Rightarrow> jsonParse lib plainText))
      | fewer \<Rightarrow> Inl (Error ''Unsupported encrypted payload format''))"

section \<open>The job store (store/job-store.ts)\<close>

record StoredMediaReference =
  path :: string
  segmentIndex :: nat
  fileName :: string
  mimeType :: string
  altText :: "string option"

record PersistedSegment =
  text' :: utf16

record ScheduledJobPayload =
  targets :: Targets
  segments :: "PersistedSegment list"
  clientRequestId :: "string option"

record JobSummary =
  id' :: string
  createdAt :: string
  runAt :: string
  status :: JobStatus
  attemptCount :: nat
  completedAt :: "string option"
  lastError :: "string option"
  deliveries :: "(PlatformName \<rightharpoonup> TargetDelivery) option"

record StoredJob =
  id' :: string
  createdAt :: string
  runAt :: string
  status :: JobStatus
  encryptedPayload :: string
  media :: "StoredMediaReference list"
  attemptCount :: nat
  completedAt :: "string option"
  lastError :: "string option"
  deliveries :: "(PlatformName \<rightharpoonup> TargetDelivery) option"

definition toJobSummary :: "StoredJob \<Rightarrow> JobSummary" where
  "toJobSummary job = \<lparr>
     JobSummary.id' = StoredJob.id' job,
     JobSummary.createdAt = StoredJob.createdAt job,
     JobSummary.runAt = StoredJob.runAt job,
     JobSummary.status = StoredJob.status job,
     JobSummary.attemptCount = StoredJob.attemptCount job,
     JobSummary.completedAt = StoredJob.completedAt job,
     JobSummary.lastError = StoredJob.lastError job,
     JobSummary.deliveries = StoredJob.deliveries job\<rparr>"

text \<open>
  The store is its map from ids to jobs. (Every \<^verbatim>\<open>update\<close> also rewrites the backing
  file from the map; the file is written and never read by the operations below, and is
  not part of the model.)
\<close>

type_synonym jobMap = "string \<rightharpoonup> StoredJob"

definition jobStoreGet :: "jobMap \<Rightarrow> string \<Rightarrow> StoredJob option" where
  "jobStoreGet jobs i = jobs i"

definition jobStoreUpdate ::
  "jobMap \<Rightarrow> string \<Rightarrow> (StoredJob \<Rightarrow> StoredJob) \<Rightarrow> StoredJob option \<times> jobMap" where
  "jobStoreUpdate jobs i mutate =
     (case jobs i of
        None \<Rightarrow> (None, jobs)
      | Some current \<Rightarrow> (let next = mutate current in (Some next, jobs(i \<mapsto> next))))"

section \<open>The scheduler (scheduler-service.ts)\<close>

text \<open>
  What the scheduler works on: the job store, the regular files and the folders on disk,
  and the Mastodon limits cache that dispatch reads and fills.
\<close>

record SchedulerState =
  jobs :: jobMap
  files :: "string \<rightharpoonup> bytes"
  folders :: "string set"
  mastodonLimitsCache :: limitsCache

text \<open>What the scheduler is constructed with, and the outside world.\<close>

record SchedulerEnv =
  encryptionKey :: bytes
  mediaRoot :: string
  node :: "ScheduledJobPayload node_lib"
  publishing :: publishers
  outside :: world

text \<open>
  \<^verbatim>\<open>path.join\<close> of a folder and a name that is not empty and has no separators or dots,
  as the ids that \<^verbatim>\<open>randomUUID\<close> makes are; for other names \<^verbatim>\<open>path.join\<close> normalises the
  result.
\<close>

definition joinPath :: "string \<Rightarrow> string \<Rightarrow> string" where
  "joinPath a b = a @ ''/'' @ b"

definition statusName :: "JobStatus \<Rightarrow> string" where
  "statusName s =
     (case s of
        Scheduled \<Rightarrow> ''scheduled'' | Running \<Rightarrow> ''running'' | Succeeded \<Rightarrow> ''succeeded''
      | Partial \<Rightarrow> ''partial'' | Failed \<Rightarrow> ''failed'' | Cancelled \<Rightarrow> ''cancelled'')"

text \<open>
  \<^verbatim>\<open>rm(folder, { recursive: true, force: true })\<close>: the folder and everything below it
  are gone afterwards; nothing is thrown when it does not exist.
\<close>

definition cleanupMedia :: "SchedulerEnv \<Rightarrow> SchedulerState \<Rightarrow> string \<Rightarrow> SchedulerState" where
  "cleanupMedia env st jobId =
     (let folder = joinPath (mediaRoot env) jobId
      in st\<lparr>files := (\<lambda>p. if p = folder \<or> startsWith p (folder @ ''/'') then None
                          else files st p),
            folders := {d \<in> folders st. d \<noteq> folder \<and> \<not> startsWith d (folder @ ''/'')}\<rparr>)"

definition notFound :: "string \<Rightarrow> thrown" where
  "notFound jobId = HttpProblem \<lparr>
     type = ''https://api.crosspost.local/problems/not-found'',
     title = ''Job not found'',
     ProblemDetails.status = 404,
     detail = Some (''No job exists with id '' @ jobId)\<rparr>"

text \<open>
  \<^verbatim>\<open>cancel\<close> reads the job with \<^verbatim>\<open>jobStore.get\<close>, which takes no lock, tests the status
  of what it read, and only then calls \<^verbatim>\<open>jobStore.update\<close>, whose mutator does not look at
  the status again. \<^verbatim>\<open>update\<close> waits for its turn in the store's queue of writers, so the
  updates that other callers queued before it run first: \<open>queued\<close> is what they do to
  the state. When nothing is queued, \<open>queued\<close> is the identity.
\<close>

definition cancel ::
  "SchedulerEnv \<Rightarrow> (SchedulerState \<Rightarrow> SchedulerState) \<Rightarrow> SchedulerState \<Rightarrow> string
     \<Rightarrow> (thrown + JobSummary) \<times> SchedulerState" where
  "cancel env queued st jobId =
     (case jobStoreGet (jobs st) jobId of
        None \<Rightarrow> (Inl (notFound jobId), st)
      | Some existing \<Rightarrow>
          if StoredJob.status existing \<noteq> Scheduled
          then (Inl (HttpProblem \<lparr>
                  type = ''https://api.crosspost.local/problems/conflict'',
                  title = ''Job cannot be cancelled'',
                  ProblemDetails.status = 409,
                  detail = Some (''Job '' @ jobId @ '' is '' @ statusName (StoredJob.status existing)
                    @ '' and can no longer be cancelled'')\<rparr>),
                st)
          else
            (let st1 = queued st
             in case jobStoreUpdate (jobs st1) jobId
                    (\<lambda>current. current\<lparr>StoredJob.status := Cancelled,
                                         StoredJob.completedAt := Some (isoNow (outside env))\<rparr>) of
                  (None, jobs') \<Rightarrow> (Inl (notFound jobId), st1\<lparr>jobs := jobs'\<rparr>)
                | (Some cancelled, jobs') \<Rightarrow>
                    (Inr (toJobSummary cancelled),
                     cleanupMedia env (st1\<lparr>jobs := jobs'\<rparr>) jobId)))"

text \<open>
  \<^verbatim>\<open>loadSegments\<close>: every referenced file is read (a missing file throws) before its
  segment index is looked at; a reference to a segment that does not exist is skipped.
\<close>

fun loadMedia ::
  "(string \<rightharpoonup> bytes) \<Rightarrow> StoredMediaReference list \<Rightarrow> PostSegment list
     \<Rightarrow> thrown + PostSegment list" where
  "loadMedia fs [] loaded = Inr loaded"
| "loadMedia fs (item # rest) loaded =
     (case fs (path item) of
        None \<Rightarrow> Inl (Error (''ENOENT: no such file or directory, open '' @ [CHR 0x27]
                  @ path item @ [CHR 0x27]))
      | Some bs \<Rightarrow>
          if segmentIndex item < length loaded
          then (let targetSegment = loaded ! segmentIndex item
                in loadMedia fs rest
                     (loaded[segmentIndex item :=
                        targetSegment\<lparr>PostSegment.media := PostSegment.media targetSegment @
                          [\<lparr>buffer = bs,
                            IncomingMedia.fileName = StoredMediaReference.fileName item,
                            IncomingMedia.mimeType = StoredMediaReference.mimeType item,
                            IncomingMedia.altText = StoredMediaReference.altText item\<rparr>]\<rparr>]))
          else loadMedia fs rest loaded)"

definition loadSegments ::
  "(string \<rightharpoonup> bytes) \<Rightarrow> PersistedSegment list \<Rightarrow> StoredMediaReference list
     \<Rightarrow> thrown + PostSegment list" where
  "loadSegments fs persistedSegments refs =
     loadMedia fs refs
       (map (\<lambda>segment. \<lparr>PostSegment.text' = PersistedSegment.text' segment,
                          PostSegment.media = []\<rparr>) persistedSegments)"

text \<open>The \<^verbatim>\<open>try\<close> block of \<^verbatim>\<open>processJob\<close> up to the point where nothing can throw any more.\<close>

definition attempt ::
  "SchedulerEnv \<Rightarrow> SchedulerState \<Rightarrow> StoredJob
     \<Rightarrow> (thrown + CrosspostDispatchResult) \<times> limitsCache" where
  "attempt env st job =
     (case decryptJson (node env) (encryptedPayload job) (encryptionKey env) of
        Inl e \<Rightarrow> (Inl e, mastodonLimitsCache st)
      | Inr payload \<Rightarrow>
         (case loadSegments (files st) (ScheduledJobPayload.segments payload)
                 (StoredJob.media job) of
            Inl e \<Rightarrow> (Inl e, mastodonLimitsCache st)
          | Inr segs \<Rightarrow>
              dispatch (outside env) (publishing env) (mastodonLimitsCache st)
                \<lparr>PublishRequest.targets = ScheduledJobPayload.targets payload,
                 PublishRequest.segments = segs,
                 PublishRequest.clientRequestId = ScheduledJobPayload.clientRequestId payload\<rparr>))"

text \<open>The update that \<^verbatim>\<open>processJob\<close> makes before it does anything else.\<close>

definition markRunning :: "SchedulerState \<Rightarrow> StoredJob \<Rightarrow> SchedulerState" where
  "markRunning st job =
     st\<lparr>jobs := snd (jobStoreUpdate (jobs st) (StoredJob.id' job)
            (\<lambda>current. current\<lparr>StoredJob.status := Running,
               StoredJob.attemptCount := StoredJob.attemptCount current + 1\<rparr>))\<rparr>"

definition processJob :: "SchedulerEnv \<Rightarrow> SchedulerState \<Rightarrow> StoredJob \<Rightarrow> SchedulerState" where
  "processJob env st job =
     (let st1 = markRunning st job
      in case attempt env st1 job of
           (Inr result, cache') \<Rightarrow>
             (let newStatus = (if overall result = OverallSuccess then Succeeded else Partial);
                  st2 = st1\<lparr>mastodonLimitsCache := cache',
                            jobs := snd (jobStoreUpdate (jobs st1) (StoredJob.id' job)
                              (\<lambda>current. current\<lparr>StoredJob.status := newStatus,
                                 StoredJob.completedAt := Some (isoNow (outside env)),
                                 StoredJob.deliveries :=
                                   Some (CrosspostDispatchResult.deliveries result),
                                 StoredJob.lastError := None\<rparr>))\<rparr>
              in cleanupMedia env st2 (StoredJob.id' job))
         | (Inl error, cache') \<Rightarrow>
             (let message = messageOrString error
              in st1\<lparr>mastodonLimitsCache := cache',
                     jobs := snd (jobStoreUpdate (jobs st1) (StoredJob.id' job)
                       (\<lambda>current. current\<lparr>StoredJob.status := Failed,
                          StoredJob.completedAt := Some (isoNow (outside env)),
                          StoredJob.lastError := Some message\<rparr>))\<rparr>))"

section \<open>Vocabulary of the properties\<close>

text \<open>
  The media of a segment by kind, read off the MIME type as validation reads it:
  without regard to case, an image is \<^verbatim>\<open>image/*\<close> and a video is \<^verbatim>\<open>video/*\<close>.
\<close>

definition isImage :: "IncomingMedia \<Rightarrow> bool" where
  "isImage item = startsWith (toLowerCase (IncomingMedia.mimeType item)) ''image/''"

definition isVideo :: "IncomingMedia \<Rightarrow> bool" where
  "isVideo item = startsWith (toLowerCase (IncomingMedia.mimeType item)) ''video/''"

definition isMp4 :: "IncomingMedia \<Rightarrow> bool" where
  "isMp4 item = (toLowerCase (IncomingMedia.mimeType item) = ''video/mp4'')"

definition images :: "PostSegment \<Rightarrow> IncomingMedia list" where
  "images segment = filter isImage (PostSegment.media segment)"

definition videos :: "PostSegment \<Rightarrow> IncomingMedia list" where
  "videos segment = filter isVideo (PostSegment.media segment)"

definition unsupported :: "PostSegment \<Rightarrow> IncomingMedia list" where
  "unsupported segment =
     filter (\<lambda>item. \<not> isImage item \<and> \<not> isVideo item) (PostSegment.media segment)"

text \<open>What the Bluesky media check lets through.\<close>

definition acceptable :: "PostSegment \<Rightarrow> bool" where
  "acceptable segment =
     (unsupported segment = []
      \<and> ((\<exists>v. videos segment = [v] \<and> isMp4 v \<and> images segment = [])
         \<or> (length (images segment) \<le> 4 \<and> videos segment = [])))"

text \<open>
  The targets a request names, and the outcome of the publisher call that dispatch
  makes for a platform (\<open>None\<close> when the platform is not requested).
\<close>

definition requested :: "PublishRequest \<Rightarrow> PlatformName \<Rightarrow> bool" where
  "requested req p =
     (case p of
        PlatformX \<Rightarrow> x_target (PublishRequest.targets req) \<noteq> None
      | PlatformBluesky \<Rightarrow> bluesky (PublishRequest.targets req) \<noteq> None
      | PlatformMastodon \<Rightarrow> mastodon (PublishRequest.targets req) \<noteq> None)"

definition publisherCall ::
  "publishers \<Rightarrow> PublishRequest \<Rightarrow> PlatformName \<Rightarrow> (thrown + TargetDeliverySuccess) option" where
  "publisherCall pubs req p =
     (case p of
        PlatformX \<Rightarrow>
          map_option (\<lambda>t. publishToX pubs t (PublishRequest.segments req))
            (x_target (PublishRequest.targets req))
      | PlatformBluesky \<Rightarrow>
          map_option (\<lambda>t. publishToBluesky pubs t (PublishRequest.segments req))
            (bluesky (PublishRequest.targets req))
      | PlatformMastodon \<Rightarrow>
          map_option (\<lambda>t. publishToMastodon pubs t (PublishRequest.segments req))
            (mastodon (PublishRequest.targets req)))"

definition succeeded :: "publishers \<Rightarrow> PublishRequest \<Rightarrow> PlatformName \<Rightarrow> bool" where
  "succeeded pubs req p = (\<exists>d. publisherCall pubs req p = Some (Inr d))"

text \<open>The entry that \<^verbatim>\<open>runTarget\<close> writes for an outcome.\<close>

definition entry :: "PlatformName \<Rightarrow> (thrown + TargetDelivery) \<Rightarrow> TargetDelivery" where
  "entry p operation =
     (case operation of
        Inr delivery \<Rightarrow> delivery
      | Inl error \<Rightarrow> DeliveryFailure p (extractErrorMessage error))"

text \<open>The failure of a dispatch that no target accepted.\<close>

definition deliveryFailed :: thrown where
  "deliveryFailed = HttpProblem \<lparr>
     type = ''https://api.crosspost.local/problems/delivery-failed'',
     title = ''Delivery failed'',
     ProblemDetails.status = 502,
     detail = Some
       ''None of the target platforms accepted the post. Check per-platform error details.''\<rparr>"


text \<open>
  Two records of the same job that agree on everything a store update must not touch:
  the second differs from the first at most in \<open>status\<close>, \<open>attemptCount\<close>,
  \<open>completedAt\<close>, \<open>lastError\<close> and \<open>deliveries\<close>.
\<close>

definition sameIdentity :: "StoredJob \<Rightarrow> StoredJob \<Rightarrow> bool" where
  "sameIdentity before after =
     (StoredJob.id' after = StoredJob.id' before
      \<and> StoredJob.createdAt after = StoredJob.createdAt before
      \<and> StoredJob.runAt after = StoredJob.runAt before
      \<and> StoredJob.encryptedPayload after = StoredJob.encryptedPayload before
      \<and> StoredJob.media after = StoredJob.media before)"

section \<open>Example inputs\<close>

subsection \<open>Requests\<close>

definition offlineWorld :: world where
  "offlineWorld = \<lparr>fetch = (\<lambda>u hs. Rejected (Error ''getaddrinfo ENOTFOUND'')),
                    dateNow = 1700000000000, isoNow = ''2023-11-14T22:13:20.000Z''\<rparr>"

definition xOnly :: Targets where
  "xOnly = \<lparr>x_target = Some \<lparr>authToken = ''0123456789abcdef0123'', client = None\<rparr>,
            bluesky = None, mastodon = None\<rparr>"

definition emojiRequest :: PublishRequest where
  "emojiRequest = \<lparr>
     PublishRequest.targets = xOnly,
     PublishRequest.segments =
       [\<lparr>PostSegment.text' = toUtf16 (replicate 281 0x1F600), PostSegment.media = []\<rparr>],
     PublishRequest.clientRequestId = None\<rparr>"

definition blueskyOnly :: Targets where
  "blueskyOnly = \<lparr>x_target = None,
     bluesky = Some \<lparr>identifier' = ''alice.example'', pdsUrl = ''https://pds.example'',
                      appPassword = ''abcd-efgh''\<rparr>,
     mastodon = None\<rparr>"

definition hello :: utf16 where
  "hello = [0x68, 0x65, 0x6C, 0x6C, 0x6F]"

definition mediaItem :: "string \<Rightarrow> IncomingMedia" where
  "mediaItem m = \<lparr>buffer = [0x00, 0x01], IncomingMedia.fileName = ''clip'',
                  IncomingMedia.mimeType = m, IncomingMedia.altText = None\<rparr>"

definition blueskyRequest :: "string list \<Rightarrow> PublishRequest" where
  "blueskyRequest ms = \<lparr>
     PublishRequest.targets = blueskyOnly,
     PublishRequest.segments =
       [\<lparr>PostSegment.text' = hello, PostSegment.media = map mediaItem ms\<rparr>],
     PublishRequest.clientRequestId = None\<rparr>"

subsection \<open>Instances and publishing clients\<close>

definition instanceDocument :: json where
  "instanceDocument = JObject [(''configuration'', JObject [(''statuses'',
     JObject [(''maxCharacters'', JNumber (Finite 500)),
              (''maxMediaAttachments'', JNumber (Finite 4))])])]"

definition onlineWorld :: world where
  "onlineWorld = \<lparr>fetch = (\<lambda>u hs. Resolved 200 (Inr instanceDocument)),
                   dateNow = 1700000000000, isoNow = ''2023-11-14T22:13:20.000Z''\<rparr>"

definition allTargets :: Targets where
  "allTargets = \<lparr>
     x_target = Some \<lparr>authToken = ''0123456789abcdef0123'', client = None\<rparr>,
     bluesky = Some \<lparr>identifier' = ''alice.example'', pdsUrl = ''https://pds.example'',
                      appPassword = ''abcd-efgh''\<rparr>,
     mastodon = Some \<lparr>MastodonTarget.instanceUrl = ''https://social.example/'',
                       accessToken = ''token'', visibility = None\<rparr>\<rparr>"

definition helloRequest :: PublishRequest where
  "helloRequest = \<lparr>
     PublishRequest.targets = allTargets,
     PublishRequest.segments = [\<lparr>PostSegment.text' = hello, PostSegment.media = []\<rparr>],
     PublishRequest.clientRequestId = Some ''req-1''\<rparr>"

definition posted :: "PlatformName \<Rightarrow> string \<Rightarrow> TargetDeliverySuccess" where
  "posted p i = \<lparr>platform = p, TargetDeliverySuccess.id' = i, url = None, raw = None\<rparr>"

text \<open>X and Mastodon publish; the Bluesky client throws.\<close>

definition blueskyDown :: publishers where
  "blueskyDown = \<lparr>
     publishToX = (\<lambda>t segs. Inr (posted PlatformX ''1001'')),
     publishToBluesky = (\<lambda>t segs. Inl (Error ''Bluesky session expired'')),
     publishToMastodon = (\<lambda>t segs. Inr (posted PlatformMastodon ''2002''))\<rparr>"

text \<open>Every client throws.\<close>

definition allDown :: publishers where
  "allDown = \<lparr>
     publishToX = (\<lambda>t segs. Inl (Error ''X login failed'')),
     publishToBluesky = (\<lambda>t segs. Inl (Error ''Bluesky session expired'')),
     publishToMastodon = (\<lambda>t segs. Inl (NonError ''503''))\<rparr>"




subsection \<open>A cipher and a token\<close>

text \<open>
  An instance of the primitives, small enough to evaluate. The cipher is a keystream
  cipher with a 16-byte tag over key, nonce and ciphertext, as AES-GCM is: the
  keystream is the key itself and the tag repeats the sum of all bytes. The JSON codec
  is a table with one entry.
\<close>

definition demoXor :: "bytes \<Rightarrow> bytes \<Rightarrow> bytes" where
  "demoXor key bs = map (\<lambda>(b, k). b XOR k) (zip bs key)"

definition demoTag :: "bytes \<Rightarrow> bytes \<Rightarrow> bytes \<Rightarrow> bytes" where
  "demoTag key iv encrypted = replicate 16 (sum_list (key @ iv @ encrypted))"

definition demoPayload :: ScheduledJobPayload where
  "demoPayload = \<lparr>
     ScheduledJobPayload.targets = allTargets,
     ScheduledJobPayload.segments = [\<lparr>PersistedSegment.text' = hello\<rparr>],
     ScheduledJobPayload.clientRequestId = Some ''req-1''\<rparr>"

definition demoPlain :: bytes where
  "demoPlain = [0x7B, 0x22, 0x6E, 0x22, 0x3A, 0x31, 0x7D]"

definition demoLib :: "ScheduledJobPayload node_lib" where
  "demoLib = \<lparr>
     cipherInit = (\<lambda>key iv.
        if length key \<noteq> 32 then Some (Error ''Invalid key length'')
        else if iv = [] then Some (Error ''Invalid initialization vector'')
        else None),
     gcmEncrypt = (\<lambda>key iv plain. (demoXor key plain, demoTag key iv (demoXor key plain))),
     gcmDecrypt = (\<lambda>key iv tag encrypted.
        if tag = demoTag key iv encrypted then Inr (demoXor key encrypted)
        else Inl (Error ''Unsupported state or unable to authenticate data'')),
     jsonStringify = (\<lambda>v. if v = demoPayload then Inr demoPlain
                           else Inl (Error ''Converting circular structure to JSON'')),
     jsonParse = (\<lambda>bs. if bs = demoPlain then Inr demoPayload
                        else Inl (Error ''Unexpected token''))\<rparr>"

definition demoKey :: bytes where
  "demoKey = replicate 32 0x2A"

definition demoIv :: bytes where
  "demoIv = [1, 2, 3, 4, 5, 6, 7, 8, 9, 10, 11, 12]"

definition demoToken :: string where
  "demoToken = ''v1.AQIDBAUGBwgJCgsM.tbW1tbW1tbW1tbW1tbW1tQ.UQhECBAbVw''"

subsection \<open>A scheduled job\<close>

text \<open>A scheduled job with one stored image, as \<^verbatim>\<open>schedule\<close> leaves it.\<close>

definition demoEnv :: "publishers \<Rightarrow> SchedulerEnv" where
  "demoEnv pubs = \<lparr>encryptionKey = demoKey, mediaRoot = ''.data/scheduled-media'',
     node = demoLib, publishing = pubs, outside = onlineWorld\<rparr>"

definition demoRef :: StoredMediaReference where
  "demoRef = \<lparr>path = ''.data/scheduled-media/job-1/1-cat.png'', segmentIndex = 0,
     StoredMediaReference.fileName = ''1-cat.png'',
     StoredMediaReference.mimeType = ''image/png'',
     StoredMediaReference.altText = None\<rparr>"

definition demoJob :: StoredJob where
  "demoJob = \<lparr>
     StoredJob.id' = ''job-1'',
     StoredJob.createdAt = ''2023-11-14T21:00:00.000Z'',
     StoredJob.runAt = ''2023-11-14T22:00:00.000Z'',
     StoredJob.status = Scheduled,
     encryptedPayload = demoToken,
     StoredJob.media = [demoRef],
     StoredJob.attemptCount = 0,
     StoredJob.completedAt = None,
     StoredJob.lastError = None,
     StoredJob.deliveries = None\<rparr>"

definition demoState :: SchedulerState where
  "demoState = \<lparr>
     jobs = [''job-1'' \<mapsto> demoJob],
     files = [''.data/scheduled-media/job-1/1-cat.png'' \<mapsto> [0x89, 0x50, 0x4E, 0x47]],
     folders = {''.data/scheduled-media'', ''.data/scheduled-media/job-1''},
     mastodonLimitsCache = Map.empty\<rparr>"

text \<open>The request that \<^verbatim>\<open>processJob\<close> rebuilds from that job.\<close>

definition demoRequest :: PublishRequest where
  "demoRequest = \<lparr>
     PublishRequest.targets = allTargets,
     PublishRequest.segments =
       [\<lparr>PostSegment.text' = hello,
         PostSegment.media = [\<lparr>buffer = [0x89, 0x50, 0x4E, 0x47],
            IncomingMedia.fileName = ''1-cat.png'', IncomingMedia.mimeType = ''image/png'',
            IncomingMedia.altText = None\<rparr>]\<rparr>],
     PublishRequest.clientRequestId = Some ''req-1''\<rparr>"

chapter \<open>Properties\<close>

section \<open>Code points\<close>

lemma unat16: "n < 65536 \<Longrightarrow> unat (of_nat n :: 16 word) = n"
  by (simp add: unat_of_nat)

lemma codePoints_bmp:
  assumes "cp < 0x10000" "\<not> (0xD800 \<le> cp \<and> cp \<le> 0xDFFF)"
  shows "codePoints (of_nat cp # rest) = cp # codePoints rest"
proof (cases rest)
  case Nil
  then show ?thesis using assms by (simp add: unat16)
next
  case (Cons v vs)
  have "\<not> isHighSurrogate (of_nat cp :: 16 word)"
    using assms by (auto simp: isHighSurrogate_def unat16)
  then show ?thesis using Cons assms by (simp add: unat16)
qed

lemma codePoints_astral:
  assumes "0x10000 \<le> cp" "cp < 0x110000"
  shows "codePoints (of_nat (0xD800 + (cp - 0x10000) div 0x400)
                     # of_nat (0xDC00 + (cp - 0x10000) mod 0x400) # rest)
         = cp # codePoints rest"
proof -
  define d where "d = cp - 0x10000"
  have d: "d < 0x100000" using assms by (simp add: d_def)
  have q: "d div 0x400 < 0x400" using d by simp
  have r: "d mod 0x400 < 0x400" by simp
  have hi: "unat (of_nat (0xD800 + d div 0x400) :: 16 word) = 0xD800 + d div 0x400"
    using q by (intro unat16) simp
  have lo: "unat (of_nat (0xDC00 + d mod 0x400) :: 16 word) = 0xDC00 + d mod 0x400"
    using r by (intro unat16) simp
  have H: "isHighSurrogate (of_nat (0xD800 + d div 0x400))"
    unfolding isHighSurrogate_def hi using q by simp
  have L: "isLowSurrogate (of_nat (0xDC00 + d mod 0x400))"
    unfolding isLowSurrogate_def lo using r by simp
  have "0x10000 + (d div 0x400) * 0x400 + d mod 0x400 = cp"
    using assms by (simp add: d_def)
  then show ?thesis
    using H L hi lo unfolding d_def by simp
qed

lemma codePoints_utf16Encode:
  "isScalarValue cp \<Longrightarrow> codePoints (utf16Encode cp @ rest) = cp # codePoints rest"
  unfolding isScalarValue_def utf16Encode_def
  using codePoints_bmp codePoints_astral
  by (cases "cp < 0x10000") auto

lemma codePoints_toUtf16:
  "list_all isScalarValue cps \<Longrightarrow> codePoints (toUtf16 cps) = cps"
  by (induction cps) (simp_all add: toUtf16_def codePoints_utf16Encode)

lemma countCodePoints_toUtf16:
  "list_all isScalarValue cps \<Longrightarrow> countCodePoints (toUtf16 cps) = length cps"
  by (simp add: countCodePoints_def codePoints_toUtf16)

section \<open>Validation\<close>

lemma trim_empty_iff: "trim s = [] \<longleftrightarrow> (\<forall>u \<in> set s. isWhiteSpace u)"
proof -
  have "trim s = [] \<longleftrightarrow> dropWhile isWhiteSpace (rev (dropWhile isWhiteSpace s)) = []"
    by (simp add: trim_def)
  also have "\<dots> \<longleftrightarrow> (\<forall>u \<in> set (dropWhile isWhiteSpace s). isWhiteSpace u)"
    by (simp add: dropWhile_eq_Nil_conv)
  also have "\<dots> \<longleftrightarrow> (\<forall>u \<in> set s. isWhiteSpace u)"
  proof
    assume a: "\<forall>u \<in> set (dropWhile isWhiteSpace s). isWhiteSpace u"
    have "dropWhile isWhiteSpace s = []"
    proof (rule ccontr)
      assume "dropWhile isWhiteSpace s \<noteq> []"
      then have "\<not> isWhiteSpace (hd (dropWhile isWhiteSpace s))"
        by (rule hd_dropWhile)
      moreover have "hd (dropWhile isWhiteSpace s) \<in> set (dropWhile isWhiteSpace s)"
        using \<open>dropWhile isWhiteSpace s \<noteq> []\<close> by simp
      ultimately show False using a by blast
    qed
    then show "\<forall>u \<in> set s. isWhiteSpace u"
      by (simp add: dropWhile_eq_Nil_conv)
  next
    assume "\<forall>u \<in> set s. isWhiteSpace u"
    then show "\<forall>u \<in> set (dropWhile isWhiteSpace s). isWhiteSpace u"
      using set_dropWhileD by fastforce
  qed
  finally show ?thesis .
qed

lemma assertEachNonEmpty_ok:
  "assertEachNonEmpty k segs = Inr () \<longleftrightarrow> (\<forall>s \<in> set segs. trim (PostSegment.text' s) \<noteq> [])"
  by (induction segs arbitrary: k) auto

lemma assertNonEmptySegments_ok:
  "assertNonEmptySegments segs = Inr ()
     \<longleftrightarrow> segs \<noteq> [] \<and> (\<forall>s \<in> set segs. trim (PostSegment.text' s) \<noteq> [])"
  by (auto simp: assertNonEmptySegments_def assertEachNonEmpty_ok)

lemma checkXLength_pass:
  "(\<forall>s \<in> set segs. countCodePoints (PostSegment.text' s) \<le> 280) \<Longrightarrow> checkXLength k segs = Inr ()"
  by (induction segs arbitrary: k) (auto simp: X_MAX_CHARACTERS_def)

lemma checkXLength_first:
  assumes "i < length segs"
      and "280 < countCodePoints (PostSegment.text' (segs ! i))"
      and "\<forall>j < i. countCodePoints (PostSegment.text' (segs ! j)) \<le> 280"
  shows "checkXLength k segs = Inl (HttpProblem \<lparr>
           type = ''https://api.crosspost.local/problems/x-length-exceeded'',
           title = ''X character limit exceeded'',
           ProblemDetails.status = 400,
           detail = Some (''Thread segment '' @ decimal (k + i + 1) @ '' has ''
             @ decimal (countCodePoints (PostSegment.text' (segs ! i)))
             @ '' characters. This gateway enforces 280 for non-premium X users.'')\<rparr>)"
  using assms
proof (induction segs arbitrary: i k)
  case Nil
  then show ?case by simp
next
  case (Cons s segs)
  show ?case
  proof (cases i)
    case 0
    then show ?thesis using Cons.prems by (simp add: X_MAX_CHARACTERS_def Let_def)
  next
    case (Suc i')
    have head: "countCodePoints (PostSegment.text' s) \<le> 280"
      using Cons.prems(3) Suc by auto
    have "checkXLength (k + 1) segs = Inl (HttpProblem \<lparr>
           type = ''https://api.crosspost.local/problems/x-length-exceeded'',
           title = ''X character limit exceeded'',
           ProblemDetails.status = 400,
           detail = Some (''Thread segment '' @ decimal (k + 1 + i' + 1) @ '' has ''
             @ decimal (countCodePoints (PostSegment.text' (segs ! i')))
             @ '' characters. This gateway enforces 280 for non-premium X users.'')\<rparr>)"
    proof (rule Cons.IH)
      show "i' < length segs" using Cons.prems(1) Suc by simp
      show "280 < countCodePoints (PostSegment.text' (segs ! i'))"
        using Cons.prems(2) Suc by simp
      show "\<forall>j<i'. countCodePoints (PostSegment.text' (segs ! j)) \<le> 280"
        using Cons.prems(3) Suc by auto
    qed
    then show ?thesis using head Suc by (simp add: X_MAX_CHARACTERS_def Let_def)
  qed
qed

lemma first_offender:
  assumes "\<exists>s \<in> set segs. P s"
  shows "\<exists>i < length segs. P (segs ! i) \<and> (\<forall>j < i. \<not> P (segs ! j))"
proof -
  from assms obtain n where n: "n < length segs \<and> P (segs ! n)"
    by (auto simp: in_set_conv_nth)
  define i where "i = (LEAST n. n < length segs \<and> P (segs ! n))"
  have a: "i < length segs \<and> P (segs ! i)"
    unfolding i_def using n by (rule LeastI)
  have b: "\<forall>j < i. \<not> P (segs ! j)"
  proof (intro allI impI notI)
    fix j assume "j < i" "P (segs ! j)"
    then have "j < length segs \<and> P (segs ! j)" using a by simp
    then have "i \<le> j" unfolding i_def by (rule Least_le)
    with \<open>j < i\<close> show False by simp
  qed
  from a b show ?thesis by blast
qed

text \<open>
  Claim C5. With X among the targets and segments that pass the structural check, validation
  fails whenever a segment has more than 280 code points: the error is the X length
  problem (status 400) for the first such segment, and its detail cites that segment's
  number, its exact count of code points and the limit 280. Segments of at most 280 code
  points pass the X length check. The count is the number of code points: a text that is
  the UTF-16 encoding of \<open>n\<close> Unicode scalar values counts \<open>n\<close>, whatever the number of its
  code units or bytes.
\<close>

theorem x_length_limit:
  assumes "x_target (PublishRequest.targets req) \<noteq> None"
      and "assertNonEmptySegments (PublishRequest.segments req) = Inr ()"
  shows "((\<exists>s \<in> set (PublishRequest.segments req). 280 < countCodePoints (PostSegment.text' s)) \<longrightarrow>
            (\<exists>i < length (PublishRequest.segments req).
               280 < countCodePoints (PostSegment.text' (PublishRequest.segments req ! i))
             \<and> (\<forall>j < i. countCodePoints (PostSegment.text' (PublishRequest.segments req ! j)) \<le> 280)
             \<and> fst (validate w cache req) = Inl (HttpProblem \<lparr>
                 type = ''https://api.crosspost.local/problems/x-length-exceeded'',
                 title = ''X character limit exceeded'',
                 ProblemDetails.status = 400,
                 detail = Some (''Thread segment '' @ decimal (i + 1) @ '' has ''
                   @ decimal (countCodePoints (PostSegment.text' (PublishRequest.segments req ! i)))
                   @ '' characters. This gateway enforces 280 for non-premium X users.'')\<rparr>)))
       \<and> ((\<forall>s \<in> set (PublishRequest.segments req). countCodePoints (PostSegment.text' s) \<le> 280) \<longrightarrow>
            checkXLength 0 (PublishRequest.segments req) = Inr ())
       \<and> (\<forall>cps. list_all isScalarValue cps \<longrightarrow> countCodePoints (toUtf16 cps) = length cps)"
proof (intro conjI impI allI)
  assume "\<exists>s \<in> set (PublishRequest.segments req). 280 < countCodePoints (PostSegment.text' s)"
  then obtain i where i: "i < length (PublishRequest.segments req)"
      "280 < countCodePoints (PostSegment.text' (PublishRequest.segments req ! i))"
      "\<forall>j < i. \<not> 280 < countCodePoints (PostSegment.text' (PublishRequest.segments req ! j))"
    using first_offender [of "PublishRequest.segments req"
        "\<lambda>s. 280 < countCodePoints (PostSegment.text' s)"] by blast
  have le: "\<forall>j < i. countCodePoints (PostSegment.text' (PublishRequest.segments req ! j)) \<le> 280"
    using i(3) by (simp add: not_less)
  have "checkXLength 0 (PublishRequest.segments req) = Inl (HttpProblem \<lparr>
           type = ''https://api.crosspost.local/problems/x-length-exceeded'',
           title = ''X character limit exceeded'',
           ProblemDetails.status = 400,
           detail = Some (''Thread segment '' @ decimal (0 + i + 1) @ '' has ''
             @ decimal (countCodePoints (PostSegment.text' (PublishRequest.segments req ! i)))
             @ '' characters. This gateway enforces 280 for non-premium X users.'')\<rparr>)"
    using i(1) i(2) le by (rule checkXLength_first)
  then have "fst (validate w cache req) = Inl (HttpProblem \<lparr>
           type = ''https://api.crosspost.local/problems/x-length-exceeded'',
           title = ''X character limit exceeded'',
           ProblemDetails.status = 400,
           detail = Some (''Thread segment '' @ decimal (i + 1) @ '' has ''
             @ decimal (countCodePoints (PostSegment.text' (PublishRequest.segments req ! i)))
             @ '' characters. This gateway enforces 280 for non-premium X users.'')\<rparr>)"
    using assms by (simp add: validate_def validateLocal_def andThen_def)
  with i(1) i(2) le
  show "\<exists>i < length (PublishRequest.segments req).
               280 < countCodePoints (PostSegment.text' (PublishRequest.segments req ! i))
             \<and> (\<forall>j < i. countCodePoints (PostSegment.text' (PublishRequest.segments req ! j)) \<le> 280)
             \<and> fst (validate w cache req) = Inl (HttpProblem \<lparr>
                 type = ''https://api.crosspost.local/problems/x-length-exceeded'',
                 title = ''X character limit exceeded'',
                 ProblemDetails.status = 400,
                 detail = Some (''Thread segment '' @ decimal (i + 1) @ '' has ''
                   @ decimal (countCodePoints (PostSegment.text' (PublishRequest.segments req ! i)))
                   @ '' characters. This gateway enforces 280 for non-premium X users.'')\<rparr>)"
    by blast
next
  assume "\<forall>s \<in> set (PublishRequest.segments req). countCodePoints (PostSegment.text' s) \<le> 280"
  then show "checkXLength 0 (PublishRequest.segments req) = Inr ()"
    by (rule checkXLength_pass)
next
  fix cps assume "list_all isScalarValue cps"
  then show "countCodePoints (toUtf16 cps) = length cps"
    by (rule countCodePoints_toUtf16)
qed

lemma decimal_1: "decimal (Suc 0) = ''1''"
  by (simp add: decimal.simps)

lemma decimal_281: "decimal 281 = ''281''"
  by (simp add: decimal.simps)

lemma emoji_scalar: "list_all isScalarValue (replicate 281 0x1F600)"
  by (simp add: list_all_iff isScalarValue_def)

lemma emoji_count: "countCodePoints (toUtf16 (replicate 281 0x1F600)) = 281"
  using countCodePoints_toUtf16 [OF emoji_scalar] by simp

lemma emoji_units: "length (toUtf16 (replicate 281 0x1F600)) = 562"
  by (simp add: toUtf16_def utf16Encode_def length_concat sum_list_replicate comp_def)

lemma emoji_not_blank: "trim (toUtf16 (replicate 281 0x1F600)) \<noteq> []"
proof -
  have "0xD83D \<in> set (toUtf16 (replicate 281 0x1F600))"
    by (simp add: toUtf16_def utf16Encode_def)
  moreover have "\<not> isWhiteSpace 0xD83D"
    by (simp add: isWhiteSpace_def)
  ultimately show ?thesis
    using trim_empty_iff by blast
qed

text \<open>281 emoji are 562 code units; the error cites 281.\<close>

theorem x_length_limit_witness:
  "x_target (PublishRequest.targets emojiRequest) \<noteq> None
   \<and> assertNonEmptySegments (PublishRequest.segments emojiRequest) = Inr ()
   \<and> length (toUtf16 (replicate 281 0x1F600)) = 562
   \<and> fst (validate offlineWorld Map.empty emojiRequest) = Inl (HttpProblem \<lparr>
        type = ''https://api.crosspost.local/problems/x-length-exceeded'',
        title = ''X character limit exceeded'',
        ProblemDetails.status = 400,
        detail = Some ''Thread segment 1 has 281 characters. This gateway enforces 280 for non-premium X users.''\<rparr>)"
proof -
  have a: "x_target (PublishRequest.targets emojiRequest) \<noteq> None"
    by (simp add: emojiRequest_def xOnly_def)
  have b: "assertNonEmptySegments (PublishRequest.segments emojiRequest) = Inr ()"
    by (simp add: assertNonEmptySegments_ok emojiRequest_def emoji_not_blank)
  have c: "\<exists>s \<in> set (PublishRequest.segments emojiRequest). 280 < countCodePoints (PostSegment.text' s)"
    by (simp add: emojiRequest_def emoji_count)
  from x_length_limit [OF a b, of offlineWorld Map.empty] c
  obtain i where i: "i < length (PublishRequest.segments emojiRequest)"
    and r: "fst (validate offlineWorld Map.empty emojiRequest) = Inl (HttpProblem \<lparr>
                 type = ''https://api.crosspost.local/problems/x-length-exceeded'',
                 title = ''X character limit exceeded'',
                 ProblemDetails.status = 400,
                 detail = Some (''Thread segment '' @ decimal (i + 1) @ '' has ''
                   @ decimal (countCodePoints (PostSegment.text' (PublishRequest.segments emojiRequest ! i)))
                   @ '' characters. This gateway enforces 280 for non-premium X users.'')\<rparr>)"
    by blast
  from i have "i = 0" by (simp add: emojiRequest_def)
  with r have "fst (validate offlineWorld Map.empty emojiRequest) = Inl (HttpProblem \<lparr>
        type = ''https://api.crosspost.local/problems/x-length-exceeded'',
        title = ''X character limit exceeded'',
        ProblemDetails.status = 400,
        detail = Some ''Thread segment 1 has 281 characters. This gateway enforces 280 for non-premium X users.''\<rparr>)"
    by (simp add: emojiRequest_def emoji_count decimal_1 decimal_281)
  with a b emoji_units show ?thesis by blast
qed

lemma classify_Image: "classifyMediaType (IncomingMedia.mimeType item) = Image \<longleftrightarrow> isImage item"
  by (simp add: classifyMediaType_def isImage_def Let_def)

lemma not_both: "startsWith s ''image/'' \<Longrightarrow> \<not> startsWith s ''video/''"
  by (auto simp: startsWith_def)

lemma classify_Video: "classifyMediaType (IncomingMedia.mimeType item) = Video \<longleftrightarrow> isVideo item"
  using not_both by (auto simp: classifyMediaType_def isImage_def isVideo_def Let_def)

lemma classify_Other:
  "classifyMediaType (IncomingMedia.mimeType item) = Other \<longleftrightarrow> \<not> isImage item \<and> \<not> isVideo item"
  by (simp add: classifyMediaType_def isImage_def isVideo_def Let_def)

lemma checkBlueskySegment_eq:
  "checkBlueskySegment k segment =
     (if length (unsupported segment) > 0
      then Inl (blueskyMediaInvalid
             (''Thread segment '' @ decimal (k + 1)
              @ '' has unsupported media MIME type(s) for Bluesky''))
      else if length (images segment) > 0 \<and> length (videos segment) > 0
      then Inl (blueskyMediaInvalid
             ''Bluesky supports either 1 video or 1-4 images per post segment, not mixed media'')
      else if length (images segment) > 4
      then Inl (blueskyMediaInvalid
             (''Thread segment '' @ decimal (k + 1) @ '' has '' @ decimal (length (images segment))
              @ '' images. Bluesky allows up to 4.''))
      else if length (videos segment) > 1
      then Inl (blueskyMediaInvalid
             (''Thread segment '' @ decimal (k + 1) @ '' has '' @ decimal (length (videos segment))
              @ '' videos. Bluesky allows only 1.''))
      else if length (videos segment) = 1 \<and> \<not> isMp4 (hd (videos segment))
      then Inl (blueskyMediaInvalid
             ''Bluesky video upload requires video/mp4 for reliable publishing in this gateway'')
      else Inr ())"
proof -
  have 1: "filter (\<lambda>item. classifyMediaType (IncomingMedia.mimeType item) = Image)
             (PostSegment.media segment) = images segment"
    by (simp add: images_def classify_Image)
  have 2: "filter (\<lambda>item. classifyMediaType (IncomingMedia.mimeType item) = Video)
             (PostSegment.media segment) = videos segment"
    by (simp add: videos_def classify_Video)
  have 3: "filter (\<lambda>item. classifyMediaType (IncomingMedia.mimeType item) = Other)
             (PostSegment.media segment) = unsupported segment"
    by (simp add: unsupported_def classify_Other)
  show ?thesis
    unfolding checkBlueskySegment_def 1 2 3 Let_def
    by (cases "videos segment") (simp_all add: isMp4_def)
qed

lemma checkBlueskySegment_ok: "checkBlueskySegment k segment = Inr () \<longleftrightarrow> acceptable segment"
proof (cases "videos segment")
  case Nil
  then show ?thesis
    by (auto simp: checkBlueskySegment_eq acceptable_def)
next
  case (Cons v vs)
  then show ?thesis
    by (cases vs) (auto simp: checkBlueskySegment_eq acceptable_def)
qed

lemma checkBlueskySegment_fails:
  "checkBlueskySegment k segment \<noteq> Inr () \<Longrightarrow> \<exists>d. checkBlueskySegment k segment = Inl (blueskyMediaInvalid d)"
  by (auto simp: checkBlueskySegment_eq split: if_splits)

lemma validateBlueskyMediaFrom_ok:
  "validateBlueskyMediaFrom k segs = Inr () \<longleftrightarrow> (\<forall>segment \<in> set segs. acceptable segment)"
proof (induction segs arbitrary: k)
  case Nil
  show ?case by simp
next
  case (Cons s segs)
  show ?case
  proof (cases "checkBlueskySegment k s")
    case (Inl e)
    then have "\<not> acceptable s" using checkBlueskySegment_ok [of k s] by simp
    with Inl show ?thesis by (simp add: andThen_def)
  next
    case (Inr u)
    then have "acceptable s" using checkBlueskySegment_ok [of k s] by simp
    with Inr Cons.IH [of "k + 1"] show ?thesis by (simp add: andThen_def)
  qed
qed

lemma validateBlueskyMediaFrom_fails:
  "validateBlueskyMediaFrom k segs \<noteq> Inr ()
     \<Longrightarrow> \<exists>d. validateBlueskyMediaFrom k segs = Inl (blueskyMediaInvalid d)"
proof (induction segs arbitrary: k)
  case Nil
  then show ?case by simp
next
  case (Cons s segs)
  show ?case
  proof (cases "checkBlueskySegment k s")
    case (Inl e)
    then show ?thesis using checkBlueskySegment_fails [of k s] by (auto simp: andThen_def)
  next
    case (Inr u)
    then show ?thesis using Cons by (simp add: andThen_def)
  qed
qed

lemma validateLocal_bluesky_fails:
  assumes "bluesky (PublishRequest.targets req) \<noteq> None"
      and "validateBlueskyMedia (PublishRequest.segments req) \<noteq> Inr ()"
  shows "\<exists>e. validateLocal req = Inl e"
proof -
  obtain d where "validateBlueskyMedia (PublishRequest.segments req) = Inl (blueskyMediaInvalid d)"
    using assms(2) validateBlueskyMediaFrom_fails by (auto simp: validateBlueskyMedia_def)
  then show ?thesis
    using assms(1) by (auto simp: validateLocal_def andThen_def split: sum.splits)
qed

lemma not_acceptable:
  assumes "(images segment \<noteq> [] \<and> videos segment \<noteq> [])
            \<or> 4 < length (images segment)
            \<or> 1 < length (videos segment)
            \<or> (\<exists>v. videos segment = [v] \<and> \<not> isMp4 v)
            \<or> unsupported segment \<noteq> []"
  shows "\<not> acceptable segment"
  using assms unfolding acceptable_def by auto

text \<open>
  Claim C4. With Bluesky among the targets, validation fails whenever some segment mixes
  an image with a video, or has more than four images, or more than one video, or a
  single video that is not \<^verbatim>\<open>video/mp4\<close>, or a media item that is neither an image nor a
  video; the Bluesky media check then fails with the Bluesky media problem (status 400).
  The check passes when every segment has exactly one \<^verbatim>\<open>video/mp4\<close> video and no image,
  or one to four images and no video. MIME types are compared without regard to case.
\<close>

theorem bluesky_media_rule:
  assumes "bluesky (PublishRequest.targets req) \<noteq> None"
  shows "((\<exists>segment \<in> set (PublishRequest.segments req).
              (images segment \<noteq> [] \<and> videos segment \<noteq> [])
            \<or> 4 < length (images segment)
            \<or> 1 < length (videos segment)
            \<or> (\<exists>v. videos segment = [v] \<and> \<not> isMp4 v)
            \<or> unsupported segment \<noteq> [])
          \<longrightarrow> (\<exists>d. validateBlueskyMedia (PublishRequest.segments req) = Inl (blueskyMediaInvalid d))
            \<and> (\<exists>e. fst (validate w cache req) = Inl e))
       \<and> ((\<forall>segment \<in> set (PublishRequest.segments req).
              unsupported segment = []
            \<and> ((\<exists>v. videos segment = [v] \<and> isMp4 v \<and> images segment = [])
               \<or> (1 \<le> length (images segment) \<and> length (images segment) \<le> 4
                  \<and> videos segment = [])))
          \<longrightarrow> validateBlueskyMedia (PublishRequest.segments req) = Inr ())"
proof (intro conjI impI)
  assume "\<exists>segment \<in> set (PublishRequest.segments req).
              (images segment \<noteq> [] \<and> videos segment \<noteq> [])
            \<or> 4 < length (images segment)
            \<or> 1 < length (videos segment)
            \<or> (\<exists>v. videos segment = [v] \<and> \<not> isMp4 v)
            \<or> unsupported segment \<noteq> []"
  then obtain segment where "segment \<in> set (PublishRequest.segments req)" "\<not> acceptable segment"
    using not_acceptable by blast
  then have bad: "validateBlueskyMedia (PublishRequest.segments req) \<noteq> Inr ()"
    using validateBlueskyMediaFrom_ok [of 0 "PublishRequest.segments req"]
    by (auto simp: validateBlueskyMedia_def)
  then show "\<exists>d. validateBlueskyMedia (PublishRequest.segments req) = Inl (blueskyMediaInvalid d)"
    using validateBlueskyMediaFrom_fails [of 0 "PublishRequest.segments req"]
    by (simp add: validateBlueskyMedia_def)
  from validateLocal_bluesky_fails [OF assms bad]
  show "\<exists>e. fst (validate w cache req) = Inl e"
    by (auto simp: validate_def)
next
  assume "\<forall>segment \<in> set (PublishRequest.segments req).
              unsupported segment = []
            \<and> ((\<exists>v. videos segment = [v] \<and> isMp4 v \<and> images segment = [])
               \<or> (1 \<le> length (images segment) \<and> length (images segment) \<le> 4
                  \<and> videos segment = []))"
  then have "\<forall>segment \<in> set (PublishRequest.segments req). acceptable segment"
    by (auto simp: acceptable_def)
  then show "validateBlueskyMedia (PublishRequest.segments req) = Inr ()"
    using validateBlueskyMediaFrom_ok [of 0 "PublishRequest.segments req"]
    by (simp add: validateBlueskyMedia_def)
qed

lemma toLowerCase_examples:
  "toLowerCase ''video/quicktime'' = ''video/quicktime''"
  "toLowerCase ''Video/MP4'' = ''video/mp4''"
  "toLowerCase ''image/png'' = ''image/png''"
  by code_simp+

text \<open>
  One \<^verbatim>\<open>video/quicktime\<close> video is refused and so is an image next to a video; one
  \<^verbatim>\<open>Video/MP4\<close> video passes and so do four images.
\<close>

lemma kinds:
  "isVideo (mediaItem ''video/quicktime'')" "\<not> isImage (mediaItem ''video/quicktime'')"
  "\<not> isMp4 (mediaItem ''video/quicktime'')"
  "isVideo (mediaItem ''Video/MP4'')" "\<not> isImage (mediaItem ''Video/MP4'')"
  "isMp4 (mediaItem ''Video/MP4'')"
  "isImage (mediaItem ''image/png'')" "\<not> isVideo (mediaItem ''image/png'')"
  by (simp_all add: isImage_def isVideo_def isMp4_def mediaItem_def toLowerCase_examples
      startsWith_def)

theorem bluesky_media_rule_witness:
  "bluesky (PublishRequest.targets (blueskyRequest [''video/quicktime''])) \<noteq> None
   \<and> (\<exists>d. validateBlueskyMedia (PublishRequest.segments (blueskyRequest [''video/quicktime'']))
            = Inl (blueskyMediaInvalid d))
   \<and> (\<exists>e. fst (validate offlineWorld Map.empty (blueskyRequest [''video/quicktime''])) = Inl e)
   \<and> (\<exists>e. fst (validate offlineWorld Map.empty (blueskyRequest [''image/png'', ''Video/MP4''])) = Inl e)
   \<and> validateBlueskyMedia (PublishRequest.segments (blueskyRequest [''Video/MP4''])) = Inr ()
   \<and> validateBlueskyMedia (PublishRequest.segments
        (blueskyRequest [''image/png'', ''image/png'', ''image/png'', ''image/png''])) = Inr ()"
proof -
  have t: "\<And>ms. bluesky (PublishRequest.targets (blueskyRequest ms)) \<noteq> None"
    by (simp add: blueskyRequest_def blueskyOnly_def)
  have s: "\<And>ms. PublishRequest.segments (blueskyRequest ms)
             = [\<lparr>PostSegment.text' = hello, PostSegment.media = map mediaItem ms\<rparr>]"
    by (simp add: blueskyRequest_def)
  have q: "\<exists>segment \<in> set (PublishRequest.segments (blueskyRequest [''video/quicktime''])).
              (images segment \<noteq> [] \<and> videos segment \<noteq> [])
            \<or> 4 < length (images segment)
            \<or> 1 < length (videos segment)
            \<or> (\<exists>v. videos segment = [v] \<and> \<not> isMp4 v)
            \<or> unsupported segment \<noteq> []"
    by (simp add: s videos_def kinds)
  have m: "\<exists>segment \<in> set (PublishRequest.segments (blueskyRequest [''image/png'', ''Video/MP4''])).
              (images segment \<noteq> [] \<and> videos segment \<noteq> [])
            \<or> 4 < length (images segment)
            \<or> 1 < length (videos segment)
            \<or> (\<exists>v. videos segment = [v] \<and> \<not> isMp4 v)
            \<or> unsupported segment \<noteq> []"
    by (simp add: s images_def videos_def kinds)
  have v: "\<forall>segment \<in> set (PublishRequest.segments (blueskyRequest [''Video/MP4''])).
              unsupported segment = []
            \<and> ((\<exists>v. videos segment = [v] \<and> isMp4 v \<and> images segment = [])
               \<or> (1 \<le> length (images segment) \<and> length (images segment) \<le> 4
                  \<and> videos segment = []))"
    by (simp add: s images_def videos_def unsupported_def kinds)
  have i: "\<forall>segment \<in> set (PublishRequest.segments
                (blueskyRequest [''image/png'', ''image/png'', ''image/png'', ''image/png''])).
              unsupported segment = []
            \<and> ((\<exists>v. videos segment = [v] \<and> isMp4 v \<and> images segment = [])
               \<or> (1 \<le> length (images segment) \<and> length (images segment) \<le> 4
                  \<and> videos segment = []))"
    by (simp add: s images_def videos_def unsupported_def kinds)
  have 1: "(\<exists>d. validateBlueskyMedia (PublishRequest.segments (blueskyRequest [''video/quicktime'']))
            = Inl (blueskyMediaInvalid d))
   \<and> (\<exists>e. fst (validate offlineWorld Map.empty (blueskyRequest [''video/quicktime''])) = Inl e)"
    by (rule mp [OF conjunct1 [OF bluesky_media_rule
          [OF t, of "[''video/quicktime'']" offlineWorld Map.empty]] q])
  have 2: "\<exists>e. fst (validate offlineWorld Map.empty (blueskyRequest [''image/png'', ''Video/MP4''])) = Inl e"
    by (rule conjunct2 [OF mp [OF conjunct1 [OF bluesky_media_rule
          [OF t, of "[''image/png'', ''Video/MP4'']" offlineWorld Map.empty]] m]])
  have 3: "validateBlueskyMedia (PublishRequest.segments (blueskyRequest [''Video/MP4''])) = Inr ()"
    by (rule mp [OF conjunct2 [OF bluesky_media_rule
          [OF t, of "[''Video/MP4'']" offlineWorld Map.empty]] v])
  have 4: "validateBlueskyMedia (PublishRequest.segments
        (blueskyRequest [''image/png'', ''image/png'', ''image/png'', ''image/png''])) = Inr ()"
    by (rule mp [OF conjunct2 [OF bluesky_media_rule
          [OF t, of "[''image/png'', ''image/png'', ''image/png'', ''image/png'']"
             offlineWorld Map.empty]] i])
  from t 1 2 3 4 show ?thesis by simp
qed

section \<open>Dispatch\<close>

lemma all_platforms: "(\<forall>p. P p) \<longleftrightarrow> P PlatformX \<and> P PlatformBluesky \<and> P PlatformMastodon"
proof
  assume "\<forall>p. P p"
  then show "P PlatformX \<and> P PlatformBluesky \<and> P PlatformMastodon" by simp
next
  assume a: "P PlatformX \<and> P PlatformBluesky \<and> P PlatformMastodon"
  show "\<forall>p. P p"
  proof
    fix p show "P p" using a by (cases p) simp_all
  qed
qed

lemma ex_platforms: "(\<exists>p. P p) \<longleftrightarrow> P PlatformX \<or> P PlatformBluesky \<or> P PlatformMastodon"
  using all_platforms [of "\<lambda>p. \<not> P p"] by blast

lemma requested_call: "requested req p \<longleftrightarrow> publisherCall pubs req p \<noteq> None"
  by (cases p) (simp_all add: requested_def publisherCall_def)

lemma runTarget_entry: "runTarget p ds operation = ds(p \<mapsto> entry p operation)"
  by (simp add: runTarget_def entry_def split: sum.splits)

lemma runAll_lookup:
  "distinct (map fst ts) \<Longrightarrow>
     runAll ts ds p = (case map_of ts p of None \<Rightarrow> ds p | Some operation \<Rightarrow> Some (entry p operation))"
proof (induction ts arbitrary: ds)
  case Nil
  show ?case by simp
next
  case (Cons t ts)
  obtain q operation where t: "t = (q, operation)" by (cases t)
  have d: "distinct (map fst ts)" and q: "q \<notin> fst ` set ts"
    using Cons.prems t by simp_all
  have "runAll (t # ts) ds p = runAll ts (ds(q \<mapsto> entry q operation)) p"
    by (simp add: t runTarget_entry)
  also have "\<dots> = (case map_of ts p of None \<Rightarrow> (ds(q \<mapsto> entry q operation)) p
                     | Some operation' \<Rightarrow> Some (entry p operation'))"
    by (rule Cons.IH [OF d])
  also have "\<dots> = (case map_of (t # ts) p of None \<Rightarrow> ds p
                     | Some operation' \<Rightarrow> Some (entry p operation'))"
  proof (cases "p = q")
    case True
    then have "map_of ts p = None" using q by (simp add: map_of_eq_None_iff)
    with True show ?thesis by (simp add: t)
  next
    case False
    then show ?thesis by (simp add: t split: option.splits)
  qed
  finally show ?case .
qed

lemma tasks_distinct: "distinct (map fst (tasks pubs req))"
  by (simp add: tasks_def split: option.splits)

lemma tasks_map_of:
  "map_of (tasks pubs req) p = map_option (map_sum (\<lambda>e. e) DeliverySuccess) (publisherCall pubs req p)"
  by (cases p) (simp_all add: tasks_def publisherCall_def split: option.splits)

lemma deliveries_lookup:
  "runAll (tasks pubs req) Map.empty p =
     map_option (\<lambda>r. entry p (map_sum (\<lambda>e. e) DeliverySuccess r)) (publisherCall pubs req p)"
  by (simp add: runAll_lookup [OF tasks_distinct] tasks_map_of split: option.splits)

text \<open>The order in which the tasks complete does not matter: each writes its own key.\<close>

lemma runAll_any_order:
  assumes "distinct (map fst ts)" "distinct (map fst ts')" "set ts' = set ts"
  shows "runAll ts' ds = runAll ts ds"
proof
  fix p
  have "map_of ts' p = map_of ts p"
  proof (cases "map_of ts p")
    case None
    then have "p \<notin> fst ` set ts" by (simp add: map_of_eq_None_iff)
    then have "p \<notin> fst ` set ts'" using assms(3) by simp
    then have "map_of ts' p = None" by (simp add: map_of_eq_None_iff)
    then show ?thesis using None by simp
  next
    case (Some v)
    then have "(p, v) \<in> set ts" by (rule map_of_SomeD)
    then have "(p, v) \<in> set ts'" using assms(3) by simp
    then show ?thesis using Some assms(2) by simp
  qed
  then show "runAll ts' ds p = runAll ts ds p"
    by (simp add: runAll_lookup assms(1) assms(2))
qed

lemma ok_entry: "ok (entry p (map_sum (\<lambda>e. e) DeliverySuccess r)) \<longleftrightarrow> (\<exists>d. r = Inr d)"
  by (cases r) (simp_all add: entry_def)

lemma delivered_ok:
  "(\<exists>v. runAll (tasks pubs req) Map.empty p = Some v \<and> ok v) \<longleftrightarrow> succeeded pubs req p"
  by (cases "publisherCall pubs req p") (auto simp: deliveries_lookup ok_entry succeeded_def)

lemma delivered_dom:
  "runAll (tasks pubs req) Map.empty p \<noteq> None \<longleftrightarrow> requested req p"
  by (simp add: deliveries_lookup requested_call [of req p pubs])

text \<open>What \<^verbatim>\<open>dispatch\<close> computes from the finished map.\<close>

lemma aggregate_eq:
  "aggregate stamp rid ds =
     (if \<forall>p. \<not> (\<exists>v. ds p = Some v \<and> ok v)
      then Inl (HttpProblem \<lparr>
             type = ''https://api.crosspost.local/problems/delivery-failed'',
             title = ''Delivery failed'',
             ProblemDetails.status = 502,
             detail = Some
               ''None of the target platforms accepted the post. Check per-platform error details.''\<rparr>)
      else Inr \<lparr>
             overall = (if \<forall>p v. ds p = Some v \<longrightarrow> ok v then OverallSuccess else OverallPartial),
             postedAt = stamp,
             CrosspostDispatchResult.clientRequestId = rid,
             CrosspostDispatchResult.deliveries = ds\<rparr>)"
proof -
  define f where "f = (\<lambda>p. case ds p of None \<Rightarrow> (0::nat) | Some v \<Rightarrow> if ok v then 0 else 1)"
  define s where "s = (\<lambda>p. case ds p of None \<Rightarrow> (0::nat) | Some v \<Rightarrow> if ok v then 1 else 0)"
  have len: "length (objectValues ds) =
          s PlatformX + s PlatformBluesky + s PlatformMastodon
        + (f PlatformX + f PlatformBluesky + f PlatformMastodon)"
    by (simp add: objectValues_def List.map_filter_def f_def s_def split: option.splits)
  have succ: "length (filter ok (objectValues ds)) = s PlatformX + s PlatformBluesky + s PlatformMastodon"
    by (simp add: objectValues_def List.map_filter_def s_def split: option.splits)
  have none: "(\<forall>p. \<not> (\<exists>v. ds p = Some v \<and> ok v))
      \<longleftrightarrow> s PlatformX + s PlatformBluesky + s PlatformMastodon = 0"
    unfolding all_platforms s_def by (auto split: option.splits)
  have allok: "(\<forall>p v. ds p = Some v \<longrightarrow> ok v) \<longleftrightarrow> f PlatformX + f PlatformBluesky + f PlatformMastodon = 0"
    unfolding all_platforms [of "\<lambda>p. \<forall>v. ds p = Some v \<longrightarrow> ok v"] f_def
    by (auto split: option.splits)
  show ?thesis
    unfolding aggregate_def Let_def len succ none allok
    by simp
qed

lemma all_delivered_ok:
  "(\<forall>p v. runAll (tasks pubs req) Map.empty p = Some v \<longrightarrow> ok v)
     \<longleftrightarrow> (\<forall>p. requested req p \<longrightarrow> succeeded pubs req p)"
proof -
  have "\<And>p. (\<forall>v. runAll (tasks pubs req) Map.empty p = Some v \<longrightarrow> ok v)
            \<longleftrightarrow> (requested req p \<longrightarrow> succeeded pubs req p)"
  proof -
    fix p
    show "(\<forall>v. runAll (tasks pubs req) Map.empty p = Some v \<longrightarrow> ok v)
            \<longleftrightarrow> (requested req p \<longrightarrow> succeeded pubs req p)"
    proof (cases "runAll (tasks pubs req) Map.empty p")
      case None
      then have "\<not> requested req p" using delivered_dom [of pubs req p] by simp
      with None show ?thesis by simp
    next
      case (Some v)
      then have "requested req p" using delivered_dom [of pubs req p] by simp
      moreover have "ok v \<longleftrightarrow> succeeded pubs req p"
        using delivered_ok [of pubs req p] Some by simp
      ultimately show ?thesis using Some by simp
    qed
  qed
  then show ?thesis by blast
qed

lemma dispatch_eq:
  assumes "fst (validate w cache req) = Inr ()"
  shows "fst (dispatch w pubs cache req) =
     (if \<forall>p. \<not> succeeded pubs req p then Inl deliveryFailed
      else Inr \<lparr>
             overall = (if \<forall>p. requested req p \<longrightarrow> succeeded pubs req p
                        then OverallSuccess else OverallPartial),
             postedAt = isoNow w,
             CrosspostDispatchResult.clientRequestId = PublishRequest.clientRequestId req,
             CrosspostDispatchResult.deliveries = runAll (tasks pubs req) Map.empty\<rparr>)"
proof -
  obtain c where v: "validate w cache req = (Inr (), c)"
    using assms by (cases "validate w cache req") simp
  have "fst (dispatch w pubs cache req)
          = aggregate (isoNow w) (PublishRequest.clientRequestId req)
              (runAll (tasks pubs req) Map.empty)"
    by (simp add: dispatch_def v)
  then show ?thesis
    by (simp only: aggregate_eq delivered_ok all_delivered_ok deliveryFailed_def)
qed

text \<open>
  Claim C1. A dispatch that passes validation returns an outcome exactly when some
  requested target's publisher call succeeded; the outcome is \<open>success\<close> if and only if
  every requested target succeeded and \<open>partial\<close> if and only if some requested target
  did not. When no call succeeds, and so when no target is requested, dispatch returns no
  outcome: it throws the delivery problem with status 502.
\<close>

theorem dispatch_overall:
  assumes "fst (validate w cache req) = Inr ()"
  shows "((\<exists>p. succeeded pubs req p) \<longrightarrow>
            (\<exists>r. fst (dispatch w pubs cache req) = Inr r
               \<and> (overall r = OverallSuccess \<longleftrightarrow> (\<forall>p. requested req p \<longrightarrow> succeeded pubs req p))
               \<and> (overall r = OverallPartial \<longleftrightarrow> (\<exists>p. requested req p \<and> \<not> succeeded pubs req p))))
       \<and> ((\<forall>p. \<not> succeeded pubs req p) \<longrightarrow>
            fst (dispatch w pubs cache req) = Inl (HttpProblem \<lparr>
              type = ''https://api.crosspost.local/problems/delivery-failed'',
              title = ''Delivery failed'',
              ProblemDetails.status = 502,
              detail = Some
                ''None of the target platforms accepted the post. Check per-platform error details.''\<rparr>))
       \<and> ((\<forall>p. \<not> requested req p) \<longrightarrow>
            fst (dispatch w pubs cache req) = Inl (HttpProblem \<lparr>
              type = ''https://api.crosspost.local/problems/delivery-failed'',
              title = ''Delivery failed'',
              ProblemDetails.status = 502,
              detail = Some
                ''None of the target platforms accepted the post. Check per-platform error details.''\<rparr>))"
proof (intro conjI impI)
  let ?r = "\<lparr>
             overall = (if \<forall>p. requested req p \<longrightarrow> succeeded pubs req p
                        then OverallSuccess else OverallPartial),
             postedAt = isoNow w,
             CrosspostDispatchResult.clientRequestId = PublishRequest.clientRequestId req,
             CrosspostDispatchResult.deliveries = runAll (tasks pubs req) Map.empty\<rparr>"
  assume "\<exists>p. succeeded pubs req p"
  then have ns: "\<not> (\<forall>p. \<not> succeeded pubs req p)" by blast
  have d: "fst (dispatch w pubs cache req) = Inr ?r"
    unfolding dispatch_eq [OF assms] using ns by (rule if_not_P)
  have o1: "overall ?r = OverallSuccess \<longleftrightarrow> (\<forall>p. requested req p \<longrightarrow> succeeded pubs req p)"
    by simp
  have o2: "overall ?r = OverallPartial \<longleftrightarrow> (\<exists>p. requested req p \<and> \<not> succeeded pubs req p)"
    by simp
  from d o1 o2
  show "\<exists>r. fst (dispatch w pubs cache req) = Inr r
               \<and> (overall r = OverallSuccess \<longleftrightarrow> (\<forall>p. requested req p \<longrightarrow> succeeded pubs req p))
               \<and> (overall r = OverallPartial \<longleftrightarrow> (\<exists>p. requested req p \<and> \<not> succeeded pubs req p))"
    by (intro exI [of _ ?r] conjI)
next
  assume none: "\<forall>p. \<not> succeeded pubs req p"
  have "fst (dispatch w pubs cache req) = Inl deliveryFailed"
    unfolding dispatch_eq [OF assms] using none by (rule if_P)
  then show "fst (dispatch w pubs cache req) = Inl (HttpProblem \<lparr>
              type = ''https://api.crosspost.local/problems/delivery-failed'',
              title = ''Delivery failed'',
              ProblemDetails.status = 502,
              detail = Some
                ''None of the target platforms accepted the post. Check per-platform error details.''\<rparr>)"
    by (simp only: deliveryFailed_def)
next
  assume "\<forall>p. \<not> requested req p"
  then have none: "\<forall>p. \<not> succeeded pubs req p"
    by (simp add: succeeded_def requested_call [of req _ pubs])
  have "fst (dispatch w pubs cache req) = Inl deliveryFailed"
    unfolding dispatch_eq [OF assms] using none by (rule if_P)
  then show "fst (dispatch w pubs cache req) = Inl (HttpProblem \<lparr>
              type = ''https://api.crosspost.local/problems/delivery-failed'',
              title = ''Delivery failed'',
              ProblemDetails.status = 502,
              detail = Some
                ''None of the target platforms accepted the post. Check per-platform error details.''\<rparr>)"
    by (simp only: deliveryFailed_def)
qed

lemma hello_count: "countCodePoints hello = 5"
  by (simp add: countCodePoints_def hello_def isHighSurrogate_def)

lemma hello_not_blank: "trim hello \<noteq> []"
proof -
  have "0x68 \<in> set hello" by (simp add: hello_def)
  moreover have "\<not> isWhiteSpace 0x68" by (simp add: isWhiteSpace_def)
  ultimately show ?thesis using trim_empty_iff by blast
qed

lemma hello_local: "validateLocal helloRequest = Inr ()"
  by (simp add: validateLocal_def helloRequest_def allTargets_def assertNonEmptySegments_def
      hello_not_blank hello_count X_MAX_CHARACTERS_def BLUESKY_MAX_CHARACTERS_def
      validateBlueskyMedia_def checkBlueskySegment_def andThen_def)

lemma hello_limits:
  "fst (fetchMastodonInstanceLimits onlineWorld Map.empty ''https://social.example/'' (Some ''token''))
     = Inr \<lparr>MastodonInstanceLimits.instanceUrl = ''https://social.example'',
            maxCharacters = 500, maxMediaAttachments = 4, charactersReservedPerUrl = 23,
            supportedMimeTypes = [], imageSizeLimit = 0, videoSizeLimit = 0,
            fetchedAt = ''2023-11-14T22:13:20.000Z''\<rparr>"
  by (simp add: fetchMastodonInstanceLimits_def normalizeMastodonInstanceUrl_def onlineWorld_def
      readLimits_def instanceDocument_def toInteger_def Let_def)

lemma hello_valid: "fst (validate onlineWorld Map.empty helloRequest) = Inr ()"
proof -
  obtain c where f: "fetchMastodonInstanceLimits onlineWorld Map.empty ''https://social.example/''
      (Some ''token'') = (Inr \<lparr>MastodonInstanceLimits.instanceUrl = ''https://social.example'',
            maxCharacters = 500, maxMediaAttachments = 4, charactersReservedPerUrl = 23,
            supportedMimeTypes = [], imageSizeLimit = 0, videoSizeLimit = 0,
            fetchedAt = ''2023-11-14T22:13:20.000Z''\<rparr>, c)"
    using hello_limits
    by (cases "fetchMastodonInstanceLimits onlineWorld Map.empty ''https://social.example/''
      (Some ''token'')") simp
  have m: "mastodon (PublishRequest.targets helloRequest)
      = Some \<lparr>MastodonTarget.instanceUrl = ''https://social.example/'',
               accessToken = ''token'', visibility = None\<rparr>"
    by (simp add: helloRequest_def allTargets_def)
  have s: "PublishRequest.segments helloRequest
      = [\<lparr>PostSegment.text' = hello, PostSegment.media = []\<rparr>]"
    by (simp add: helloRequest_def)
  show ?thesis
    by (simp add: validate_def hello_local m f s hello_count)
qed

lemma hello_calls:
  "publisherCall blueskyDown helloRequest PlatformX = Some (Inr (posted PlatformX ''1001''))"
  "publisherCall blueskyDown helloRequest PlatformBluesky = Some (Inl (Error ''Bluesky session expired''))"
  "publisherCall blueskyDown helloRequest PlatformMastodon = Some (Inr (posted PlatformMastodon ''2002''))"
  "publisherCall allDown helloRequest PlatformX = Some (Inl (Error ''X login failed''))"
  "publisherCall allDown helloRequest PlatformBluesky = Some (Inl (Error ''Bluesky session expired''))"
  "publisherCall allDown helloRequest PlatformMastodon = Some (Inl (NonError ''503''))"
  by (simp_all add: publisherCall_def helloRequest_def allTargets_def blueskyDown_def allDown_def)

lemma hello_requested: "requested helloRequest p"
  by (cases p) (simp_all add: requested_def helloRequest_def allTargets_def)

text \<open>
  Three targets of which Bluesky throws give \<open>partial\<close>; three targets that all throw
  give the delivery problem.
\<close>

theorem dispatch_overall_witness:
  "fst (validate onlineWorld Map.empty helloRequest) = Inr ()
   \<and> (\<exists>r. fst (dispatch onlineWorld blueskyDown Map.empty helloRequest) = Inr r
          \<and> overall r = OverallPartial)
   \<and> fst (dispatch onlineWorld allDown Map.empty helloRequest) = Inl (HttpProblem \<lparr>
              type = ''https://api.crosspost.local/problems/delivery-failed'',
              title = ''Delivery failed'',
              ProblemDetails.status = 502,
              detail = Some
                ''None of the target platforms accepted the post. Check per-platform error details.''\<rparr>)"
proof -
  have some: "\<exists>p. succeeded blueskyDown helloRequest p"
    by (rule exI [of _ PlatformX]) (simp add: succeeded_def hello_calls)
  have miss: "\<exists>p. requested helloRequest p \<and> \<not> succeeded blueskyDown helloRequest p"
    by (rule exI [of _ PlatformBluesky]) (simp add: succeeded_def hello_calls hello_requested)
  have none: "\<forall>p. \<not> succeeded allDown helloRequest p"
    unfolding all_platforms by (simp add: succeeded_def hello_calls)
  obtain r where r: "fst (dispatch onlineWorld blueskyDown Map.empty helloRequest) = Inr r"
    and p: "overall r = OverallPartial
              \<longleftrightarrow> (\<exists>p. requested helloRequest p \<and> \<not> succeeded blueskyDown helloRequest p)"
    using mp [OF conjunct1 [OF dispatch_overall [OF hello_valid, of blueskyDown]] some] by blast
  have 1: "\<exists>r. fst (dispatch onlineWorld blueskyDown Map.empty helloRequest) = Inr r
          \<and> overall r = OverallPartial"
    using r p miss by blast
  have 2: "fst (dispatch onlineWorld allDown Map.empty helloRequest) = Inl (HttpProblem \<lparr>
              type = ''https://api.crosspost.local/problems/delivery-failed'',
              title = ''Delivery failed'',
              ProblemDetails.status = 502,
              detail = Some
                ''None of the target platforms accepted the post. Check per-platform error details.''\<rparr>)"
    by (rule mp [OF conjunct1 [OF conjunct2 [OF dispatch_overall [OF hello_valid, of allDown]]] none])
  from hello_valid 1 2 show ?thesis by (intro conjI)
qed

text \<open>
  Claim C2. When exactly one requested target's publisher call throws and every other
  requested target's call returns (there being at least one other), dispatch returns an
  outcome that is \<open>partial\<close>; \<open>deliveries\<close> has an entry for each requested target and
  for nothing else; the entry of the failing target is the failure carrying the message
  of what was thrown (\<^verbatim>\<open>extractErrorMessage\<close>: the message of a thrown \<^verbatim>\<open>Error\<close> when it has
  one); the entry of every other target is the success that its own publisher returned.
  The map is the same for every order in which the calls complete.
\<close>

theorem dispatch_isolates_failure:
  assumes "fst (validate w cache req) = Inr ()"
      and "publisherCall pubs req p = Some (Inl error)"
      and "\<forall>q. q \<noteq> p \<and> requested req q \<longrightarrow> succeeded pubs req q"
      and "\<exists>q. q \<noteq> p \<and> requested req q"
  shows "\<exists>r. fst (dispatch w pubs cache req) = Inr r
           \<and> overall r = OverallPartial
           \<and> dom (CrosspostDispatchResult.deliveries r) = {q. requested req q}
           \<and> CrosspostDispatchResult.deliveries r p
               = Some (DeliveryFailure p (extractErrorMessage error))
           \<and> (\<forall>m. errorMessage error = Some m \<and> m \<noteq> [] \<longrightarrow>
                  CrosspostDispatchResult.deliveries r p = Some (DeliveryFailure p m))
           \<and> (\<forall>q. q \<noteq> p \<and> requested req q \<longrightarrow>
                  (\<exists>d. publisherCall pubs req q = Some (Inr d)
                     \<and> CrosspostDispatchResult.deliveries r q = Some (DeliverySuccess d)))
           \<and> (\<forall>ts. set ts = set (tasks pubs req) \<and> distinct (map fst ts) \<longrightarrow>
                  runAll ts Map.empty = CrosspostDispatchResult.deliveries r)"
proof -
  let ?ds = "runAll (tasks pubs req) Map.empty"
  let ?r = "\<lparr>
             overall = (if \<forall>p. requested req p \<longrightarrow> succeeded pubs req p
                        then OverallSuccess else OverallPartial),
             postedAt = isoNow w,
             CrosspostDispatchResult.clientRequestId = PublishRequest.clientRequestId req,
             CrosspostDispatchResult.deliveries = ?ds\<rparr>"
  have preq: "requested req p"
    using assms(2) by (simp add: requested_call [of req p pubs])
  have pfail: "\<not> succeeded pubs req p"
    using assms(2) by (simp add: succeeded_def)
  from assms(3) assms(4) have "\<exists>q. succeeded pubs req q" by blast
  then have ns: "\<not> (\<forall>q. \<not> succeeded pubs req q)" by blast
  have d: "fst (dispatch w pubs cache req) = Inr ?r"
    unfolding dispatch_eq [OF assms(1)] using ns by (rule if_not_P)
  have notall: "\<not> (\<forall>q. requested req q \<longrightarrow> succeeded pubs req q)"
    using preq pfail by blast
  have o: "overall ?r = OverallPartial"
    using notall by simp
  have dm: "dom ?ds = {q. requested req q}"
    using delivered_dom [of pubs req] by (auto simp: dom_def)
  have e: "?ds p = Some (DeliveryFailure p (extractErrorMessage error))"
    by (simp add: deliveries_lookup assms(2) entry_def)
  have em: "\<forall>m. errorMessage error = Some m \<and> m \<noteq> [] \<longrightarrow> ?ds p = Some (DeliveryFailure p m)"
    by (simp add: e extractErrorMessage_def)
  have others: "\<forall>q. q \<noteq> p \<and> requested req q \<longrightarrow>
                  (\<exists>d. publisherCall pubs req q = Some (Inr d) \<and> ?ds q = Some (DeliverySuccess d))"
  proof (intro allI impI)
    fix q assume "q \<noteq> p \<and> requested req q"
    then have "succeeded pubs req q" using assms(3) by blast
    then obtain d where "publisherCall pubs req q = Some (Inr d)"
      by (auto simp: succeeded_def)
    then show "\<exists>d. publisherCall pubs req q = Some (Inr d) \<and> ?ds q = Some (DeliverySuccess d)"
      by (simp add: deliveries_lookup entry_def)
  qed
  have order: "\<forall>ts. set ts = set (tasks pubs req) \<and> distinct (map fst ts) \<longrightarrow>
                  runAll ts Map.empty = ?ds"
    using runAll_any_order [OF tasks_distinct] by blast
  have "fst (dispatch w pubs cache req) = Inr ?r
           \<and> overall ?r = OverallPartial
           \<and> dom (CrosspostDispatchResult.deliveries ?r) = {q. requested req q}
           \<and> CrosspostDispatchResult.deliveries ?r p
               = Some (DeliveryFailure p (extractErrorMessage error))
           \<and> (\<forall>m. errorMessage error = Some m \<and> m \<noteq> [] \<longrightarrow>
                  CrosspostDispatchResult.deliveries ?r p = Some (DeliveryFailure p m))
           \<and> (\<forall>q. q \<noteq> p \<and> requested req q \<longrightarrow>
                  (\<exists>d. publisherCall pubs req q = Some (Inr d)
                     \<and> CrosspostDispatchResult.deliveries ?r q = Some (DeliverySuccess d)))
           \<and> (\<forall>ts. set ts = set (tasks pubs req) \<and> distinct (map fst ts) \<longrightarrow>
                  runAll ts Map.empty = CrosspostDispatchResult.deliveries ?r)"
    using d o dm e em others order by simp
  then show ?thesis by (rule exI [of _ ?r])
qed

text \<open>
  Three targets, of which the Bluesky client throws \<^verbatim>\<open>new Error("Bluesky session expired")\<close>.
\<close>

theorem dispatch_isolates_failure_witness:
  "fst (validate onlineWorld Map.empty helloRequest) = Inr ()
   \<and> publisherCall blueskyDown helloRequest PlatformBluesky
        = Some (Inl (Error ''Bluesky session expired''))
   \<and> (\<exists>r. fst (dispatch onlineWorld blueskyDown Map.empty helloRequest) = Inr r
          \<and> overall r = OverallPartial
          \<and> dom (CrosspostDispatchResult.deliveries r)
               = {PlatformX, PlatformBluesky, PlatformMastodon}
          \<and> CrosspostDispatchResult.deliveries r PlatformBluesky
               = Some (DeliveryFailure PlatformBluesky ''Bluesky session expired'')
          \<and> CrosspostDispatchResult.deliveries r PlatformX
               = Some (DeliverySuccess (posted PlatformX ''1001''))
          \<and> CrosspostDispatchResult.deliveries r PlatformMastodon
               = Some (DeliverySuccess (posted PlatformMastodon ''2002'')))"
proof -
  have others: "\<forall>q. q \<noteq> PlatformBluesky \<and> requested helloRequest q
                  \<longrightarrow> succeeded blueskyDown helloRequest q"
    unfolding all_platforms by (simp add: succeeded_def hello_calls)
  have several: "\<exists>q. q \<noteq> PlatformBluesky \<and> requested helloRequest q"
    by (rule exI [of _ PlatformX]) (simp add: hello_requested)
  obtain r where r: "fst (dispatch onlineWorld blueskyDown Map.empty helloRequest) = Inr r"
      "overall r = OverallPartial"
      "dom (CrosspostDispatchResult.deliveries r) = {q. requested helloRequest q}"
      "\<forall>m. errorMessage (Error ''Bluesky session expired'') = Some m \<and> m \<noteq> [] \<longrightarrow>
             CrosspostDispatchResult.deliveries r PlatformBluesky
               = Some (DeliveryFailure PlatformBluesky m)"
      "\<forall>q. q \<noteq> PlatformBluesky \<and> requested helloRequest q \<longrightarrow>
             (\<exists>d. publisherCall blueskyDown helloRequest q = Some (Inr d)
                \<and> CrosspostDispatchResult.deliveries r q = Some (DeliverySuccess d))"
    using dispatch_isolates_failure [OF hello_valid hello_calls(2) others several] by blast
  have dm: "dom (CrosspostDispatchResult.deliveries r) = {PlatformX, PlatformBluesky, PlatformMastodon}"
  proof -
    have "{q. requested helloRequest q} = UNIV" by (simp add: hello_requested)
    also have "\<dots> = {PlatformX, PlatformBluesky, PlatformMastodon}"
    proof (rule set_eqI)
      fix q :: PlatformName
      show "q \<in> UNIV \<longleftrightarrow> q \<in> {PlatformX, PlatformBluesky, PlatformMastodon}"
        by (cases q) simp_all
    qed
    finally show ?thesis using r(3) by simp
  qed
  have b: "CrosspostDispatchResult.deliveries r PlatformBluesky
               = Some (DeliveryFailure PlatformBluesky ''Bluesky session expired'')"
    using r(4) by simp
  have x: "CrosspostDispatchResult.deliveries r PlatformX
               = Some (DeliverySuccess (posted PlatformX ''1001''))"
    using r(5) [rule_format, of PlatformX] by (simp add: hello_requested hello_calls)
  have m: "CrosspostDispatchResult.deliveries r PlatformMastodon
               = Some (DeliverySuccess (posted PlatformMastodon ''2002''))"
    using r(5) [rule_format, of PlatformMastodon] by (simp add: hello_requested hello_calls)
  from r(1) r(2) dm b x m
  have "\<exists>r. fst (dispatch onlineWorld blueskyDown Map.empty helloRequest) = Inr r
          \<and> overall r = OverallPartial
          \<and> dom (CrosspostDispatchResult.deliveries r)
               = {PlatformX, PlatformBluesky, PlatformMastodon}
          \<and> CrosspostDispatchResult.deliveries r PlatformBluesky
               = Some (DeliveryFailure PlatformBluesky ''Bluesky session expired'')
          \<and> CrosspostDispatchResult.deliveries r PlatformX
               = Some (DeliverySuccess (posted PlatformX ''1001''))
          \<and> CrosspostDispatchResult.deliveries r PlatformMastodon
               = Some (DeliverySuccess (posted PlatformMastodon ''2002''))"
    by (intro exI [of _ r] conjI)
  with hello_valid hello_calls(2) show ?thesis by (intro conjI)
qed

section \<open>The limits lookup\<close>



lemma readLimits_statuses:
  assumes "getProp payload ''configuration'' = Some (JObject c)"
      and "map_of c ''statuses'' = Some (JObject st)"
  shows "\<exists>lims. readLimits n stamp payload = Inr lims
           \<and> MastodonInstanceLimits.instanceUrl lims = n
           \<and> maxCharacters lims = toInteger (map_of st ''maxCharacters'') 500
           \<and> maxMediaAttachments lims = toInteger (map_of st ''maxMediaAttachments'') 4
           \<and> charactersReservedPerUrl lims = toInteger (map_of st ''charactersReservedPerUrl'') 23"
proof -
  have "payload \<noteq> JNull" using assms(1) by (cases payload) simp_all
  then show ?thesis using assms by (simp add: readLimits_def Let_def)
qed













section \<open>The envelope\<close>

subsection \<open>base64url\<close>

lemma of_char_char_of: "n < 256 \<Longrightarrow> of_char (char_of n) = (n::nat)"
  by (simp add: of_char_of)

lemma unbase64_b64char: "k < 64 \<Longrightarrow> unbase64 (b64char k) = Some k"
proof -
  assume k: "k < 64"
  consider "k < 26" | "26 \<le> k" "k < 52" | "52 \<le> k" "k < 62" | "k = 62" | "k = 63"
    using k by linarith
  then show ?thesis
  proof cases
    case 1
    then show ?thesis by (simp add: unbase64_def b64char_def of_char_char_of Let_def)
  next
    case 2
    then show ?thesis by (simp add: unbase64_def b64char_def of_char_char_of Let_def)
  next
    case 3
    then show ?thesis by (auto simp: unbase64_def b64char_def of_char_char_of Let_def)
  next
    case 4
    then show ?thesis by (simp add: unbase64_def b64char_def Let_def)
  next
    case 5
    then show ?thesis by (simp add: unbase64_def b64char_def Let_def)
  qed
qed

lemma b64char_plain: "k < 64 \<Longrightarrow> b64char k \<noteq> CHR ''.'' \<and> b64char k \<noteq> CHR ''=''"
proof -
  assume k: "k < 64"
  have "unbase64 (b64char k) = Some k" using k by (rule unbase64_b64char)
  moreover have "unbase64 CHR ''.'' = None" "unbase64 CHR ''='' = None"
    by (simp_all add: unbase64_def)
  ultimately show ?thesis by auto
qed

lemma sextets_chars:
  assumes "\<forall>k \<in> set ks. k < 64"
  shows "sextets (map b64char ks @ s) = ks @ sextets s"
proof -
  have "takeWhile (\<lambda>c. c \<noteq> CHR ''='') (map b64char ks @ s)
          = map b64char ks @ takeWhile (\<lambda>c. c \<noteq> CHR ''='') s"
    using assms b64char_plain by (intro takeWhile_append2) auto
  moreover have "List.map_filter unbase64 (map b64char ks) = ks"
    using assms by (induction ks) (simp_all add: List.map_filter_simps unbase64_b64char)
  ultimately show ?thesis
    by (simp add: sextets_def List.map_filter_def)
qed

lemma byte_bound: "unat (a :: 8 word) < 256"
  using unsigned_less [of a] by simp

lemma regroup1: "a div 4 * 4 + (a mod 4 * 16 + b div 16) div 16 = (a::nat)" if "b < 256"
proof -
  have "b div 16 < 16" using that by simp
  then have "(a mod 4 * 16 + b div 16) div 16 = a mod 4" by simp
  then show ?thesis by simp
qed

lemma regroup2: "(a mod 4 * 16 + b div 16) mod 16 * 16 + (b mod 16 * 4 + c div 64) div 4 = (b::nat)"
  if "b < 256" "c < 256"
proof -
  have "b div 16 < 16" using that by simp
  then have 1: "(a mod 4 * 16 + b div 16) mod 16 = b div 16" by simp
  have "c div 64 < 4" using that by simp
  then have 2: "(b mod 16 * 4 + c div 64) div 4 = b mod 16" by simp
  show ?thesis unfolding 1 2 by simp
qed

lemma regroup3: "(b mod 16 * 4 + c div 64) mod 4 * 64 + c mod 64 = (c::nat)" if "c < 256"
proof -
  have "c div 64 < 4" using that by simp
  then have 1: "(b mod 16 * 4 + c div 64) mod 4 = c div 64" by simp
  show ?thesis unfolding 1 by simp
qed

lemma regroup4: "(a mod 4 * 16) div 16 = (a::nat) mod 4" by simp
lemma regroup5: "(b mod 16 * 4) div 4 = (b::nat) mod 16" by simp

lemma sextet_bounds:
  "unat (a :: 8 word) div 4 < 64"
  "unat a mod 4 * 16 + unat (b :: 8 word) div 16 < 64"
  "unat b mod 16 * 4 + unat (c :: 8 word) div 64 < 64"
  "unat c mod 64 < 64"
  "unat a mod 4 * 16 < 64"
  "unat b mod 16 * 4 < 64"
proof -
  have a: "unat a < 256" and b: "unat b < 256" and c: "unat c < 256"
    by (rule byte_bound)+
  show "unat a div 4 < 64" using a by simp
  have "unat a mod 4 \<le> 3" by simp
  moreover have "unat b div 16 \<le> 15" using b by simp
  ultimately show "unat a mod 4 * 16 + unat b div 16 < 64" by linarith
  have "unat b mod 16 \<le> 15" by simp
  moreover have "unat c div 64 \<le> 3" using c by simp
  ultimately show "unat b mod 16 * 4 + unat c div 64 < 64" by linarith
  show "unat c mod 64 < 64" by simp
  show "unat a mod 4 * 16 < 64" using \<open>unat a mod 4 \<le> 3\<close> by linarith
  show "unat b mod 16 * 4 < 64" using \<open>unat b mod 16 \<le> 15\<close> by linarith
qed

lemma sextets_tail2:
  "sextets [b64char (unat (a :: 8 word) div 4), b64char (unat a mod 4 * 16)]
     = [unat a div 4, unat a mod 4 * 16]"
  using sextets_chars [of "[unat a div 4, unat a mod 4 * 16]" "[]"]
  by (simp add: sextet_bounds sextets_def List.map_filter_simps)

lemma sextets_tail3:
  "sextets [b64char (unat (a :: 8 word) div 4), b64char (unat a mod 4 * 16 + unat (b :: 8 word) div 16),
            b64char (unat b mod 16 * 4)]
     = [unat a div 4, unat a mod 4 * 16 + unat b div 16, unat b mod 16 * 4]"
  using sextets_chars [of "[unat a div 4, unat a mod 4 * 16 + unat b div 16, unat b mod 16 * 4]" "[]"]
  by (simp add: sextet_bounds sextets_def List.map_filter_simps)

lemma sextets_group:
  "sextets (b64char (unat (a :: 8 word) div 4) # b64char (unat a mod 4 * 16 + unat (b :: 8 word) div 16)
            # b64char (unat b mod 16 * 4 + unat (c :: 8 word) div 64) # b64char (unat c mod 64) # s)
     = unat a div 4 # (unat a mod 4 * 16 + unat b div 16)
         # (unat b mod 16 * 4 + unat c div 64) # unat c mod 64 # sextets s"
  using sextets_chars [of "[unat a div 4, unat a mod 4 * 16 + unat b div 16,
                            unat b mod 16 * 4 + unat c div 64, unat c mod 64]" s]
  by (simp add: sextet_bounds)

lemma fromBase64url_toBase64url: "fromBase64url (toBase64url bs) = bs"
proof (induction bs rule: toBase64url.induct)
  case 1
  show ?case by (simp add: fromBase64url_def sextets_def List.map_filter_simps)
next
  case (2 a)
  have "a div 4 * 4 + (a mod 4 * 16) div 16 = a" for a :: nat by simp
  then show ?case
    by (simp add: fromBase64url_def sextets_tail2)
next
  case (3 a b)
  have r: "(unat a mod 4 * 16 + unat b div 16) mod 16 * 16 + unat b mod 16 * 4 div 4 = unat b"
    using regroup2 [of "unat b" 0 "unat a"] byte_bound [of b] by simp
  show ?case
    using byte_bound [of b]
    by (simp add: fromBase64url_def sextets_tail3 regroup1 r)
next
  case (4 a b c rest)
  have "fromBase64url (toBase64url (a # b # c # rest))
      = [of_nat (unat a div 4 * 4 + (unat a mod 4 * 16 + unat b div 16) div 16),
         of_nat ((unat a mod 4 * 16 + unat b div 16) mod 16 * 16
                  + (unat b mod 16 * 4 + unat c div 64) div 4),
         of_nat ((unat b mod 16 * 4 + unat c div 64) mod 4 * 64 + unat c mod 64)]
        @ fromBase64url (toBase64url rest)"
    by (simp add: fromBase64url_def sextets_group)
  also have "\<dots> = [a, b, c] @ rest"
    using byte_bound [of b] byte_bound [of c] 4
    by (simp add: regroup1 regroup2 regroup3)
  finally show ?case by simp
qed

lemma b64char_not_dot: "k < 64 \<Longrightarrow> CHR ''.'' \<noteq> b64char k"
  using b64char_plain [of k] by auto

lemma toBase64url_no_dot: "CHR ''.'' \<notin> set (toBase64url bs)"
  by (induction bs rule: toBase64url.induct) (simp_all add: b64char_not_dot sextet_bounds)

lemma toBase64url_empty: "toBase64url bs = [] \<longleftrightarrow> bs = []"
  by (cases bs rule: toBase64url.cases) simp_all

subsection \<open>Splitting\<close>

lemma split_not_empty: "split c s \<noteq> []"
  by (induction s) (auto split: list.splits)

lemma split_no_sep: "c \<notin> set s \<Longrightarrow> split c s = [s]"
  by (induction s) auto

lemma split_append: "c \<notin> set a \<Longrightarrow> split c (a @ c # b) = a # split c b"
  by (induction a) (auto split: list.splits)

subsection \<open>Tokens\<close>

lemma split_four:
  assumes "CHR ''.'' \<notin> set a" "CHR ''.'' \<notin> set b" "CHR ''.'' \<notin> set c"
  shows "split CHR ''.'' (''v1'' @ CHR ''.'' # (a @ CHR ''.'' # (b @ CHR ''.'' # (c @ CHR ''.'' # s))))
           = ''v1'' # a # b # c # split CHR ''.'' s"
proof -
  have v: "CHR ''.'' \<notin> set ''v1''" by simp
  have "split CHR ''.'' (''v1'' @ CHR ''.'' # (a @ CHR ''.'' # (b @ CHR ''.'' # (c @ CHR ''.'' # s))))
          = ''v1'' # split CHR ''.'' (a @ CHR ''.'' # (b @ CHR ''.'' # (c @ CHR ''.'' # s)))"
    by (rule split_append [OF v])
  also have "split CHR ''.'' (a @ CHR ''.'' # (b @ CHR ''.'' # (c @ CHR ''.'' # s)))
          = a # split CHR ''.'' (b @ CHR ''.'' # (c @ CHR ''.'' # s))"
    by (rule split_append [OF assms(1)])
  also have "split CHR ''.'' (b @ CHR ''.'' # (c @ CHR ''.'' # s))
          = b # split CHR ''.'' (c @ CHR ''.'' # s)"
    by (rule split_append [OF assms(2)])
  also have "split CHR ''.'' (c @ CHR ''.'' # s) = c # split CHR ''.'' s"
    by (rule split_append [OF assms(3)])
  finally show ?thesis .
qed

lemma split_three:
  assumes "CHR ''.'' \<notin> set a" "CHR ''.'' \<notin> set b" "CHR ''.'' \<notin> set c"
  shows "split CHR ''.'' (''v1'' @ CHR ''.'' # (a @ CHR ''.'' # (b @ CHR ''.'' # c)))
           = [''v1'', a, b, c]"
proof -
  have v: "CHR ''.'' \<notin> set ''v1''" by simp
  have "split CHR ''.'' (''v1'' @ CHR ''.'' # (a @ CHR ''.'' # (b @ CHR ''.'' # c)))
          = ''v1'' # split CHR ''.'' (a @ CHR ''.'' # (b @ CHR ''.'' # c))"
    by (rule split_append [OF v])
  also have "split CHR ''.'' (a @ CHR ''.'' # (b @ CHR ''.'' # c))
          = a # split CHR ''.'' (b @ CHR ''.'' # c)"
    by (rule split_append [OF assms(1)])
  also have "split CHR ''.'' (b @ CHR ''.'' # c) = b # split CHR ''.'' c"
    by (rule split_append [OF assms(2)])
  also have "split CHR ''.'' c = [c]"
    by (rule split_no_sep [OF assms(3)])
  finally show ?thesis .
qed

lemma join_token:
  "join ''.'' [ENCRYPTION_VERSION, a, b, c] = ''v1'' @ CHR ''.'' # (a @ CHR ''.'' # (b @ CHR ''.'' # c))"
  "join ''.'' [ENCRYPTION_VERSION, a, b, c] @ ''.'' @ s
     = ''v1'' @ CHR ''.'' # (a @ CHR ''.'' # (b @ CHR ''.'' # (c @ CHR ''.'' # s)))"
  by (simp_all add: ENCRYPTION_VERSION_def)

lemma split_token:
  assumes "CHR ''.'' \<notin> set a" "CHR ''.'' \<notin> set b" "CHR ''.'' \<notin> set c"
  shows "split CHR ''.'' (join ''.'' [ENCRYPTION_VERSION, a, b, c]) = [''v1'', a, b, c]"
    and "split CHR ''.'' (join ''.'' [ENCRYPTION_VERSION, a, b, c] @ ''.'' @ s)
           = ''v1'' # a # b # c # split CHR ''.'' s"
proof -
  show "split CHR ''.'' (join ''.'' [ENCRYPTION_VERSION, a, b, c]) = [''v1'', a, b, c]"
    unfolding join_token(1) by (rule split_three [OF assms])
  show "split CHR ''.'' (join ''.'' [ENCRYPTION_VERSION, a, b, c] @ ''.'' @ s)
           = ''v1'' # a # b # c # split CHR ''.'' s"
    unfolding join_token(2) by (rule split_four [OF assms])
qed

text \<open>What \<^verbatim>\<open>decryptJson\<close> does with a token of at least four pieces.\<close>

lemma decryptJson_parts:
  assumes "split CHR ''.'' token = version # ivRaw # authTagRaw # encryptedRaw # ignored"
  shows "decryptJson lib token key =
     (if version \<noteq> ''v1'' \<or> ivRaw = [] \<or> authTagRaw = [] \<or> encryptedRaw = []
      then Inl (Error ''Unsupported encrypted payload format'')
      else case cipherInit lib key (fromBase64url ivRaw) of
             Some e \<Rightarrow> Inl e
           | None \<Rightarrow>
              (case gcmDecrypt lib key (fromBase64url ivRaw) (fromBase64url authTagRaw)
                      (fromBase64url encryptedRaw) of
                 Inl e \<Rightarrow> Inl e
               | Inr plainText \<Rightarrow> jsonParse lib plainText))"
  by (simp add: decryptJson_def assms ENCRYPTION_VERSION_def Let_def)

lemma decryptJson_short:
  assumes "length (split CHR ''.'' token) < 4"
  shows "decryptJson lib token key = Inl (Error ''Unsupported encrypted payload format'')"
proof -
  obtain p ps where 1: "split CHR ''.'' token = p # ps"
    using split_not_empty [of "CHR ''.''" token] by (cases "split CHR ''.'' token") auto
  show ?thesis
  proof (cases ps)
    case Nil
    then show ?thesis by (simp add: decryptJson_def 1)
  next
    case (Cons q qs)
    note 2 = this
    show ?thesis
    proof (cases qs)
      case Nil
      then show ?thesis by (simp add: decryptJson_def 1 2)
    next
      case (Cons r rs)
      then have "rs = []" using assms 1 2 by simp
      then show ?thesis by (simp add: decryptJson_def 1 2 Cons)
    qed
  qed
qed

text \<open>A value comes out of \<^verbatim>\<open>decryptJson\<close> only along one path.\<close>

lemma decryptJson_value:
  assumes "decryptJson lib token key = Inr v"
  shows "\<exists>ivRaw authTagRaw encryptedRaw ignored plainText.
           split CHR ''.'' token = ''v1'' # ivRaw # authTagRaw # encryptedRaw # ignored
         \<and> ivRaw \<noteq> [] \<and> authTagRaw \<noteq> [] \<and> encryptedRaw \<noteq> []
         \<and> cipherInit lib key (fromBase64url ivRaw) = None
         \<and> gcmDecrypt lib key (fromBase64url ivRaw) (fromBase64url authTagRaw)
              (fromBase64url encryptedRaw) = Inr plainText
         \<and> jsonParse lib plainText = Inr v"
proof -
  have long: "\<not> length (split CHR ''.'' token) < 4"
    using assms decryptJson_short [of token lib key] by auto
  then obtain version ivRaw authTagRaw encryptedRaw ignored
    where s: "split CHR ''.'' token = version # ivRaw # authTagRaw # encryptedRaw # ignored"
    by (cases "split CHR ''.'' token" rule: list.exhaust
        ; simp; rename_tac p ps; case_tac ps; simp; rename_tac q qs; case_tac qs; simp
        ; rename_tac r rs; case_tac rs; simp)
  from assms show ?thesis
    unfolding decryptJson_parts [OF s] s
    by (auto split: if_splits option.splits sum.splits)
qed

subsection \<open>Sealing and opening\<close>

lemma encryptJson_token:
  assumes "encryptJson lib iv v key = Inr tok"
  shows "\<exists>plain. cipherInit lib key iv = None \<and> jsonStringify lib v = Inr plain
           \<and> tok = join ''.'' [ENCRYPTION_VERSION, toBase64url iv,
                                 toBase64url (snd (gcmEncrypt lib key iv plain)),
                                 toBase64url (fst (gcmEncrypt lib key iv plain))]"
  using assms
  by (auto simp: encryptJson_def Let_def split: option.splits sum.splits prod.splits)

lemma decryptJson_ignores_rest:
  assumes "split CHR ''.'' token = version # ivRaw # authTagRaw # encryptedRaw # ignored"
      and "split CHR ''.'' token' = version # ivRaw # authTagRaw # encryptedRaw # ignored'"
  shows "decryptJson lib token' key = decryptJson lib token key"
  by (simp only: decryptJson_parts [OF assms(1)] decryptJson_parts [OF assms(2)])

subsection \<open>Changed bytes that the format check catches\<close>

lemma split_length: "length (split c s) = Suc (length (filter (\<lambda>d. d = c) s))"
  by (induction s) (auto split: list.splits)

lemma split_hd_changed:
  "hd (split CHR ''.'' (c # CHR ''1'' # CHR ''.'' # r)) = (if c = CHR ''.'' then [] else [c, CHR ''1''])"
  "hd (split CHR ''.'' (CHR ''v'' # c # CHR ''.'' # r)) = (if c = CHR ''.'' then ''v'' else [CHR ''v'', c])"
  by (auto split: list.splits)

lemma decryptJson_version:
  assumes "hd (split CHR ''.'' token) \<noteq> ''v1''"
  shows "decryptJson lib token key = Inl (Error ''Unsupported encrypted payload format'')"
proof (cases "length (split CHR ''.'' token) < 4")
  case True
  then show ?thesis by (rule decryptJson_short)
next
  case False
  then obtain version ivRaw authTagRaw encryptedRaw ignored
    where s: "split CHR ''.'' token = version # ivRaw # authTagRaw # encryptedRaw # ignored"
    by (cases "split CHR ''.'' token" rule: list.exhaust
        ; simp; rename_tac p ps; case_tac ps; simp; rename_tac q qs; case_tac qs; simp
        ; rename_tac r rs; case_tac rs; simp)
  then have "version \<noteq> ''v1''" using assms by simp
  then show ?thesis by (simp add: decryptJson_parts [OF s])
qed

lemma changed_byte_caught:
  assumes tok: "tok = join ''.'' [ENCRYPTION_VERSION, a, b, c]"
      and nd: "CHR ''.'' \<notin> set a" "CHR ''.'' \<notin> set b" "CHR ''.'' \<notin> set c"
      and i: "i < length tok" and d: "d \<noteq> tok ! i"
      and where': "i < 2 \<or> tok ! i = CHR ''.''"
  shows "decryptJson lib (tok[i := d]) key = Inl (Error ''Unsupported encrypted payload format'')"
proof -
  have shape: "tok = CHR ''v'' # CHR ''1'' # CHR ''.'' # (a @ CHR ''.'' # (b @ CHR ''.'' # c))"
    unfolding tok join_token(1) by simp
  consider "i = 0" | "i = 1" | "tok ! i = CHR ''.''"
    using where' by (cases i) auto
  then show ?thesis
  proof cases
    case 1
    then have "d \<noteq> CHR ''v''" using d shape by simp
    moreover have "tok[i := d] = d # CHR ''1'' # CHR ''.'' # (a @ CHR ''.'' # (b @ CHR ''.'' # c))"
      using 1 shape by simp
    ultimately have "hd (split CHR ''.'' (tok[i := d])) \<noteq> ''v1''"
      by (simp only: split_hd_changed) simp
    then show ?thesis by (rule decryptJson_version)
  next
    case 2
    then have "d \<noteq> CHR ''1''" using d shape by simp
    moreover have "tok[i := d] = CHR ''v'' # d # CHR ''.'' # (a @ CHR ''.'' # (b @ CHR ''.'' # c))"
      using 2 shape by simp
    ultimately have "hd (split CHR ''.'' (tok[i := d])) \<noteq> ''v1''"
      by (simp only: split_hd_changed) simp
    then show ?thesis by (rule decryptJson_version)
  next
    case 3
    have none: "filter (\<lambda>x. x = CHR ''.'') s = []" if "CHR ''.'' \<notin> set s" for s
      using that by (induction s) auto
    have dots: "length (filter (\<lambda>x. x = CHR ''.'') tok) = 3"
      unfolding shape by (simp add: none [OF nd(1)] none [OF nd(2)] none [OF nd(3)])
    have upd: "tok[i := d] = take i tok @ d # drop (Suc i) tok"
      using i by (rule upd_conv_take_nth_drop)
    have orig: "tok = take i tok @ CHR ''.'' # drop (Suc i) tok"
      using id_take_nth_drop [OF i] 3 by simp
    have "length (filter (\<lambda>x. x = CHR ''.'') tok)
            = length (filter (\<lambda>x. x = CHR ''.'') (take i tok)) + 1
              + length (filter (\<lambda>x. x = CHR ''.'') (drop (Suc i) tok))"
      by (subst orig) simp
    moreover have "length (filter (\<lambda>x. x = CHR ''.'') (tok[i := d]))
            = length (filter (\<lambda>x. x = CHR ''.'') (take i tok))
              + length (filter (\<lambda>x. x = CHR ''.'') (drop (Suc i) tok))"
      using d 3 by (simp add: upd)
    ultimately have "length (filter (\<lambda>x. x = CHR ''.'') (tok[i := d])) = 2"
      using dots by simp
    then have "length (split CHR ''.'' (tok[i := d])) < 4"
      by (simp add: split_length)
    then show ?thesis by (rule decryptJson_short)
  qed
qed

text \<open>\<^verbatim>\<open>decryptJson\<close> sees a token only through the bytes that its pieces decode to.\<close>

lemma decryptJson_decoded:
  assumes "split CHR ''.'' token = ''v1'' # a # b # c # r"
      and "split CHR ''.'' token' = ''v1'' # a' # b' # c' # r'"
      and "a \<noteq> []" "b \<noteq> []" "c \<noteq> []" "a' \<noteq> []" "b' \<noteq> []" "c' \<noteq> []"
      and "fromBase64url a' = fromBase64url a" "fromBase64url b' = fromBase64url b"
          "fromBase64url c' = fromBase64url c"
  shows "decryptJson lib token' key = decryptJson lib token key"
  using assms(3-11)
  by (simp only: decryptJson_parts [OF assms(1)] decryptJson_parts [OF assms(2)])

subsection \<open>The example token\<close>

lemma demo_sealed:
  "gcmEncrypt demoLib demoKey demoIv demoPlain = ([81, 8, 68, 8, 16, 27, 87], replicate 16 181)"
  by code_simp

lemma demo_base64:
  "toBase64url demoIv = ''AQIDBAUGBwgJCgsM''"
  "toBase64url (replicate 16 181) = ''tbW1tbW1tbW1tbW1tbW1tQ''"
  "toBase64url [81, 8, 68, 8, 16, 27, 87] = ''UQhECBAbVw''"
  by (code_simp+)

lemma demo_changed_tag: "fromBase64url ''tbW1tbW1tbW1tbW1tbW1tR'' = replicate 16 181"
  by code_simp

lemma demo_init: "cipherInit demoLib demoKey demoIv = None"
  by (simp add: demoLib_def demoKey_def demoIv_def)

lemma demo_opened:
  "gcmDecrypt demoLib demoKey demoIv (replicate 16 181) [81, 8, 68, 8, 16, 27, 87] = Inr demoPlain"
  by code_simp

lemma demo_json:
  "jsonStringify demoLib demoPayload = Inr demoPlain" "jsonParse demoLib demoPlain = Inr demoPayload"
  by (simp_all add: demoLib_def)

lemma demo_token: "encryptJson demoLib demoIv demoPayload demoKey = Inr demoToken"
  by (simp add: encryptJson_def demo_init demo_json demo_sealed demo_base64 demoToken_def
      ENCRYPTION_VERSION_def del: toBase64url.simps)

lemma demo_split:
  "split CHR ''.'' demoToken
     = [''v1'', ''AQIDBAUGBwgJCgsM'', ''tbW1tbW1tbW1tbW1tbW1tQ'', ''UQhECBAbVw'']"
  "split CHR ''.'' (demoToken[41 := CHR ''R''])
     = [''v1'', ''AQIDBAUGBwgJCgsM'', ''tbW1tbW1tbW1tbW1tbW1tR'', ''UQhECBAbVw'']"
  "demoToken ! 41 = CHR ''Q''"
  by (code_simp+)

lemma demo_decoded:
  "fromBase64url ''AQIDBAUGBwgJCgsM'' = demoIv"
  "fromBase64url ''tbW1tbW1tbW1tbW1tbW1tQ'' = replicate 16 181"
  "fromBase64url ''UQhECBAbVw'' = [81, 8, 68, 8, 16, 27, 87]"
  using fromBase64url_toBase64url [of demoIv] fromBase64url_toBase64url [of "replicate 16 181"]
    fromBase64url_toBase64url [of "[81, 8, 68, 8, 16, 27, 87]"]
  by (simp_all only: demo_base64)

lemma demo_opens: "decryptJson demoLib demoToken demoKey = Inr demoPayload"
  by (simp add: decryptJson_parts [OF demo_split(1)] demo_decoded demo_init demo_opened demo_json)

text \<open>
  Claim C6 fails as stated. In the token below the last character of the tag piece is
  \<^verbatim>\<open>Q\<close>; with \<^verbatim>\<open>R\<close> in its place the piece decodes to the same sixteen bytes, because the
  low four bits of that character are not part of any byte, and the changed token opens
  to the value that was sealed.
\<close>

theorem flipped_byte_counterexample:
  "encryptJson demoLib demoIv demoPayload demoKey = Inr demoToken
   \<and> demoToken ! 41 = CHR ''Q''
   \<and> decryptJson demoLib (demoToken[41 := CHR ''R'']) demoKey = Inr demoPayload"
proof -
  have "decryptJson demoLib (demoToken[41 := CHR ''R'']) demoKey = Inr demoPayload"
    by (simp add: decryptJson_parts [OF demo_split(2)] demo_decoded demo_changed_tag demo_init
        demo_opened demo_json)
  with demo_token demo_split(3) show ?thesis by (intro conjI)
qed

text \<open>
  Claim C6, amended. Where the primitives work (the key and the nonce are accepted, the
  value has a JSON text, the cipher returns a ciphertext of the length of that text and a
  16-byte tag and gives the text back for them, and the text parses to the value),
  \<^verbatim>\<open>encryptJson\<close> returns a token that \<^verbatim>\<open>decryptJson\<close> opens to the value. \<^verbatim>\<open>decryptJson\<close>
  fails closed: it returns a value only for a token whose first piece is \<^verbatim>\<open>v1\<close>, whose
  next three pieces are present and not empty, and whose decoded nonce, tag and
  ciphertext the cipher accepts. A token derived from a sealed one by changing a
  character of the version tag or one of the three separators is rejected with the format
  error. (Nothing is promised for a changed character inside a piece: the cipher decides,
  on the decoded bytes.)
\<close>

theorem envelope_round_trip:
  assumes "cipherInit lib key iv = None"
      and "jsonStringify lib v = Inr plain"
      and "gcmEncrypt lib key iv plain = (encrypted, authTag)"
      and "length iv = 12" "length authTag = 16" "length encrypted = length plain" "plain \<noteq> []"
      and "gcmDecrypt lib key iv authTag encrypted = Inr plain"
      and "jsonParse lib plain = Inr v"
  shows "(\<exists>tok. encryptJson lib iv v key = Inr tok
            \<and> decryptJson lib tok key = Inr v
            \<and> (\<forall>i d. i < length tok \<and> d \<noteq> tok ! i \<and> (i < 2 \<or> tok ! i = CHR ''.'') \<longrightarrow>
                  decryptJson lib (tok[i := d]) key
                    = Inl (Error ''Unsupported encrypted payload format'')))
       \<and> (\<forall>token w. decryptJson lib token key = Inr w \<longrightarrow>
            (\<exists>ivRaw authTagRaw encryptedRaw ignored plainText.
               split CHR ''.'' token = ''v1'' # ivRaw # authTagRaw # encryptedRaw # ignored
             \<and> ivRaw \<noteq> [] \<and> authTagRaw \<noteq> [] \<and> encryptedRaw \<noteq> []
             \<and> cipherInit lib key (fromBase64url ivRaw) = None
             \<and> gcmDecrypt lib key (fromBase64url ivRaw) (fromBase64url authTagRaw)
                  (fromBase64url encryptedRaw) = Inr plainText
             \<and> jsonParse lib plainText = Inr w))"
proof (intro conjI allI impI)
  let ?tok = "join ''.'' [ENCRYPTION_VERSION, toBase64url iv, toBase64url authTag,
                          toBase64url encrypted]"
  have enc: "encryptJson lib iv v key = Inr ?tok"
    by (simp add: encryptJson_def assms(1) assms(2) assms(3) del: toBase64url.simps join.simps)
  have sp: "split CHR ''.'' ?tok
              = [''v1'', toBase64url iv, toBase64url authTag, toBase64url encrypted]"
    by (rule split_token(1)) (rule toBase64url_no_dot)+
  have ne: "toBase64url iv \<noteq> []" "toBase64url authTag \<noteq> []" "toBase64url encrypted \<noteq> []"
    using assms(4) assms(5) assms(6) assms(7) by (auto simp: toBase64url_empty)
  have dec: "decryptJson lib ?tok key = Inr v"
    unfolding decryptJson_parts [OF sp] using ne
    by (simp add: fromBase64url_toBase64url assms(1) assms(8) assms(9))
  have caught: "\<forall>i d. i < length ?tok \<and> d \<noteq> ?tok ! i \<and> (i < 2 \<or> ?tok ! i = CHR ''.'') \<longrightarrow>
                  decryptJson lib (?tok[i := d]) key
                    = Inl (Error ''Unsupported encrypted payload format'')"
  proof (intro allI impI)
    fix i d
    assume a: "i < length ?tok \<and> d \<noteq> ?tok ! i \<and> (i < 2 \<or> ?tok ! i = CHR ''.'')"
    show "decryptJson lib (?tok[i := d]) key = Inl (Error ''Unsupported encrypted payload format'')"
      by (rule changed_byte_caught [OF refl toBase64url_no_dot toBase64url_no_dot
            toBase64url_no_dot conjunct1 [OF a] conjunct1 [OF conjunct2 [OF a]]
            conjunct2 [OF conjunct2 [OF a]]])
  qed
  show "\<exists>tok. encryptJson lib iv v key = Inr tok
            \<and> decryptJson lib tok key = Inr v
            \<and> (\<forall>i d. i < length tok \<and> d \<noteq> tok ! i \<and> (i < 2 \<or> tok ! i = CHR ''.'') \<longrightarrow>
                  decryptJson lib (tok[i := d]) key
                    = Inl (Error ''Unsupported encrypted payload format''))"
    by (rule exI [of _ ?tok]) (intro conjI enc dec caught)
next
  fix token w
  assume "decryptJson lib token key = Inr w"
  then show "\<exists>ivRaw authTagRaw encryptedRaw ignored plainText.
               split CHR ''.'' token = ''v1'' # ivRaw # authTagRaw # encryptedRaw # ignored
             \<and> ivRaw \<noteq> [] \<and> authTagRaw \<noteq> [] \<and> encryptedRaw \<noteq> []
             \<and> cipherInit lib key (fromBase64url ivRaw) = None
             \<and> gcmDecrypt lib key (fromBase64url ivRaw) (fromBase64url authTagRaw)
                  (fromBase64url encryptedRaw) = Inr plainText
             \<and> jsonParse lib plainText = Inr w"
    by (rule decryptJson_value)
qed

lemma demo_lengths:
  "length demoIv = 12" "length (replicate 16 (181 :: 8 word)) = 16"
  "length [81, 8, 68, 8, 16, 27, 87 :: 8 word] = length demoPlain" "demoPlain \<noteq> []"
  by (simp_all add: demoIv_def demoPlain_def)

lemma demo_separator: "19 < length demoToken" "demoToken ! 19 = CHR ''.''"
  by (code_simp+)

text \<open>
  The example token opens to the example value; with its first separator replaced by
  \<^verbatim>\<open>x\<close> it is rejected.
\<close>

theorem envelope_round_trip_witness:
  "cipherInit demoLib demoKey demoIv = None
   \<and> jsonStringify demoLib demoPayload = Inr demoPlain
   \<and> gcmEncrypt demoLib demoKey demoIv demoPlain = ([81, 8, 68, 8, 16, 27, 87], replicate 16 181)
   \<and> gcmDecrypt demoLib demoKey demoIv (replicate 16 181) [81, 8, 68, 8, 16, 27, 87] = Inr demoPlain
   \<and> jsonParse demoLib demoPlain = Inr demoPayload
   \<and> encryptJson demoLib demoIv demoPayload demoKey = Inr demoToken
   \<and> decryptJson demoLib demoToken demoKey = Inr demoPayload
   \<and> decryptJson demoLib (demoToken[19 := CHR ''x'']) demoKey
        = Inl (Error ''Unsupported encrypted payload format'')"
proof -
  note r = envelope_round_trip [OF demo_init demo_json(1) demo_sealed demo_lengths demo_opened
      demo_json(2)]
  from conjunct1 [OF r] obtain tok where t: "encryptJson demoLib demoIv demoPayload demoKey = Inr tok"
    and d: "decryptJson demoLib tok demoKey = Inr demoPayload"
    and c: "\<forall>i d. i < length tok \<and> d \<noteq> tok ! i \<and> (i < 2 \<or> tok ! i = CHR ''.'') \<longrightarrow>
                  decryptJson demoLib (tok[i := d]) demoKey
                    = Inl (Error ''Unsupported encrypted payload format'')"
    by (elim exE conjE)
  have tok: "tok = demoToken" using t demo_token by simp
  have 1: "decryptJson demoLib demoToken demoKey = Inr demoPayload"
    using d tok by simp
  have "19 < length demoToken \<and> CHR ''x'' \<noteq> demoToken ! 19 \<and> (19 < (2::nat) \<or> demoToken ! 19 = CHR ''.'')"
    using demo_separator by simp
  then have 2: "decryptJson demoLib (demoToken[19 := CHR ''x'']) demoKey
        = Inl (Error ''Unsupported encrypted payload format'')"
    using c [unfolded tok, rule_format, of 19 "CHR ''x''"] by blast
  from demo_init demo_json(1) demo_sealed demo_opened demo_json(2) demo_token 1 2
  show ?thesis by (intro conjI)
qed

subsection \<open>Pieces after the fourth\<close>

text \<open>
  Whatever the primitives are, a token that \<^verbatim>\<open>encryptJson\<close> produced, followed by a dot
  and any string, decrypts to what the token itself decrypts to.
\<close>

lemma extra_component_same:
  assumes "encryptJson lib iv v key = Inr tok"
  shows "decryptJson lib (tok @ ''.'' @ s) key = decryptJson lib tok key"
proof -
  obtain plain where tok: "tok = join ''.'' [ENCRYPTION_VERSION, toBase64url iv,
                                 toBase64url (snd (gcmEncrypt lib key iv plain)),
                                 toBase64url (fst (gcmEncrypt lib key iv plain))]"
    using encryptJson_token [OF assms] by blast
  have 1: "split CHR ''.'' tok = [''v1'', toBase64url iv,
                                 toBase64url (snd (gcmEncrypt lib key iv plain)),
                                 toBase64url (fst (gcmEncrypt lib key iv plain))]"
    unfolding tok by (rule split_token(1)) (rule toBase64url_no_dot)+
  have 2: "split CHR ''.'' (tok @ ''.'' @ s) = ''v1'' # toBase64url iv
                 # toBase64url (snd (gcmEncrypt lib key iv plain))
                 # toBase64url (fst (gcmEncrypt lib key iv plain)) # split CHR ''.'' s"
    unfolding tok by (rule split_token(2)) (rule toBase64url_no_dot)+
  show ?thesis
    by (rule decryptJson_ignores_rest [OF 1 2])
qed

text \<open>
  Claim C10. Where the primitives work (the key and the nonce are accepted, the value has
  a JSON text, the cipher returns a ciphertext of the length of that text and a 16-byte
  tag and gives the text back for them, and the text parses to the value), \<^verbatim>\<open>encryptJson\<close>
  returns a token, and that token followed by a dot and any string \<open>s\<close> decrypts to the
  value: \<^verbatim>\<open>decryptJson\<close> takes the first four pieces and does not look at the others.
\<close>

theorem extra_component_ignored:
  assumes "cipherInit lib key iv = None"
      and "jsonStringify lib v = Inr plain"
      and "gcmEncrypt lib key iv plain = (encrypted, authTag)"
      and "length iv = 12" "length authTag = 16" "length encrypted = length plain" "plain \<noteq> []"
      and "gcmDecrypt lib key iv authTag encrypted = Inr plain"
      and "jsonParse lib plain = Inr v"
  shows "\<exists>tok. encryptJson lib iv v key = Inr tok
           \<and> (\<forall>s. decryptJson lib (tok @ ''.'' @ s) key = Inr v)"
proof -
  let ?tok = "join ''.'' [ENCRYPTION_VERSION, toBase64url iv, toBase64url authTag,
                          toBase64url encrypted]"
  have enc: "encryptJson lib iv v key = Inr ?tok"
    by (simp add: encryptJson_def assms(1) assms(2) assms(3) del: toBase64url.simps join.simps)
  have ne: "toBase64url iv \<noteq> []" "toBase64url authTag \<noteq> []" "toBase64url encrypted \<noteq> []"
    using assms(4) assms(5) assms(6) assms(7) by (auto simp: toBase64url_empty)
  have dec: "\<forall>s. decryptJson lib (?tok @ ''.'' @ s) key = Inr v"
  proof
    fix s
    have sp: "split CHR ''.'' (?tok @ ''.'' @ s)
                = ''v1'' # toBase64url iv # toBase64url authTag # toBase64url encrypted
                    # split CHR ''.'' s"
      by (rule split_token(2)) (rule toBase64url_no_dot)+
    show "decryptJson lib (?tok @ ''.'' @ s) key = Inr v"
      unfolding decryptJson_parts [OF sp] using ne
      by (simp add: fromBase64url_toBase64url assms(1) assms(8) assms(9))
  qed
  from enc dec show ?thesis by (intro exI [of _ ?tok] conjI)
qed

text \<open>The example token with \<^verbatim>\<open>.extra.pieces\<close> appended opens to the example value.\<close>

theorem extra_component_ignored_witness:
  "cipherInit demoLib demoKey demoIv = None
   \<and> jsonStringify demoLib demoPayload = Inr demoPlain
   \<and> gcmEncrypt demoLib demoKey demoIv demoPlain = ([81, 8, 68, 8, 16, 27, 87], replicate 16 181)
   \<and> gcmDecrypt demoLib demoKey demoIv (replicate 16 181) [81, 8, 68, 8, 16, 27, 87] = Inr demoPlain
   \<and> jsonParse demoLib demoPlain = Inr demoPayload
   \<and> encryptJson demoLib demoIv demoPayload demoKey = Inr demoToken
   \<and> decryptJson demoLib (demoToken @ ''.'' @ ''extra.pieces'') demoKey = Inr demoPayload"
proof -
  from extra_component_ignored [OF demo_init demo_json(1) demo_sealed demo_lengths demo_opened
      demo_json(2)]
  obtain tok where t: "encryptJson demoLib demoIv demoPayload demoKey = Inr tok"
    and d: "\<forall>s. decryptJson demoLib (tok @ ''.'' @ s) demoKey = Inr demoPayload"
    by (elim exE conjE)
  have tok: "tok = demoToken" using t demo_token by simp
  have 1: "decryptJson demoLib (demoToken @ ''.'' @ ''extra.pieces'') demoKey = Inr demoPayload"
    using d [rule_format, of "''extra.pieces''"] unfolding tok .
  from demo_init demo_json(1) demo_sealed demo_opened demo_json(2) demo_token 1
  show ?thesis by (intro conjI)
qed

section \<open>The scheduler\<close>

lemma jobStoreUpdate_lookup:
  "snd (jobStoreUpdate js i mutate) k =
     (if k = i then map_option mutate (js i) else js k)"
  by (simp add: jobStoreUpdate_def Let_def split: option.splits)

lemma cleanupMedia_jobs: "jobs (cleanupMedia env st i) = jobs st"
  by (simp add: cleanupMedia_def Let_def)

lemma cleanupMedia_folder: "joinPath (mediaRoot env) i \<notin> folders (cleanupMedia env st i)"
  by (simp add: cleanupMedia_def Let_def)

lemma cleanupMedia_files:
  "files (cleanupMedia env st i) (joinPath (joinPath (mediaRoot env) i) name) = None"
  by (simp add: cleanupMedia_def Let_def joinPath_def startsWith_def)

lemma markRunning_lookup:
  "jobs (markRunning st job) k =
     (if k = StoredJob.id' job
      then map_option (\<lambda>current. current\<lparr>StoredJob.status := Running,
             StoredJob.attemptCount := StoredJob.attemptCount current + 1\<rparr>) (jobs st k)
      else jobs st k)"
  by (simp add: markRunning_def jobStoreUpdate_lookup)

lemma demo_known: "jobs demoState ''job-1'' = Some demoJob" "jobs demoState ''job-9'' = None"
  by (simp_all add: demoState_def)

lemma demo_stored: "jobs (markRunning demoState demoJob) ''job-1''
    = Some (demoJob\<lparr>StoredJob.status := Running, StoredJob.attemptCount := 1\<rparr>)"
  by (simp add: markRunning_lookup demoState_def demoJob_def)

subsection \<open>Cancelling\<close>

text \<open>What \<^verbatim>\<open>cancel\<close> does, by what it reads and by what its update finds.\<close>

lemma cancel_unknown:
  assumes "jobs st jobId = None"
  shows "cancel env queued st jobId = (Inl (HttpProblem \<lparr>
        type = ''https://api.crosspost.local/problems/not-found'',
        title = ''Job not found'',
        ProblemDetails.status = 404,
        detail = Some (''No job exists with id '' @ jobId)\<rparr>), st)"
  using assms by (simp add: cancel_def jobStoreGet_def notFound_def)

lemma cancel_conflict:
  assumes "jobs st jobId = Some job" "StoredJob.status job \<noteq> Scheduled"
  shows "cancel env queued st jobId = (Inl (HttpProblem \<lparr>
        type = ''https://api.crosspost.local/problems/conflict'',
        title = ''Job cannot be cancelled'',
        ProblemDetails.status = 409,
        detail = Some (''Job '' @ jobId @ '' is '' @ statusName (StoredJob.status job)
          @ '' and can no longer be cancelled'')\<rparr>), st)"
  using assms by (simp add: cancel_def jobStoreGet_def)

lemma cancel_commit:
  assumes "jobs st jobId = Some job" "StoredJob.status job = Scheduled"
      and "jobs (queued st) jobId = Some current"
  shows "cancel env queued st jobId =
           (Inr (toJobSummary (current\<lparr>StoredJob.status := Cancelled,
                   StoredJob.completedAt := Some (isoNow (outside env))\<rparr>)),
            cleanupMedia env
              ((queued st)\<lparr>jobs := (jobs (queued st))(jobId \<mapsto>
                  current\<lparr>StoredJob.status := Cancelled,
                    StoredJob.completedAt := Some (isoNow (outside env))\<rparr>)\<rparr>) jobId)"
  using assms by (simp add: cancel_def jobStoreGet_def jobStoreUpdate_def Let_def)

text \<open>
  When the updates queued ahead leave the job alone, \<^verbatim>\<open>cancel\<close> is the transition of the
  state machine. Cancelling an unknown id fails with the not-found problem (404).
  Cancelling a job whose status is not \<open>scheduled\<close> fails with the conflict problem (409),
  whose detail names the job and the status; the state is unchanged in both cases.
  Cancelling a \<open>scheduled\<close> job succeeds: the stored job becomes \<open>cancelled\<close> with
  \<open>completedAt\<close> set, the summary returned says so, and cancelling again fails with the
  conflict problem that names the status \<open>cancelled\<close>.
\<close>

lemma cancel_undisturbed:
  assumes "jobs (queued st) jobId = jobs st jobId"
  shows "(jobs st jobId = None \<longrightarrow>
      cancel env queued st jobId = (Inl (HttpProblem \<lparr>
        type = ''https://api.crosspost.local/problems/not-found'',
        title = ''Job not found'',
        ProblemDetails.status = 404,
        detail = Some (''No job exists with id '' @ jobId)\<rparr>), st))
   \<and> (\<forall>job. jobs st jobId = Some job \<and> StoredJob.status job \<noteq> Scheduled \<longrightarrow>
      cancel env queued st jobId = (Inl (HttpProblem \<lparr>
        type = ''https://api.crosspost.local/problems/conflict'',
        title = ''Job cannot be cancelled'',
        ProblemDetails.status = 409,
        detail = Some (''Job '' @ jobId @ '' is '' @ statusName (StoredJob.status job)
          @ '' and can no longer be cancelled'')\<rparr>), st))
   \<and> (\<forall>job. jobs st jobId = Some job \<and> StoredJob.status job = Scheduled \<longrightarrow>
      (\<exists>summary st'.
         cancel env queued st jobId = (Inr summary, st')
       \<and> JobSummary.status summary = Cancelled
       \<and> JobSummary.completedAt summary = Some (isoNow (outside env))
       \<and> jobs st' jobId = Some (job\<lparr>StoredJob.status := Cancelled,
                                      StoredJob.completedAt := Some (isoNow (outside env))\<rparr>)
       \<and> (\<forall>env' queued'. cancel env' queued' st' jobId = (Inl (HttpProblem \<lparr>
             type = ''https://api.crosspost.local/problems/conflict'',
             title = ''Job cannot be cancelled'',
             ProblemDetails.status = 409,
             detail = Some (''Job '' @ jobId @ '' is cancelled and can no longer be cancelled'')\<rparr>),
             st'))))"
proof (intro conjI allI impI)
  assume "jobs st jobId = None"
  then show "cancel env queued st jobId = (Inl (HttpProblem \<lparr>
        type = ''https://api.crosspost.local/problems/not-found'',
        title = ''Job not found'',
        ProblemDetails.status = 404,
        detail = Some (''No job exists with id '' @ jobId)\<rparr>), st)"
    by (rule cancel_unknown)
next
  fix job
  assume a: "jobs st jobId = Some job \<and> StoredJob.status job \<noteq> Scheduled"
  show "cancel env queued st jobId = (Inl (HttpProblem \<lparr>
        type = ''https://api.crosspost.local/problems/conflict'',
        title = ''Job cannot be cancelled'',
        ProblemDetails.status = 409,
        detail = Some (''Job '' @ jobId @ '' is '' @ statusName (StoredJob.status job)
          @ '' and can no longer be cancelled'')\<rparr>), st)"
    by (rule cancel_conflict [OF conjunct1 [OF a] conjunct2 [OF a]])
next
  fix job
  assume a: "jobs st jobId = Some job \<and> StoredJob.status job = Scheduled"
  let ?c = "job\<lparr>StoredJob.status := Cancelled,
                 StoredJob.completedAt := Some (isoNow (outside env))\<rparr>"
  let ?st = "cleanupMedia env ((queued st)\<lparr>jobs := (jobs (queued st))(jobId \<mapsto> ?c)\<rparr>) jobId"
  have q: "jobs (queued st) jobId = Some job"
    using assms a by simp
  have c: "cancel env queued st jobId = (Inr (toJobSummary ?c), ?st)"
    by (rule cancel_commit [where queued = queued, OF conjunct1 [OF a] conjunct2 [OF a] q])
  have s1: "JobSummary.status (toJobSummary ?c) = Cancelled"
    by (simp add: toJobSummary_def)
  have s2: "JobSummary.completedAt (toJobSummary ?c) = Some (isoNow (outside env))"
    by (simp add: toJobSummary_def)
  have j: "jobs ?st jobId = Some ?c"
    by (simp add: cleanupMedia_jobs)
  have again: "\<forall>env' queued'. cancel env' queued' ?st jobId = (Inl (HttpProblem \<lparr>
             type = ''https://api.crosspost.local/problems/conflict'',
             title = ''Job cannot be cancelled'',
             ProblemDetails.status = 409,
             detail = Some (''Job '' @ jobId @ '' is cancelled and can no longer be cancelled'')\<rparr>),
             ?st)"
    by (simp add: cancel_def jobStoreGet_def j statusName_def)
  show "\<exists>summary st'.
         cancel env queued st jobId = (Inr summary, st')
       \<and> JobSummary.status summary = Cancelled
       \<and> JobSummary.completedAt summary = Some (isoNow (outside env))
       \<and> jobs st' jobId = Some (job\<lparr>StoredJob.status := Cancelled,
                                      StoredJob.completedAt := Some (isoNow (outside env))\<rparr>)
       \<and> (\<forall>env' queued'. cancel env' queued' st' jobId = (Inl (HttpProblem \<lparr>
             type = ''https://api.crosspost.local/problems/conflict'',
             title = ''Job cannot be cancelled'',
             ProblemDetails.status = 409,
             detail = Some (''Job '' @ jobId @ '' is cancelled and can no longer be cancelled'')\<rparr>),
             st'))"
    by (rule exI [of _ "toJobSummary ?c"], rule exI [of _ ?st]) (intro conjI c s1 s2 j again)
qed

text \<open>
  With nothing queued: an unknown id, the example job while it is scheduled, the same job
  once cancelled, and the same job once it is running.
\<close>

lemma cancel_undisturbed_example:
  "cancel (demoEnv allDown) (\<lambda>s. s) demoState ''job-9'' = (Inl (HttpProblem \<lparr>
        type = ''https://api.crosspost.local/problems/not-found'',
        title = ''Job not found'',
        ProblemDetails.status = 404,
        detail = Some ''No job exists with id job-9''\<rparr>), demoState)
   \<and> (\<exists>summary st'.
         cancel (demoEnv allDown) (\<lambda>s. s) demoState ''job-1'' = (Inr summary, st')
       \<and> JobSummary.status summary = Cancelled
       \<and> JobSummary.completedAt summary = Some ''2023-11-14T22:13:20.000Z''
       \<and> cancel (demoEnv allDown) (\<lambda>s. s) st' ''job-1'' = (Inl (HttpProblem \<lparr>
             type = ''https://api.crosspost.local/problems/conflict'',
             title = ''Job cannot be cancelled'',
             ProblemDetails.status = 409,
             detail = Some ''Job job-1 is cancelled and can no longer be cancelled''\<rparr>), st'))
   \<and> cancel (demoEnv allDown) (\<lambda>s. s) (markRunning demoState demoJob) ''job-1''
       = (Inl (HttpProblem \<lparr>
        type = ''https://api.crosspost.local/problems/conflict'',
        title = ''Job cannot be cancelled'',
        ProblemDetails.status = 409,
        detail = Some ''Job job-1 is running and can no longer be cancelled''\<rparr>),
        markRunning demoState demoJob)"
proof -
  have s: "StoredJob.status demoJob = Scheduled" by (simp add: demoJob_def)
  have now: "isoNow (outside (demoEnv allDown)) = ''2023-11-14T22:13:20.000Z''"
    by (simp add: demoEnv_def onlineWorld_def)
  have 1: "cancel (demoEnv allDown) (\<lambda>s. s) demoState ''job-9'' = (Inl (HttpProblem \<lparr>
        type = ''https://api.crosspost.local/problems/not-found'',
        title = ''Job not found'',
        ProblemDetails.status = 404,
        detail = Some ''No job exists with id job-9''\<rparr>), demoState)"
    using cancel_unknown [OF demo_known(2), of "demoEnv allDown" "\<lambda>s. s"] by simp
  from cancel_undisturbed [of "\<lambda>s. s" demoState "''job-1''" "demoEnv allDown", OF refl,
      THEN conjunct2, THEN conjunct2, rule_format, OF conjI [OF demo_known(1) s]]
  obtain summary st' where
      c: "cancel (demoEnv allDown) (\<lambda>s. s) demoState ''job-1'' = (Inr summary, st')"
      "JobSummary.status summary = Cancelled"
      "JobSummary.completedAt summary = Some (isoNow (outside (demoEnv allDown)))"
      and again: "\<forall>env' queued'. cancel env' queued' st' ''job-1'' = (Inl (HttpProblem \<lparr>
             type = ''https://api.crosspost.local/problems/conflict'',
             title = ''Job cannot be cancelled'',
             ProblemDetails.status = 409,
             detail = Some (''Job '' @ ''job-1'' @ '' is cancelled and can no longer be cancelled'')\<rparr>),
             st')"
    by (elim exE conjE)
  have 2: "\<exists>summary st'.
         cancel (demoEnv allDown) (\<lambda>s. s) demoState ''job-1'' = (Inr summary, st')
       \<and> JobSummary.status summary = Cancelled
       \<and> JobSummary.completedAt summary = Some ''2023-11-14T22:13:20.000Z''
       \<and> cancel (demoEnv allDown) (\<lambda>s. s) st' ''job-1'' = (Inl (HttpProblem \<lparr>
             type = ''https://api.crosspost.local/problems/conflict'',
             title = ''Job cannot be cancelled'',
             ProblemDetails.status = 409,
             detail = Some ''Job job-1 is cancelled and can no longer be cancelled''\<rparr>), st')"
    using c again [rule_format, of "demoEnv allDown" "\<lambda>s. s"]
    by (intro exI [of _ summary] exI [of _ st']) (simp add: now)
  have run: "StoredJob.status (demoJob\<lparr>StoredJob.status := Running, StoredJob.attemptCount := 1\<rparr>)
          \<noteq> Scheduled"
    by simp
  have 3: "cancel (demoEnv allDown) (\<lambda>s. s) (markRunning demoState demoJob) ''job-1''
       = (Inl (HttpProblem \<lparr>
        type = ''https://api.crosspost.local/problems/conflict'',
        title = ''Job cannot be cancelled'',
        ProblemDetails.status = 409,
        detail = Some ''Job job-1 is running and can no longer be cancelled''\<rparr>),
        markRunning demoState demoJob)"
    using cancel_conflict [OF demo_stored run, of "demoEnv allDown" "\<lambda>s. s"]
    by (simp add: statusName_def)
  from 1 2 3 show ?thesis by (intro conjI)
qed

lemma loadSegments_missing:
  assumes "fs (path item) = None"
  shows "loadSegments fs persistedSegments (item # rest)
           = Inl (Error (''ENOENT: no such file or directory, open '' @ [CHR 0x27]
                    @ path item @ [CHR 0x27]))"
  using assms by (simp add: loadSegments_def)

lemma demo_media_path:
  "joinPath (mediaRoot (demoEnv pubs)) ''job-1'' = ''.data/scheduled-media/job-1''"
  by (simp add: joinPath_def demoEnv_def)

text \<open>
  Claim C7 holds of \<^verbatim>\<open>cancel\<close> when no update of the job is queued ahead of its own (the
  lemmas above), and the code breaks it otherwise: the status is tested on what
  \<^verbatim>\<open>jobStore.get\<close> returned, and the update that follows does not test it again. In the
  example the job is \<open>scheduled\<close> when \<^verbatim>\<open>cancel\<close> reads it, and the first update of
  \<^verbatim>\<open>processJob\<close>, queued before the update of \<^verbatim>\<open>cancel\<close>, marks it \<open>running\<close>. The update
  of \<^verbatim>\<open>cancel\<close> then finds the running job: no conflict is raised, \<^verbatim>\<open>cancel\<close> returns a
  summary that says \<open>cancelled\<close> (after one attempt), the stored job goes from \<open>running\<close>
  to \<open>cancelled\<close>, and the media of the job are deleted, so that the run that is under way
  fails when it reads them. Had \<^verbatim>\<open>cancel\<close> read the job after that update, it would have
  raised the conflict that names \<open>running\<close>.
\<close>

theorem cancel_overwrites_running:
  "map_option StoredJob.status (jobs demoState ''job-1'') = Some Scheduled
   \<and> map_option StoredJob.status (jobs (markRunning demoState demoJob) ''job-1'') = Some Running
   \<and> (\<exists>summary st'.
         cancel (demoEnv allDown) (\<lambda>s. markRunning s demoJob) demoState ''job-1''
           = (Inr summary, st')
       \<and> JobSummary.status summary = Cancelled
       \<and> JobSummary.attemptCount summary = 1
       \<and> map_option StoredJob.status (jobs st' ''job-1'') = Some Cancelled
       \<and> ''.data/scheduled-media/job-1'' \<notin> folders st'
       \<and> files st' ''.data/scheduled-media/job-1/1-cat.png'' = None
       \<and> fst (attempt (demoEnv allDown) st' demoJob)
           = Inl (Error (''ENOENT: no such file or directory, open '' @ [CHR 0x27]
                    @ ''.data/scheduled-media/job-1/1-cat.png'' @ [CHR 0x27])))
   \<and> fst (cancel (demoEnv allDown) (\<lambda>s. s) (markRunning demoState demoJob) ''job-1'')
       = Inl (HttpProblem \<lparr>
           type = ''https://api.crosspost.local/problems/conflict'',
           title = ''Job cannot be cancelled'',
           ProblemDetails.status = 409,
           detail = Some ''Job job-1 is running and can no longer be cancelled''\<rparr>)"
proof -
  let ?running = "demoJob\<lparr>StoredJob.status := Running, StoredJob.attemptCount := 1\<rparr>"
  let ?cancelled = "?running\<lparr>StoredJob.status := Cancelled,
      StoredJob.completedAt := Some (isoNow (outside (demoEnv allDown)))\<rparr>"
  let ?st = "cleanupMedia (demoEnv allDown)
      ((markRunning demoState demoJob)\<lparr>jobs :=
         (jobs (markRunning demoState demoJob))(''job-1'' \<mapsto> ?cancelled)\<rparr>) ''job-1''"
  have s: "StoredJob.status demoJob = Scheduled" by (simp add: demoJob_def)
  have 1: "map_option StoredJob.status (jobs demoState ''job-1'') = Some Scheduled"
    by (simp add: demo_known s)
  have 2: "map_option StoredJob.status (jobs (markRunning demoState demoJob) ''job-1'') = Some Running"
    by (simp add: demo_stored)
  have c: "cancel (demoEnv allDown) (\<lambda>s. markRunning s demoJob) demoState ''job-1''
             = (Inr (toJobSummary ?cancelled), ?st)"
    by (rule cancel_commit [where queued = "\<lambda>s. markRunning s demoJob",
          OF demo_known(1) s demo_stored])
  have a: "JobSummary.status (toJobSummary ?cancelled) = Cancelled"
    by (simp add: toJobSummary_def)
  have b: "JobSummary.attemptCount (toJobSummary ?cancelled) = 1"
    by (simp add: toJobSummary_def)
  have j: "map_option StoredJob.status (jobs ?st ''job-1'') = Some Cancelled"
    by (simp add: cleanupMedia_jobs)
  have d: "''.data/scheduled-media/job-1'' \<notin> folders ?st"
    using cleanupMedia_folder [of "demoEnv allDown" "''job-1''"]
    by (simp add: demo_media_path)
  have f: "files ?st ''.data/scheduled-media/job-1/1-cat.png'' = None"
    by (simp add: cleanupMedia_def Let_def joinPath_def demoEnv_def startsWith_def)
  have o: "decryptJson (node (demoEnv allDown)) (encryptedPayload demoJob)
             (encryptionKey (demoEnv allDown)) = Inr demoPayload"
    by (simp add: demoEnv_def demoJob_def demo_opens)
  have l: "loadSegments (files ?st) (ScheduledJobPayload.segments demoPayload)
             (StoredJob.media demoJob)
           = Inl (Error (''ENOENT: no such file or directory, open '' @ [CHR 0x27]
                    @ ''.data/scheduled-media/job-1/1-cat.png'' @ [CHR 0x27]))"
  proof -
    have m: "StoredJob.media demoJob = [demoRef]" by (simp add: demoJob_def)
    have r: "path demoRef = ''.data/scheduled-media/job-1/1-cat.png''" by (simp add: demoRef_def)
    have "files ?st (path demoRef) = None" unfolding r by (rule f)
    then show ?thesis unfolding m r [symmetric] by (rule loadSegments_missing)
  qed
  have t: "fst (attempt (demoEnv allDown) ?st demoJob)
           = Inl (Error (''ENOENT: no such file or directory, open '' @ [CHR 0x27]
                    @ ''.data/scheduled-media/job-1/1-cat.png'' @ [CHR 0x27]))"
    unfolding attempt_def o sum.case l by simp
  have 3: "\<exists>summary st'.
         cancel (demoEnv allDown) (\<lambda>s. markRunning s demoJob) demoState ''job-1''
           = (Inr summary, st')
       \<and> JobSummary.status summary = Cancelled
       \<and> JobSummary.attemptCount summary = 1
       \<and> map_option StoredJob.status (jobs st' ''job-1'') = Some Cancelled
       \<and> ''.data/scheduled-media/job-1'' \<notin> folders st'
       \<and> files st' ''.data/scheduled-media/job-1/1-cat.png'' = None
       \<and> fst (attempt (demoEnv allDown) st' demoJob)
           = Inl (Error (''ENOENT: no such file or directory, open '' @ [CHR 0x27]
                    @ ''.data/scheduled-media/job-1/1-cat.png'' @ [CHR 0x27]))"
    by (rule exI [of _ "toJobSummary ?cancelled"], rule exI [of _ ?st])
       (intro conjI c a b j d f t)
  have run: "StoredJob.status ?running \<noteq> Scheduled"
    by simp
  have 4: "fst (cancel (demoEnv allDown) (\<lambda>s. s) (markRunning demoState demoJob) ''job-1'')
       = Inl (HttpProblem \<lparr>
           type = ''https://api.crosspost.local/problems/conflict'',
           title = ''Job cannot be cancelled'',
           ProblemDetails.status = 409,
           detail = Some ''Job job-1 is running and can no longer be cancelled''\<rparr>)"
    using cancel_conflict [OF demo_stored run, of "demoEnv allDown" "\<lambda>s. s"]
    by (simp add: statusName_def)
  from 1 2 3 4 show ?thesis by (intro conjI)
qed

subsection \<open>Running a due job\<close>

lemma markRunning_disk:
  "files (markRunning st job) = files st" "folders (markRunning st job) = folders st"
  "mastodonLimitsCache (markRunning st job) = mastodonLimitsCache st"
  by (simp_all add: markRunning_def)

text \<open>The two ways out of \<^verbatim>\<open>processJob\<close>.\<close>

lemma processJob_failed:
  assumes "fst (attempt env (markRunning st job) job) = Inl error"
  shows "folders (processJob env st job) = folders st"
    and "files (processJob env st job) = files st"
    and "jobs (processJob env st job) k =
           (if k = StoredJob.id' job
            then map_option (\<lambda>current. current\<lparr>StoredJob.status := Failed,
                   StoredJob.completedAt := Some (isoNow (outside env)),
                   StoredJob.lastError := Some (messageOrString error)\<rparr>)
                   (jobs (markRunning st job) k)
            else jobs (markRunning st job) k)"
proof -
  obtain c where a: "attempt env (markRunning st job) job = (Inl error, c)"
    using assms by (cases "attempt env (markRunning st job) job") simp
  show "folders (processJob env st job) = folders st"
    by (simp add: processJob_def a Let_def markRunning_disk)
  show "files (processJob env st job) = files st"
    by (simp add: processJob_def a Let_def markRunning_disk)
  show "jobs (processJob env st job) k =
           (if k = StoredJob.id' job
            then map_option (\<lambda>current. current\<lparr>StoredJob.status := Failed,
                   StoredJob.completedAt := Some (isoNow (outside env)),
                   StoredJob.lastError := Some (messageOrString error)\<rparr>)
                   (jobs (markRunning st job) k)
            else jobs (markRunning st job) k)"
    by (simp add: processJob_def a Let_def jobStoreUpdate_lookup)
qed

lemma processJob_done:
  assumes "fst (attempt env (markRunning st job) job) = Inr result"
  shows "joinPath (mediaRoot env) (StoredJob.id' job) \<notin> folders (processJob env st job)"
    and "jobs (processJob env st job) k =
           (if k = StoredJob.id' job
            then map_option (\<lambda>current. current\<lparr>
                   StoredJob.status := (if overall result = OverallSuccess then Succeeded else Partial),
                   StoredJob.completedAt := Some (isoNow (outside env)),
                   StoredJob.deliveries := Some (CrosspostDispatchResult.deliveries result),
                   StoredJob.lastError := None\<rparr>)
                   (jobs (markRunning st job) k)
            else jobs (markRunning st job) k)"
proof -
  obtain c where a: "attempt env (markRunning st job) job = (Inr result, c)"
    using assms by (cases "attempt env (markRunning st job) job") simp
  show "joinPath (mediaRoot env) (StoredJob.id' job) \<notin> folders (processJob env st job)"
    by (simp add: processJob_def a Let_def cleanupMedia_folder)
  show "jobs (processJob env st job) k =
           (if k = StoredJob.id' job
            then map_option (\<lambda>current. current\<lparr>
                   StoredJob.status := (if overall result = OverallSuccess then Succeeded else Partial),
                   StoredJob.completedAt := Some (isoNow (outside env)),
                   StoredJob.deliveries := Some (CrosspostDispatchResult.deliveries result),
                   StoredJob.lastError := None\<rparr>)
                   (jobs (markRunning st job) k)
            else jobs (markRunning st job) k)"
    by (simp add: processJob_def a Let_def cleanupMedia_jobs jobStoreUpdate_lookup)
qed

lemma sameIdentity_refl: "sameIdentity j j"
  by (simp add: sameIdentity_def)

lemma sameIdentity_trans: "sameIdentity a b \<Longrightarrow> sameIdentity b c \<Longrightarrow> sameIdentity a c"
  by (simp add: sameIdentity_def)

lemma sameIdentity_only:
  "sameIdentity before after \<longleftrightarrow>
     after = before\<lparr>StoredJob.status := StoredJob.status after,
                    StoredJob.attemptCount := StoredJob.attemptCount after,
                    StoredJob.completedAt := StoredJob.completedAt after,
                    StoredJob.lastError := StoredJob.lastError after,
                    StoredJob.deliveries := StoredJob.deliveries after\<rparr>"
proof
  assume "sameIdentity before after"
  then show "after = before\<lparr>StoredJob.status := StoredJob.status after,
                    StoredJob.attemptCount := StoredJob.attemptCount after,
                    StoredJob.completedAt := StoredJob.completedAt after,
                    StoredJob.lastError := StoredJob.lastError after,
                    StoredJob.deliveries := StoredJob.deliveries after\<rparr>"
    by (cases before, cases after) (simp add: sameIdentity_def)
next
  assume a: "after = before\<lparr>StoredJob.status := StoredJob.status after,
                    StoredJob.attemptCount := StoredJob.attemptCount after,
                    StoredJob.completedAt := StoredJob.completedAt after,
                    StoredJob.lastError := StoredJob.lastError after,
                    StoredJob.deliveries := StoredJob.deliveries after\<rparr>"
  show "sameIdentity before after"
    by (subst a, subst (2) a, subst (3) a, subst (4) a, subst (5) a) (simp add: sameIdentity_def)
qed

text \<open>
  Claim C9. Each store update of \<^verbatim>\<open>processJob\<close>, the first one that marks the job as
  running and the last one that records the result, leaves \<open>id\<close>, \<open>createdAt\<close>, \<open>runAt\<close>,
  \<open>encryptedPayload\<close> and \<open>media\<close> of every stored job as they were: a job that was in the
  store is still there after each update, and its record differs from the one before
  at most in \<open>status\<close>, \<open>attemptCount\<close>, \<open>completedAt\<close>, \<open>lastError\<close> and \<open>deliveries\<close>. No
  job is added.
\<close>

theorem processJob_frame:
  "(\<forall>k before. jobs st k = Some before \<longrightarrow>
      (\<exists>running after.
          jobs (markRunning st job) k = Some running
        \<and> jobs (processJob env st job) k = Some after
        \<and> sameIdentity before running
        \<and> sameIdentity running after
        \<and> after = before\<lparr>StoredJob.status := StoredJob.status after,
                          StoredJob.attemptCount := StoredJob.attemptCount after,
                          StoredJob.completedAt := StoredJob.completedAt after,
                          StoredJob.lastError := StoredJob.lastError after,
                          StoredJob.deliveries := StoredJob.deliveries after\<rparr>))
   \<and> (\<forall>k. jobs st k = None \<longrightarrow>
         jobs (markRunning st job) k = None \<and> jobs (processJob env st job) k = None)"
proof -
  have step: "\<And>k. jobs (processJob env st job) k = None \<and> jobs (markRunning st job) k = None
      \<or> (\<exists>running after. jobs (markRunning st job) k = Some running
            \<and> jobs (processJob env st job) k = Some after \<and> sameIdentity running after)"
  proof -
    fix k
    show "jobs (processJob env st job) k = None \<and> jobs (markRunning st job) k = None
      \<or> (\<exists>running after. jobs (markRunning st job) k = Some running
            \<and> jobs (processJob env st job) k = Some after \<and> sameIdentity running after)"
    proof (cases "fst (attempt env (markRunning st job) job)")
      case (Inl error)
      show ?thesis
        unfolding processJob_failed(3) [OF Inl]
        by (cases "jobs (markRunning st job) k") (auto simp: sameIdentity_def)
    next
      case (Inr result)
      show ?thesis
        unfolding processJob_done(2) [OF Inr]
        by (cases "jobs (markRunning st job) k") (auto simp: sameIdentity_def)
    qed
  qed
  have first: "\<And>k. jobs (markRunning st job) k = None \<and> jobs st k = None
      \<or> (\<exists>before running. jobs st k = Some before
            \<and> jobs (markRunning st job) k = Some running \<and> sameIdentity before running)"
  proof -
    fix k
    show "jobs (markRunning st job) k = None \<and> jobs st k = None
      \<or> (\<exists>before running. jobs st k = Some before
            \<and> jobs (markRunning st job) k = Some running \<and> sameIdentity before running)"
      unfolding markRunning_lookup
      by (cases "jobs st k") (auto simp: sameIdentity_def)
  qed
  have A: "\<forall>k before. jobs st k = Some before \<longrightarrow>
      (\<exists>running after.
          jobs (markRunning st job) k = Some running
        \<and> jobs (processJob env st job) k = Some after
        \<and> sameIdentity before running
        \<and> sameIdentity running after
        \<and> after = before\<lparr>StoredJob.status := StoredJob.status after,
                          StoredJob.attemptCount := StoredJob.attemptCount after,
                          StoredJob.completedAt := StoredJob.completedAt after,
                          StoredJob.lastError := StoredJob.lastError after,
                          StoredJob.deliveries := StoredJob.deliveries after\<rparr>)"
  proof (intro allI impI)
    fix k before
    assume b: "jobs st k = Some before"
    from first [of k] b obtain running where r: "jobs (markRunning st job) k = Some running"
      "sameIdentity before running" by auto
    from step [of k] r(1) obtain after where a: "jobs (processJob env st job) k = Some after"
      "sameIdentity running after" by auto
    have "sameIdentity before after"
      using r(2) a(2) by (rule sameIdentity_trans)
    then have only: "after = before\<lparr>StoredJob.status := StoredJob.status after,
                          StoredJob.attemptCount := StoredJob.attemptCount after,
                          StoredJob.completedAt := StoredJob.completedAt after,
                          StoredJob.lastError := StoredJob.lastError after,
                          StoredJob.deliveries := StoredJob.deliveries after\<rparr>"
      by (simp only: sameIdentity_only [symmetric])
    show "\<exists>running after.
          jobs (markRunning st job) k = Some running
        \<and> jobs (processJob env st job) k = Some after
        \<and> sameIdentity before running
        \<and> sameIdentity running after
        \<and> after = before\<lparr>StoredJob.status := StoredJob.status after,
                          StoredJob.attemptCount := StoredJob.attemptCount after,
                          StoredJob.completedAt := StoredJob.completedAt after,
                          StoredJob.lastError := StoredJob.lastError after,
                          StoredJob.deliveries := StoredJob.deliveries after\<rparr>"
      by (rule exI [of _ running], rule exI [of _ after]) (intro conjI r a only)
  qed
  have B: "\<forall>k. jobs st k = None \<longrightarrow>
         jobs (markRunning st job) k = None \<and> jobs (processJob env st job) k = None"
  proof (intro allI impI)
    fix k
    assume n: "jobs st k = None"
    from first [of k] n have m: "jobs (markRunning st job) k = None" by auto
    from step [of k] m have "jobs (processJob env st job) k = None" by auto
    with m show "jobs (markRunning st job) k = None \<and> jobs (processJob env st job) k = None"
      by simp
  qed
  from A B show ?thesis by (rule conjI)
qed

text \<open>
  The example job goes through both updates with its identity, payload and media
  references unchanged.
\<close>

theorem processJob_frame_witness:
  "jobs demoState ''job-1'' = Some demoJob
   \<and> (\<exists>running after.
          jobs (markRunning demoState demoJob) ''job-1'' = Some running
        \<and> jobs (processJob (demoEnv allDown) demoState demoJob) ''job-1'' = Some after
        \<and> sameIdentity demoJob running
        \<and> sameIdentity running after
        \<and> StoredJob.id' after = ''job-1''
        \<and> encryptedPayload after = demoToken
        \<and> StoredJob.media after = [demoRef])"
proof -
  from processJob_frame [of demoState demoJob "demoEnv allDown", THEN conjunct1, rule_format,
      OF demo_known(1)]
  obtain running after where
      r: "jobs (markRunning demoState demoJob) ''job-1'' = Some running"
      and a: "jobs (processJob (demoEnv allDown) demoState demoJob) ''job-1'' = Some after"
      and s1: "sameIdentity demoJob running" and s2: "sameIdentity running after"
    by (elim exE conjE)
  have "sameIdentity demoJob after"
    using s1 s2 by (rule sameIdentity_trans)
  then have f: "StoredJob.id' after = ''job-1''" "encryptedPayload after = demoToken"
      "StoredJob.media after = [demoRef]"
    by (simp_all add: sameIdentity_def demoJob_def)
  have "\<exists>running after.
          jobs (markRunning demoState demoJob) ''job-1'' = Some running
        \<and> jobs (processJob (demoEnv allDown) demoState demoJob) ''job-1'' = Some after
        \<and> sameIdentity demoJob running
        \<and> sameIdentity running after
        \<and> StoredJob.id' after = ''job-1''
        \<and> encryptedPayload after = demoToken
        \<and> StoredJob.media after = [demoRef]"
    by (rule exI [of _ running], rule exI [of _ after]) (intro conjI r a s1 s2 f)
  with demo_known(1) show ?thesis by (rule conjI)
qed

subsection \<open>The example job\<close>

lemma demo_loaded:
  "loadSegments (files demoState) (ScheduledJobPayload.segments demoPayload)
     (StoredJob.media demoJob) = Inr (PublishRequest.segments demoRequest)"
  by (simp add: loadSegments_def demoState_def demoPayload_def demoJob_def demoRef_def
      demoRequest_def)

lemma demo_attempt:
  "attempt (demoEnv pubs) (markRunning demoState demoJob) demoJob
     = dispatch onlineWorld pubs Map.empty demoRequest"
proof -
  have d: "decryptJson (node (demoEnv pubs)) (encryptedPayload demoJob) (encryptionKey (demoEnv pubs))
             = Inr demoPayload"
    by (simp add: demoEnv_def demoJob_def demo_opens)
  have r: "\<lparr>PublishRequest.targets = ScheduledJobPayload.targets demoPayload,
            PublishRequest.segments = PublishRequest.segments demoRequest,
            PublishRequest.clientRequestId = ScheduledJobPayload.clientRequestId demoPayload\<rparr>
           = demoRequest"
    by (simp add: demoRequest_def demoPayload_def)
  have c: "mastodonLimitsCache demoState = Map.empty"
    by (simp add: demoState_def)
  have e: "outside (demoEnv pubs) = onlineWorld" "publishing (demoEnv pubs) = pubs"
    by (simp_all add: demoEnv_def)
  show ?thesis
    by (simp add: attempt_def d markRunning_disk demo_loaded r c e)
qed

lemma demo_image:
  "acceptable \<lparr>PostSegment.text' = hello,
         PostSegment.media = [\<lparr>buffer = [0x89, 0x50, 0x4E, 0x47],
            IncomingMedia.fileName = ''1-cat.png'', IncomingMedia.mimeType = ''image/png'',
            IncomingMedia.altText = None\<rparr>]\<rparr>"
  by (simp add: acceptable_def unsupported_def images_def videos_def isImage_def isVideo_def
      toLowerCase_examples startsWith_def)

lemma demo_local: "validateLocal demoRequest = Inr ()"
proof -
  have m: "validateBlueskyMedia (PublishRequest.segments demoRequest) = Inr ()"
    using validateBlueskyMediaFrom_ok [of 0 "PublishRequest.segments demoRequest"]
    by (simp add: validateBlueskyMedia_def demoRequest_def demo_image)
  have s: "assertNonEmptySegments (PublishRequest.segments demoRequest) = Inr ()"
    by (simp add: assertNonEmptySegments_ok demoRequest_def hello_not_blank)
  have x: "checkXLength 0 (PublishRequest.segments demoRequest) = Inr ()"
    by (rule checkXLength_pass) (simp add: demoRequest_def hello_count)
  have b: "checkBlueskyLength 0 (PublishRequest.segments demoRequest) = Inr ()"
    by (simp add: demoRequest_def hello_count BLUESKY_MAX_CHARACTERS_def)
  show ?thesis
    by (simp add: validateLocal_def s x b m andThen_def)
qed

lemma demo_valid: "fst (validate onlineWorld Map.empty demoRequest) = Inr ()"
proof -
  obtain c where f: "fetchMastodonInstanceLimits onlineWorld Map.empty ''https://social.example/''
      (Some ''token'') = (Inr \<lparr>MastodonInstanceLimits.instanceUrl = ''https://social.example'',
            maxCharacters = 500, maxMediaAttachments = 4, charactersReservedPerUrl = 23,
            supportedMimeTypes = [], imageSizeLimit = 0, videoSizeLimit = 0,
            fetchedAt = ''2023-11-14T22:13:20.000Z''\<rparr>, c)"
    using hello_limits
    by (cases "fetchMastodonInstanceLimits onlineWorld Map.empty ''https://social.example/''
      (Some ''token'')") simp
  have m: "mastodon (PublishRequest.targets demoRequest)
      = Some \<lparr>MastodonTarget.instanceUrl = ''https://social.example/'',
               accessToken = ''token'', visibility = None\<rparr>"
    by (simp add: demoRequest_def allTargets_def)
  have k: "checkMastodon \<lparr>MastodonInstanceLimits.instanceUrl = ''https://social.example'',
            maxCharacters = 500, maxMediaAttachments = 4, charactersReservedPerUrl = 23,
            supportedMimeTypes = [], imageSizeLimit = 0, videoSizeLimit = 0,
            fetchedAt = ''2023-11-14T22:13:20.000Z''\<rparr> 0 (PublishRequest.segments demoRequest)
          = Inr ()"
    by (simp add: demoRequest_def hello_count)
  show ?thesis
    by (simp add: validate_def demo_local m f k)
qed

lemma demo_calls:
  "publisherCall allDown demoRequest PlatformX = Some (Inl (Error ''X login failed''))"
  "publisherCall allDown demoRequest PlatformBluesky = Some (Inl (Error ''Bluesky session expired''))"
  "publisherCall allDown demoRequest PlatformMastodon = Some (Inl (NonError ''503''))"
  "publisherCall blueskyDown demoRequest PlatformX = Some (Inr (posted PlatformX ''1001''))"
  "publisherCall blueskyDown demoRequest PlatformBluesky = Some (Inl (Error ''Bluesky session expired''))"
  by (simp_all add: publisherCall_def demoRequest_def allTargets_def blueskyDown_def allDown_def)

lemma demo_all_down:
  "fst (attempt (demoEnv allDown) (markRunning demoState demoJob) demoJob) = Inl deliveryFailed"
proof -
  have "\<forall>p. \<not> succeeded allDown demoRequest p"
    unfolding all_platforms by (simp add: succeeded_def demo_calls)
  then show ?thesis
    unfolding demo_attempt dispatch_eq [OF demo_valid] by (rule if_P)
qed

lemma demo_bluesky_down:
  "\<exists>result. fst (attempt (demoEnv blueskyDown) (markRunning demoState demoJob) demoJob) = Inr result
     \<and> overall result = OverallPartial"
proof -
  have some: "\<not> (\<forall>p. \<not> succeeded blueskyDown demoRequest p)"
    using demo_calls(4) by (auto simp: succeeded_def)
  have miss: "\<not> (\<forall>p. requested demoRequest p \<longrightarrow> succeeded blueskyDown demoRequest p)"
    using demo_calls(5) requested_call [of demoRequest PlatformBluesky blueskyDown]
    by (auto simp: succeeded_def)
  show ?thesis
    unfolding demo_attempt dispatch_eq [OF demo_valid] using some miss by simp
qed

text \<open>
  Claim C3 holds for \<open>succeeded\<close>, \<open>partial\<close> and \<open>cancelled\<close>, and the code breaks it for
  \<open>failed\<close>. The example job is due and has one image on disk. When every publisher
  throws, \<^verbatim>\<open>processJob\<close> stores \<open>failed\<close> with the message of the delivery problem, and
  the job's folder and the file in it are still there. When only Bluesky throws, the
  job becomes \<open>partial\<close> and the folder is gone.
\<close>

theorem failed_job_keeps_media:
  "StoredJob.status demoJob = Scheduled
   \<and> map_option StoredJob.status
        (jobs (processJob (demoEnv allDown) demoState demoJob) ''job-1'') = Some Failed
   \<and> map_option StoredJob.lastError
        (jobs (processJob (demoEnv allDown) demoState demoJob) ''job-1'')
        = Some (Some ''None of the target platforms accepted the post. Check per-platform error details.'')
   \<and> ''.data/scheduled-media/job-1'' \<in> folders (processJob (demoEnv allDown) demoState demoJob)
   \<and> files (processJob (demoEnv allDown) demoState demoJob)
        ''.data/scheduled-media/job-1/1-cat.png'' = Some [0x89, 0x50, 0x4E, 0x47]
   \<and> map_option StoredJob.status
        (jobs (processJob (demoEnv blueskyDown) demoState demoJob) ''job-1'') = Some Partial
   \<and> ''.data/scheduled-media/job-1'' \<notin> folders (processJob (demoEnv blueskyDown) demoState demoJob)"
proof -
  have i: "StoredJob.id' demoJob = ''job-1''" by (simp add: demoJob_def)
  have 0: "StoredJob.status demoJob = Scheduled" by (simp add: demoJob_def)
  have 1: "map_option StoredJob.status
        (jobs (processJob (demoEnv allDown) demoState demoJob) ''job-1'') = Some Failed"
    by (simp add: processJob_failed(3) [OF demo_all_down] i demo_stored)
  have 2: "map_option StoredJob.lastError
        (jobs (processJob (demoEnv allDown) demoState demoJob) ''job-1'')
        = Some (Some ''None of the target platforms accepted the post. Check per-platform error details.'')"
    by (simp add: processJob_failed(3) [OF demo_all_down] i demo_stored deliveryFailed_def
        problemMessage_def)
  have 3: "''.data/scheduled-media/job-1'' \<in> folders (processJob (demoEnv allDown) demoState demoJob)"
    unfolding processJob_failed(1) [OF demo_all_down] by (simp add: demoState_def)
  have 4: "files (processJob (demoEnv allDown) demoState demoJob)
        ''.data/scheduled-media/job-1/1-cat.png'' = Some [0x89, 0x50, 0x4E, 0x47]"
    unfolding processJob_failed(2) [OF demo_all_down] by (simp add: demoState_def)
  obtain result where r: "fst (attempt (demoEnv blueskyDown) (markRunning demoState demoJob) demoJob)
      = Inr result" and p: "overall result = OverallPartial"
    using demo_bluesky_down by blast
  have 5: "map_option StoredJob.status
        (jobs (processJob (demoEnv blueskyDown) demoState demoJob) ''job-1'') = Some Partial"
    by (simp add: processJob_done(2) [OF r] i demo_stored p)
  have "joinPath (mediaRoot (demoEnv blueskyDown)) (StoredJob.id' demoJob)
          \<notin> folders (processJob (demoEnv blueskyDown) demoState demoJob)"
    by (rule processJob_done(1) [OF r])
  then have 6: "''.data/scheduled-media/job-1''
          \<notin> folders (processJob (demoEnv blueskyDown) demoState demoJob)"
    by (simp add: demoEnv_def i joinPath_def)
  from 0 1 2 3 4 5 6 show ?thesis by (intro conjI)
qed

end
